theory Spec2Isabelle
  imports Main "HOL-Library.Multiset" "HOL-Library.Sublist"
begin

section \<open>Go values: strings, errors, panics\<close>

text \<open>
  A Go string is a sequence of bytes, here a \<open>char list\<close>. An \<open>error\<close> value carries its
  text; \<open>fmt.Errorf\<close> with the verb \<open>%w\<close> builds an error that has a text of its own and
  wraps the error it was given. A function whose body indexes or slices can panic, and its
  result is then a \<open>go\<close> value.
\<close>

datatype error = New string | Wrap string error

fun Error :: "error \<Rightarrow> string" where
  "Error (New m) = m"
| "Error (Wrap m e) = m"

fun Unwrap :: "error \<Rightarrow> error option" where
  "Unwrap (New m) = None"
| "Unwrap (Wrap m e) = Some e"

datatype 'a go = Return 'a | Panic string

definition nl :: string where
  "nl = [CHR 0x0A]"

definition dquote :: string where
  "dquote = [CHR 0x22]"

fun Join :: "string list \<Rightarrow> string \<Rightarrow> string" where
  "Join [] sep = []"
| "Join [a] sep = a"
| "Join (a # b # rest) sep = a @ sep @ Join (b # rest) sep"

fun showNat :: "nat \<Rightarrow> string" where
  "showNat n =
     (if n < 10 then [''0123456789'' ! n]
      else showNat (n div 10) @ [''0123456789'' ! (n mod 10)])"

declare showNat.simps [simp del]

definition showInt :: "int \<Rightarrow> string" where
  "showInt i = (if i < 0 then ''-'' @ showNat (nat (- i)) else showNat (nat i))"

definition slice :: "string \<Rightarrow> int \<Rightarrow> int \<Rightarrow> string option" where
  "slice s lo hi =
     (if 0 \<le> lo \<and> lo \<le> hi \<and> hi \<le> int (length s)
      then Some (take (nat (hi - lo)) (drop (nat lo) s))
      else None)"

subsection \<open>strings.TrimSpace\<close>

text \<open>
  The UTF-8 encodings of the code points with the Unicode property White_Space, which is
  what \<open>unicode.IsSpace\<close> tests: U+0009 to U+000D, U+0020, U+0085, U+00A0, U+1680,
  U+2000 to U+200A, U+2028, U+2029, U+202F, U+205F and U+3000.
\<close>

definition spaceRunes :: "string list" where
  "spaceRunes =
     [[CHR 0x09], [CHR 0x0A], [CHR 0x0B], [CHR 0x0C], [CHR 0x0D], [CHR 0x20],
      [CHR 0xC2, CHR 0x85], [CHR 0xC2, CHR 0xA0],
      [CHR 0xE1, CHR 0x9A, CHR 0x80],
      [CHR 0xE2, CHR 0x80, CHR 0x80], [CHR 0xE2, CHR 0x80, CHR 0x81],
      [CHR 0xE2, CHR 0x80, CHR 0x82], [CHR 0xE2, CHR 0x80, CHR 0x83],
      [CHR 0xE2, CHR 0x80, CHR 0x84], [CHR 0xE2, CHR 0x80, CHR 0x85],
      [CHR 0xE2, CHR 0x80, CHR 0x86], [CHR 0xE2, CHR 0x80, CHR 0x87],
      [CHR 0xE2, CHR 0x80, CHR 0x88], [CHR 0xE2, CHR 0x80, CHR 0x89],
      [CHR 0xE2, CHR 0x80, CHR 0x8A],
      [CHR 0xE2, CHR 0x80, CHR 0xA8], [CHR 0xE2, CHR 0x80, CHR 0xA9],
      [CHR 0xE2, CHR 0x80, CHR 0xAF], [CHR 0xE2, CHR 0x81, CHR 0x9F],
      [CHR 0xE3, CHR 0x80, CHR 0x80]]"

definition leadingSpace :: "string \<Rightarrow> nat" where
  \<comment> \<open>the number of bytes of the white-space rune that \<open>s\<close> starts with, 0 when it starts with none\<close>
  "leadingSpace s =
     (case find (\<lambda>w. take (length w) s = w) spaceRunes of
        None \<Rightarrow> 0
      | Some w \<Rightarrow> length w)"

definition trailingSpace :: "string \<Rightarrow> nat" where
  \<comment> \<open>the number of bytes of the white-space rune that \<open>s\<close> ends with, 0 when it ends with none\<close>
  "trailingSpace s =
     (case find (\<lambda>w. length w \<le> length s \<and> drop (length s - length w) s = w) spaceRunes of
        None \<Rightarrow> 0
      | Some w \<Rightarrow> length w)"

function TrimLeftSpace :: "string \<Rightarrow> string" where
  "TrimLeftSpace s =
     (if leadingSpace s = 0 \<or> s = [] then s
      else TrimLeftSpace (drop (leadingSpace s) s))"
  by pat_completeness auto
termination
  by (relation "measure length") auto

function TrimRightSpace :: "string \<Rightarrow> string" where
  "TrimRightSpace s =
     (if trailingSpace s = 0 \<or> s = [] then s
      else TrimRightSpace (take (length s - trailingSpace s) s))"
  by pat_completeness auto
termination
  by (relation "measure length") auto

declare TrimLeftSpace.simps [simp del] TrimRightSpace.simps [simp del]

definition TrimSpace :: "string \<Rightarrow> string" where
  "TrimSpace s = TrimRightSpace (TrimLeftSpace s)"


section \<open>The world a run acts on\<close>

text \<open>
  An external command is the name of a binary and its arguments. A file-system node is a
  regular file (its bytes, and whether the process may read and write it) or a directory
  (whether the process may create entries in it); paths are the keys of the file system.
\<close>

type_synonym command = "string \<times> string list"

datatype node = File string bool bool | Dir bool

text \<open>
  The state a run changes: what is left to read on standard input (the bytes each read of
  the terminal or pipe returns, in order; an empty read, or no read left, is the end of
  input), what was written to standard output and standard error (one entry per print
  call), the external commands that were run, in order, and the file system.
\<close>

record state =
  stdin :: "string list"
  stdout :: "string list"
  stderr :: "string list"
  executed :: "command list"
  files :: "string \<rightharpoonup> node"

text \<open>
  What a run is given and cannot change: the command-line flags, the configuration values
  viper resolves (\<open>GetString\<close>, the empty string for a value that is not set), which
  binaries \<open>exec.LookPath\<close> finds, what \<open>cmd.Run()\<close> returns for a command given the
  commands run before it, the orders in which the Go runtime iterates over the two maps of
  \<open>configureGitHub\<close> (the language leaves the order of a \<open>range\<close> over a map unspecified;
  each number selects one order), the value of \<open>rand.Intn(100000)\<close>, what \<open>os.Getwd\<close>
  returns, what \<open>fmt.Sscanf(input, "%d", &n)\<close> scans, and the usage text cobra renders
  for a command, given the path of the command (\<open>UsageString\<close>).

  Every \<open>exec.Command\<close> whose \<open>Run\<close> a command of the tool reaches has no standard output
  and no standard error attached, so what the child writes is discarded and the state
  holds what the tool itself writes.

  Three parts of the repository are not among its source files and are parameters here:
  the two embedded templates of package \<open>embedded\<close>, and the function \<open>promptConfirm\<close>,
  of which the callers show that it takes the question and returns a bool; it is taken to
  read standard input and write standard output only.
\<close>

record env =
  dryRun :: bool
  projectDryRun :: bool
  projectNonInteractive :: bool
  lbDryRun :: bool
  lbNonInteractive :: bool
  GetString :: "string \<Rightarrow> string"
  ConfigFileUsed :: "string option"
  LookPath :: "string \<Rightarrow> bool"
  Run :: "command list \<Rightarrow> command \<Rightarrow> error option"
  secretsOrder :: nat
  variablesOrder :: nat
  Intn :: nat
  Getwd :: "error + string"
  Sscanf_d :: "string \<Rightarrow> int option"
  DeployWorkflow :: string
  EnvTemplate :: string
  promptConfirm :: "string \<Rightarrow> string list \<times> string list \<Rightarrow> bool \<times> string list \<times> string list"
  UsageString :: "string \<Rightarrow> string"

definition Print :: "string \<Rightarrow> state \<Rightarrow> state" where
  "Print text s = s\<lparr>stdout := stdout s @ [text]\<rparr>"

definition Println :: "string \<Rightarrow> state \<Rightarrow> state" where
  "Println text s = Print (text @ nl) s"

definition exec_Run :: "env \<Rightarrow> command \<Rightarrow> state \<Rightarrow> error option \<times> state" where
  \<comment> \<open>\<open>exec.Command(name, args...).Run()\<close>\<close>
  "exec_Run env c s = (Run env (executed s) c, s\<lparr>executed := executed s @ [c]\<rparr>)"

subsection \<open>Reading a line\<close>

text \<open>
  \<open>bufio.Reader.ReadString('\n')\<close> on a reader with the buffered bytes \<open>buf\<close>: the bytes up
  to and including the first newline; without one the reader reads on, and at the end of
  input it returns what it has together with \<open>io.EOF\<close>. The result is the line with the
  error, the bytes left in the reader's buffer, and the input left unread.
\<close>

definition upto_newline :: "string \<Rightarrow> string" where
  "upto_newline buf = takeWhile (\<lambda>c. c \<noteq> CHR 0x0A) buf @ nl"

definition after_newline :: "string \<Rightarrow> string" where
  "after_newline buf = drop 1 (dropWhile (\<lambda>c. c \<noteq> CHR 0x0A) buf)"

fun ReadString :: "string \<Rightarrow> string list \<Rightarrow> (string \<times> error option) \<times> string \<times> string list" where
  "ReadString buf [] =
     (if CHR 0x0A \<in> set buf then ((upto_newline buf, None), after_newline buf, [])
      else ((buf, Some (New ''EOF'')), [], []))"
| "ReadString buf (chunk # rest) =
     (if CHR 0x0A \<in> set buf then ((upto_newline buf, None), after_newline buf, chunk # rest)
      else if chunk = [] then ((buf, Some (New ''EOF'')), [], rest)
      else ReadString (buf @ chunk) rest)"


section \<open>Prompts\<close>

text \<open>
  \<open>promptProject\<close> and \<open>promptLB\<close> make a new reader on standard input at every call, so
  whatever the reader buffered beyond the line is dropped when they return.
\<close>

definition promptProject :: "env \<Rightarrow> string \<Rightarrow> string \<Rightarrow> state \<Rightarrow> string \<times> state" where
  "promptProject env label defaultVal s =
     (if projectNonInteractive env then (defaultVal, s)
      else
        let s1 = Print (label @ '' (default: '' @ defaultVal @ ''): '') s;
            r = ReadString [] (stdin s1);
            input = TrimSpace (fst (fst r));
            s2 = s1\<lparr>stdin := snd (snd r)\<rparr>
        in if input = [] then (defaultVal, s2) else (input, s2))"

definition promptLB :: "env \<Rightarrow> string \<Rightarrow> string \<Rightarrow> state \<Rightarrow> string \<times> state" where
  "promptLB env label defaultVal s =
     (if lbNonInteractive env then (defaultVal, s)
      else
        let s1 = Print (label @ '' (default: '' @ defaultVal @ ''): '') s;
            r = ReadString [] (stdin s1);
            input = TrimSpace (fst (fst r));
            s2 = s1\<lparr>stdin := snd (snd r)\<rparr>
        in if input = [] then (defaultVal, s2) else (input, s2))"

definition randomSuffix :: "env \<Rightarrow> string" where
  "randomSuffix env = showNat (Intn env mod 100000)"


subsection \<open>Files\<close>

text \<open>
  The directory an entry of the path lives in. An entry can be created when that directory
  exists and the process may write to it.
\<close>

definition parent :: "string \<Rightarrow> string" where
  "parent path =
     (if CHR ''/'' \<notin> set path then ''.''
      else
        let d = rev (drop 1 (dropWhile (\<lambda>c. c \<noteq> CHR ''/'') (rev path)))
        in if d = [] then ''/'' else d)"

definition PathError :: "string \<Rightarrow> string \<Rightarrow> string \<Rightarrow> error" where
  "PathError op path text = New (op @ '' '' @ path @ '': '' @ text)"

definition create_error :: "state \<Rightarrow> string \<Rightarrow> string \<Rightarrow> error option" where
  \<comment> \<open>why no entry can be created at \<open>path\<close>, if so\<close>
  "create_error s op path =
     (case files s (parent path) of
        None \<Rightarrow> Some (PathError op path ''no such file or directory'')
      | Some (File c r w) \<Rightarrow> Some (PathError op path ''not a directory'')
      | Some (Dir w) \<Rightarrow> if w then None else Some (PathError op path ''permission denied''))"

definition Stat :: "string \<Rightarrow> state \<Rightarrow> error + node" where
  "Stat path s =
     (case files s path of
        None \<Rightarrow> Inl (PathError ''stat'' path ''no such file or directory'')
      | Some n \<Rightarrow> Inr n)"

definition ReadFile :: "string \<Rightarrow> state \<Rightarrow> error + string" where
  "ReadFile path s =
     (case files s path of
        None \<Rightarrow> Inl (PathError ''open'' path ''no such file or directory'')
      | Some (Dir w) \<Rightarrow> Inl (PathError ''read'' path ''is a directory'')
      | Some (File c r w) \<Rightarrow>
          if r then Inr c else Inl (PathError ''open'' path ''permission denied''))"

definition WriteFile :: "string \<Rightarrow> string \<Rightarrow> state \<Rightarrow> error option \<times> state" where
  \<comment> \<open>\<open>os.WriteFile(path, data, 0644)\<close>: create the file, or truncate it, and write \<open>data\<close>\<close>
  "WriteFile path data s =
     (case files s path of
        None \<Rightarrow>
          (case create_error s ''open'' path of
             Some err \<Rightarrow> (Some err, s)
           | None \<Rightarrow> (None, s\<lparr>files := (files s)(path \<mapsto> File data True True)\<rparr>))
      | Some (Dir w) \<Rightarrow> (Some (PathError ''open'' path ''is a directory''), s)
      | Some (File c r w) \<Rightarrow>
          if w then (None, s\<lparr>files := (files s)(path \<mapsto> File data r w)\<rparr>)
          else (Some (PathError ''open'' path ''permission denied''), s))"

definition OpenFile_append :: "string \<Rightarrow> state \<Rightarrow> error option" where
  \<comment> \<open>\<open>os.OpenFile(path, os.O_APPEND|os.O_WRONLY, 0644)\<close>: the file is not created\<close>
  "OpenFile_append path s =
     (case files s path of
        None \<Rightarrow> Some (PathError ''open'' path ''no such file or directory'')
      | Some (Dir w) \<Rightarrow> Some (PathError ''open'' path ''is a directory'')
      | Some (File c r w) \<Rightarrow>
          if w then None else Some (PathError ''open'' path ''permission denied''))"

definition WriteString_append :: "string \<Rightarrow> string \<Rightarrow> state \<Rightarrow> error option \<times> state" where
  \<comment> \<open>\<open>f.WriteString(text)\<close> on a file opened for appending\<close>
  "WriteString_append path text s =
     (case files s path of
        Some (File c r w) \<Rightarrow> (None, s\<lparr>files := (files s)(path \<mapsto> File (c @ text) r w)\<rparr>)
      | _ \<Rightarrow> (Some (PathError ''write'' path ''bad file descriptor''), s))"

definition Mkdir :: "string \<Rightarrow> state \<Rightarrow> error option \<times> state" where
  "Mkdir path s =
     (case files s path of
        Some n \<Rightarrow> (Some (PathError ''mkdir'' path ''file exists''), s)
      | None \<Rightarrow>
          (case create_error s ''mkdir'' path of
             Some err \<Rightarrow> (Some err, s)
           | None \<Rightarrow> (None, s\<lparr>files := (files s)(path \<mapsto> Dir True)\<rparr>)))"

function MkdirAll :: "string \<Rightarrow> state \<Rightarrow> error option \<times> state" where
  "MkdirAll path s =
     (case files s path of
        Some (Dir w) \<Rightarrow> (None, s)
      | Some (File c r w) \<Rightarrow> (Some (PathError ''mkdir'' path ''not a directory''), s)
      | None \<Rightarrow>
          if length (parent path) < length path
          then (case MkdirAll (parent path) s of
                  (Some err, s1) \<Rightarrow> (Some err, s1)
                | (None, s1) \<Rightarrow> Mkdir path s1)
          else Mkdir path s)"
  by pat_completeness auto
termination
  by (relation "measure (\<lambda>(path, s). length path)") auto

declare MkdirAll.simps [simp del]

definition filepath_Join :: "string \<Rightarrow> string \<Rightarrow> string" where
  \<comment> \<open>\<open>filepath.Join(dir, name)\<close> for a clean directory path, as \<open>os.Getwd\<close> returns\<close>
  "filepath_Join dir name = (if dir = ''/'' then ''/'' @ name else dir @ ''/'' @ name)"


section \<open>The init command: substring search\<close>

text \<open>
  \<open>containsSubstring\<close> is the loop \<open>for i := 0; i <= len(s)-len(substr); i++\<close>; lengths
  and the index are Go ints, and a slice expression out of range panics (\<open>None\<close>).
\<close>

function containsSubstring_loop :: "string \<Rightarrow> string \<Rightarrow> int \<Rightarrow> bool option" where
  "containsSubstring_loop s substr i =
     (if i \<le> int (length s) - int (length substr)
      then (case slice s i (i + int (length substr)) of
              None \<Rightarrow> None
            | Some t \<Rightarrow> if t = substr then Some True
                        else containsSubstring_loop s substr (i + 1))
      else Some False)"
  by pat_completeness auto
termination
  by (relation "measure (\<lambda>(s, substr, i). nat (int (length s) - int (length substr) - i + 1))") auto

declare containsSubstring_loop.simps [simp del]

definition containsSubstring :: "string \<Rightarrow> string \<Rightarrow> bool option" where
  "containsSubstring s substr = containsSubstring_loop s substr 0"

definition contains :: "string \<Rightarrow> string \<Rightarrow> bool option" where
  "contains s substr =
     (if int (length s) \<ge> int (length substr)
      then (if s = substr then Some True
            else if int (length s) > 0 then containsSubstring s substr
            else Some False)
      else Some False)"


section \<open>The init command\<close>

definition check_mark :: string where
  "check_mark = [CHR 0xE2, CHR 0x9C, CHR 0x93]"

definition warning_sign :: string where
  "warning_sign = [CHR 0xE2, CHR 0x9A, CHR 0xA0]"

definition writeFileIfNotExists :: "string \<Rightarrow> string \<Rightarrow> state \<Rightarrow> error option \<times> state" where
  "writeFileIfNotExists path content s =
     (case Stat path s of
        Inr info \<Rightarrow> (Some (New (''file already exists: '' @ path)), s)
      | Inl err \<Rightarrow> WriteFile path content s)"

definition gitignore_entry :: string where
  "gitignore_entry = nl @ ''# GCloud setup'' @ nl @ ''.env.gcloud'' @ nl"

definition appendToGitignore :: "string \<Rightarrow> state \<Rightarrow> error option go \<times> state" where
  "appendToGitignore path s =
     (case ReadFile path s of
        Inr data \<Rightarrow>
          (case contains data ''.env.gcloud'' of
             None \<Rightarrow> (Panic ''slice bounds out of range'', s)
           | Some True \<Rightarrow> (Return None, s)
           | Some False \<Rightarrow>
               (case OpenFile_append path s of
                  Some err \<Rightarrow> (Return (Some err), s)
                | None \<Rightarrow>
                    let (err, s1) = WriteString_append path gitignore_entry s
                    in (Return err, s1)))
      | Inl err \<Rightarrow>
          let (err, s1) = WriteFile path gitignore_entry s
          in (Return err, s1))"

definition runInit :: "env \<Rightarrow> state \<Rightarrow> error option go \<times> state" where
  "runInit env s =
     (case Getwd env of
        Inl err \<Rightarrow>
          (Return (Some (Wrap (''failed to get current directory: '' @ Error err) err)), s)
      | Inr cwd \<Rightarrow>
          let workflowDir = filepath_Join (filepath_Join cwd ''.github'') ''workflows'' in
          (case MkdirAll workflowDir s of
             (Some err, s1) \<Rightarrow>
               (Return (Some (Wrap (''failed to create .github/workflows directory: '' @ Error err) err)), s1)
           | (None, s1) \<Rightarrow>
               let workflowPath = filepath_Join workflowDir ''gcloud-deploy.yml'' in
               (case writeFileIfNotExists workflowPath (DeployWorkflow env) s1 of
                  (Some err, s2) \<Rightarrow> (Return (Some err), s2)
                | (None, s2) \<Rightarrow>
                    let s3 = Println (check_mark @ '' Created '' @ workflowPath) s2;
                        envPath = filepath_Join cwd ''.env.gcloud''
                    in
                    (case writeFileIfNotExists envPath (EnvTemplate env) s3 of
                       (Some err, s4) \<Rightarrow> (Return (Some err), s4)
                     | (None, s4) \<Rightarrow>
                         let s5 = Println (check_mark @ '' Created '' @ envPath) s4;
                             gitignorePath = filepath_Join cwd ''.gitignore''
                         in
                         (case appendToGitignore gitignorePath s5 of
                            (Panic text, s6) \<Rightarrow> (Panic text, s6)
                          | (Return r, s6) \<Rightarrow>
                              let s7 =
                                    (case r of
                                       Some err \<Rightarrow>
                                         Println (warning_sign @ '' Could not update .gitignore: '' @ Error err) s6
                                     | None \<Rightarrow> Println (check_mark @ '' Updated .gitignore'') s6);
                                  s8 = Println [] s7;
                                  s9 = Println ''Next steps:'' s8;
                                  s10 = Println ''  1. Edit .env.gcloud with your project values'' s9;
                                  s11 = Println ''  2. Run: gc setup'' s10
                              in (Return None, s11))))))"


section \<open>The setup command\<close>

record Config =
  ProjectID :: string
  ProjectNumber :: string
  GitHubOrg :: string
  GitHubRepo :: string
  ServiceAccountName :: string
  ServiceAccountEmail :: string
  ArtifactRegistryName :: string
  ArtifactRegistryLocation :: string
  CloudRunService :: string
  CloudRunRegion :: string
  WorkloadIdentityProvider :: string
  ArtifactRegistryURL :: string

definition loadConfig :: "env \<Rightarrow> Config" where
  "loadConfig env =
     (let projectID = GetString env ''GCP_PROJECT_ID'';
          projectNumber = GetString env ''GCP_PROJECT_NUMBER'';
          saName = GetString env ''SERVICE_ACCOUNT_NAME'';
          arLocation = GetString env ''ARTIFACT_REGISTRY_LOCATION'';
          arName = GetString env ''ARTIFACT_REGISTRY_NAME''
      in \<lparr>ProjectID = projectID,
          ProjectNumber = projectNumber,
          GitHubOrg = GetString env ''GITHUB_ORGANIZATION'',
          GitHubRepo = GetString env ''GITHUB_REPOSITORY'',
          ServiceAccountName = saName,
          ServiceAccountEmail = saName @ ''@'' @ projectID @ ''.iam.gserviceaccount.com'',
          ArtifactRegistryName = arName,
          ArtifactRegistryLocation = arLocation,
          CloudRunService = GetString env ''CLOUD_RUN_SERVICE'',
          CloudRunRegion = GetString env ''CLOUD_RUN_REGION'',
          WorkloadIdentityProvider =
            ''projects/'' @ projectNumber @
            ''/locations/global/workloadIdentityPools/github-pool/providers/github-provider'',
          ArtifactRegistryURL = arLocation @ ''-docker.pkg.dev/'' @ projectID @ ''/'' @ arName\<rparr>)"

definition RequiredVars :: "string list" where
  "RequiredVars =
     [''GCP_PROJECT_ID'', ''GCP_PROJECT_NUMBER'', ''GITHUB_ORGANIZATION'', ''GITHUB_REPOSITORY'',
      ''SERVICE_ACCOUNT_NAME'', ''ARTIFACT_REGISTRY_NAME'', ''ARTIFACT_REGISTRY_LOCATION'',
      ''CLOUD_RUN_SERVICE'', ''CLOUD_RUN_REGION'']"

definition ValidateConfig :: "env \<Rightarrow> error option" where
  "ValidateConfig env =
     (let missing = filter (\<lambda>v. GetString env v = []) RequiredVars
      in if length missing > 0
         then Some (New (''missing required variables:'' @ nl @ ''  - '' @ Join missing (nl @ ''  - '')))
         else None)"

definition checkGcloud :: "env \<Rightarrow> error option" where
  "checkGcloud env =
     (if \<not> LookPath env ''gcloud''
      then Some (New ''gcloud CLI not found. Install it: https://cloud.google.com/sdk/docs/install'')
      else None)"

definition checkGH :: "env \<Rightarrow> state \<Rightarrow> error option \<times> state" where
  "checkGH env s =
     (if \<not> LookPath env ''gh''
      then (Some (New ''GitHub CLI (gh) not found. Install it: https://cli.github.com/''), s)
      else
        (case exec_Run env (''gh'', [''auth'', ''status'']) s of
           (Some err, s1) \<Rightarrow> (Some (New ''GitHub CLI not authenticated. Run: gh auth login''), s1)
         | (None, s1) \<Rightarrow> (None, s1)))"

definition runCommand :: "env \<Rightarrow> string \<Rightarrow> string list \<Rightarrow> state \<Rightarrow> error option \<times> state" where
  \<comment> \<open>the child writes to the standard output and standard error of the tool; no caller uses it\<close>
  "runCommand env name args s =
     (if dryRun env then (None, Print (''  [dry-run] '' @ name @ '' '' @ Join args '' '' @ nl) s)
      else exec_Run env (name, args) s)"

definition runCommandSilent :: "env \<Rightarrow> string \<Rightarrow> string list \<Rightarrow> state \<Rightarrow> error option \<times> state" where
  "runCommandSilent env name args s =
     (if dryRun env then (None, Print (''  [dry-run] '' @ name @ '' '' @ Join args '' '' @ nl) s)
      else exec_Run env (name, args) s)"

definition apis :: "string list" where
  "apis =
     [''cloudresourcemanager.googleapis.com'', ''iam.googleapis.com'',
      ''iamcredentials.googleapis.com'', ''artifactregistry.googleapis.com'',
      ''run.googleapis.com'', ''secretmanager.googleapis.com'', ''cloudbuild.googleapis.com'']"

fun enableAPIs_range :: "env \<Rightarrow> Config \<Rightarrow> string list \<Rightarrow> state \<Rightarrow> error option \<times> state" where
  "enableAPIs_range env cfg [] s = (None, s)"
| "enableAPIs_range env cfg (api # rest) s =
     (let s1 = Print (''  Enabling '' @ api @ nl) s
      in case runCommandSilent env ''gcloud''
                [''services'', ''enable'', api, ''--project='' @ ProjectID cfg] s1 of
           (Some err, s2) \<Rightarrow> (Some err, s2)
         | (None, s2) \<Rightarrow> enableAPIs_range env cfg rest s2)"

definition enableAPIs :: "env \<Rightarrow> Config \<Rightarrow> state \<Rightarrow> error option \<times> state" where
  "enableAPIs env cfg s = enableAPIs_range env cfg apis s"

definition roles :: "string list" where
  "roles =
     [''roles/run.developer'', ''roles/artifactregistry.writer'',
      ''roles/secretmanager.secretAccessor'', ''roles/iam.serviceAccountUser'',
      ''roles/cloudbuild.builds.builder'', ''roles/logging.logWriter'']"

fun grantRoles_range :: "env \<Rightarrow> Config \<Rightarrow> string list \<Rightarrow> state \<Rightarrow> error option \<times> state" where
  "grantRoles_range env cfg [] s = (None, s)"
| "grantRoles_range env cfg (role # rest) s =
     (let s1 = Print (''  Granting '' @ role @ nl) s
      in case runCommandSilent env ''gcloud''
                [''projects'', ''add-iam-policy-binding'', ProjectID cfg,
                 ''--member=serviceAccount:'' @ ServiceAccountEmail cfg,
                 ''--role='' @ role,
                 ''--condition=None''] s1 of
           (Some err, s2) \<Rightarrow> (Some err, s2)
         | (None, s2) \<Rightarrow> grantRoles_range env cfg rest s2)"

definition createServiceAccount :: "env \<Rightarrow> Config \<Rightarrow> state \<Rightarrow> error option \<times> state" where
  "createServiceAccount env cfg s =
     (let s1 = Print (''  Creating service account: '' @ ServiceAccountName cfg @ nl) s;
          (err, s2) = runCommandSilent env ''gcloud''
             [''iam'', ''service-accounts'', ''create'', ServiceAccountName cfg,
              ''--project='' @ ProjectID cfg,
              ''--display-name='' @ ServiceAccountName cfg @ '' Service Account'',
              ''--description=Service account for GitHub Actions CI/CD''] s1;
          s3 = (if err \<noteq> None
                then Println ''  (service account may already exist, continuing...)'' s2
                else s2)
      in grantRoles_range env cfg roles s3)"

definition setupWorkloadIdentity :: "env \<Rightarrow> Config \<Rightarrow> state \<Rightarrow> error option \<times> state" where
  "setupWorkloadIdentity env cfg s =
     (let s1 = Println ''  Creating Workload Identity Pool...'' s;
          (err, s2) = runCommandSilent env ''gcloud''
             [''iam'', ''workload-identity-pools'', ''create'', ''github-pool'',
              ''--project='' @ ProjectID cfg,
              ''--location=global'',
              ''--display-name=GitHub Actions Pool''] s1;
          s3 = (if err \<noteq> None then Println ''  (pool may already exist, continuing...)'' s2 else s2);
          s4 = Println ''  Creating OIDC Provider...'' s3;
          (err, s5) = runCommandSilent env ''gcloud''
             [''iam'', ''workload-identity-pools'', ''providers'', ''create-oidc'', ''github-provider'',
              ''--project='' @ ProjectID cfg,
              ''--location=global'',
              ''--workload-identity-pool=github-pool'',
              ''--display-name=GitHub Provider'',
              ''--attribute-mapping=google.subject=assertion.sub,attribute.actor=assertion.actor,attribute.repository=assertion.repository'',
              ''--issuer-uri=https://token.actions.githubusercontent.com''] s4;
          s6 = (if err \<noteq> None then Println ''  (provider may already exist, continuing...)'' s5 else s5);
          s7 = Println ''  Configuring repository access...'' s6;
          member = ''principalSet://iam.googleapis.com/projects/'' @ ProjectNumber cfg @
                   ''/locations/global/workloadIdentityPools/github-pool/attribute.repository/'' @
                   GitHubOrg cfg @ ''/'' @ GitHubRepo cfg
      in runCommandSilent env ''gcloud''
           [''iam'', ''service-accounts'', ''add-iam-policy-binding'', ServiceAccountEmail cfg,
            ''--project='' @ ProjectID cfg,
            ''--role=roles/iam.workloadIdentityUser'',
            ''--member='' @ member] s7)"

definition createArtifactRegistry :: "env \<Rightarrow> Config \<Rightarrow> state \<Rightarrow> error option \<times> state" where
  "createArtifactRegistry env cfg s =
     (let s1 = Print (''  Creating repository: '' @ ArtifactRegistryName cfg @ nl) s;
          (err, s2) = runCommandSilent env ''gcloud''
             [''artifacts'', ''repositories'', ''create'', ArtifactRegistryName cfg,
              ''--project='' @ ProjectID cfg,
              ''--location='' @ ArtifactRegistryLocation cfg,
              ''--repository-format=docker'',
              ''--description=Container registry for CI/CD''] s1;
          s3 = (if err \<noteq> None
                then Println ''  (repository may already exist, continuing...)'' s2
                else s2)
      in (None, s3))"

subsection \<open>Ranging over a map\<close>

text \<open>
  A Go map literal is given by its entries, and \<open>range\<close> visits every entry once, in an
  order the language does not fix. \<open>rangeMap order m\<close> is the order the number \<open>order\<close>
  selects: every order of the entries is \<open>rangeMap order m\<close> for some number.
\<close>

function rangeMap :: "nat \<Rightarrow> 'a list \<Rightarrow> 'a list" where
  "rangeMap order m =
     (if m = [] then []
      else
        let i = order mod length m
        in m ! i # rangeMap (order div length m) (take i m @ drop (Suc i) m))"
  by pat_completeness auto
termination
proof (relation "measure (\<lambda>(order, m). length m)")
  show "wf (measure (\<lambda>(order, m). length m))"
    by simp
next
  fix order :: nat and m :: "'a list" and i :: nat
  assume "m \<noteq> []" and i: "i = order mod length m"
  then have "i < length m"
    by simp
  then show "((order div length m, take i m @ drop (Suc i) m), (order, m))
      \<in> measure (\<lambda>(order, m). length m)"
    by simp
qed

declare rangeMap.simps [simp del]

fun setSecrets_range ::
  "env \<Rightarrow> string \<Rightarrow> (string \<times> string) list \<Rightarrow> state \<Rightarrow> error option \<times> state" where
  "setSecrets_range env repo [] s = (None, s)"
| "setSecrets_range env repo ((name, val) # rest) s =
     (let s1 = Print (''    '' @ name @ nl) s
      in if dryRun env
         then setSecrets_range env repo rest
                (Print (''    [dry-run] gh secret set '' @ name @ '' --repo '' @ repo @ nl) s1)
         else
           (case exec_Run env (''gh'', [''secret'', ''set'', name, ''--repo'', repo, ''--body'', val]) s1 of
              (Some err, s2) \<Rightarrow>
                (Some (Wrap (''failed to set secret '' @ name @ '': '' @ Error err) err), s2)
            | (None, s2) \<Rightarrow> setSecrets_range env repo rest s2))"

fun setVariables_range ::
  "env \<Rightarrow> string \<Rightarrow> (string \<times> string) list \<Rightarrow> state \<Rightarrow> error option \<times> state" where
  "setVariables_range env repo [] s = (None, s)"
| "setVariables_range env repo ((name, val) # rest) s =
     (let s1 = Print (''    '' @ name @ nl) s
      in if dryRun env
         then setVariables_range env repo rest
                (Print (''    [dry-run] gh variable set '' @ name @ '' --repo '' @ repo @ nl) s1)
         else
           (case exec_Run env (''gh'', [''variable'', ''set'', name, ''--repo'', repo, ''--body'', val]) s1 of
              (Some err, s2) \<Rightarrow>
                (Some (Wrap (''failed to set variable '' @ name @ '': '' @ Error err) err), s2)
            | (None, s2) \<Rightarrow> setVariables_range env repo rest s2))"

definition secrets :: "Config \<Rightarrow> (string \<times> string) list" where
  "secrets cfg =
     [(''GCP_SERVICE_ACCOUNT'', ServiceAccountEmail cfg),
      (''GCP_WORKLOAD_IDENTITY_PROVIDER'', WorkloadIdentityProvider cfg)]"

definition variables :: "Config \<Rightarrow> (string \<times> string) list" where
  "variables cfg =
     [(''CLOUD_RUN_SERVICE'', CloudRunService cfg),
      (''CLOUD_RUN_REGION'', CloudRunRegion cfg),
      (''ARTIFACT_REGISTRY_URL'', ArtifactRegistryURL cfg)]"

definition configureGitHub :: "env \<Rightarrow> Config \<Rightarrow> state \<Rightarrow> error option \<times> state" where
  "configureGitHub env cfg s =
     (let repo = GitHubOrg cfg @ ''/'' @ GitHubRepo cfg;
          s1 = Println ''  Setting secrets...'' s
      in case setSecrets_range env repo (rangeMap (secretsOrder env) (secrets cfg)) s1 of
           (Some err, s2) \<Rightarrow> (Some err, s2)
         | (None, s2) \<Rightarrow>
             let s3 = Println ''  Setting variables...'' s2
             in setVariables_range env repo (rangeMap (variablesOrder env) (variables cfg)) s3)"

subsection \<open>The sequencer\<close>

type_synonym step = "string \<times> (env \<Rightarrow> Config \<Rightarrow> state \<Rightarrow> error option \<times> state)"

definition steps :: "step list" where
  "steps =
     [(''Enabling APIs'', enableAPIs),
      (''Creating Service Account'', createServiceAccount),
      (''Setting up Workload Identity Federation'', setupWorkloadIdentity),
      (''Creating Artifact Registry'', createArtifactRegistry),
      (''Configuring GitHub Repository'', configureGitHub)]"

definition rule :: string where
  "rule = ''==============================================''"

definition dashes :: string where
  "dashes = ''----------------------------------------------''"

text \<open>
  The loop \<open>for i, step := range steps\<close>: \<open>i\<close> is the index of the first step of \<open>todo\<close>
  and \<open>n\<close> is \<open>len(steps)\<close>.
\<close>

fun runSetup_range :: "env \<Rightarrow> Config \<Rightarrow> nat \<Rightarrow> nat \<Rightarrow> step list \<Rightarrow> state \<Rightarrow> error option \<times> state" where
  "runSetup_range env cfg n i [] s = (None, s)"
| "runSetup_range env cfg n i ((name, fn) # todo) s =
     (let s1 = Print (''Step '' @ showNat (i + 1) @ ''/'' @ showNat n @ '': '' @ name @ ''...'' @ nl) s;
          s2 = Println dashes s1
      in case fn env cfg s2 of
           (Some err, s3) \<Rightarrow> (Some (Wrap (name @ '' failed: '' @ Error err) err), s3)
         | (None, s3) \<Rightarrow> runSetup_range env cfg n (i + 1) todo (Println [] s3))"

definition runSetup :: "env \<Rightarrow> state \<Rightarrow> error option \<times> state" where
  "runSetup env s =
     (case ValidateConfig env of
        Some err \<Rightarrow> (Some err, s)
      | None \<Rightarrow>
     (case checkGcloud env of
        Some err \<Rightarrow> (Some err, s)
      | None \<Rightarrow>
     (case checkGH env s of
        (Some err, s0) \<Rightarrow> (Some err, s0)
      | (None, s0) \<Rightarrow>
          let cfg = loadConfig env;
              s1 = Println rule s0;
              s2 = Println ''GCloud Project Setup'' s1;
              s3 = Println rule s2;
              s4 = Print (''Project ID:     '' @ ProjectID cfg @ nl) s3;
              s5 = Print (''Project Number: '' @ ProjectNumber cfg @ nl) s4;
              s6 = Print (''GitHub:         '' @ GitHubOrg cfg @ ''/'' @ GitHubRepo cfg @ nl) s5;
              s7 = Println rule s6;
              s8 = Println [] s7
          in case runSetup_range env cfg (length steps) 0 steps s8 of
               (Some err, s9) \<Rightarrow> (Some err, s9)
             | (None, s9) \<Rightarrow>
                 let s10 = Println rule s9;
                     s11 = Println ''Setup Complete!'' s10;
                     s12 = Println rule s11;
                     s13 = Println [] s12;
                     s14 = Println ''Your repository is fully configured.'' s13;
                     s15 = Println ''Push to main or create a PR to trigger a deployment.'' s14
                 in (None, s15))))"


section \<open>The project create command\<close>

text \<open>
  The fields of \<open>ProjectConfig\<close> that share a name with a field of \<open>Config\<close> carry the
  prefix \<open>pc_\<close>.
\<close>

record ProjectConfig =
  pc_ProjectID :: string
  pc_ProjectNumber :: string
  ProjectName :: string
  pc_ServiceAccountName :: string
  pc_ServiceAccountEmail :: string
  pc_ArtifactRegistryName :: string
  pc_ArtifactRegistryLocation :: string
  pc_WorkloadIdentityProvider :: string
  pc_ArtifactRegistryURL :: string

definition empty_ProjectConfig :: ProjectConfig where
  "empty_ProjectConfig =
     \<lparr>pc_ProjectID = [], pc_ProjectNumber = [], ProjectName = [], pc_ServiceAccountName = [],
      pc_ServiceAccountEmail = [], pc_ArtifactRegistryName = [], pc_ArtifactRegistryLocation = [],
      pc_WorkloadIdentityProvider = [], pc_ArtifactRegistryURL = []\<rparr>"

definition ask_confirm :: "env \<Rightarrow> string \<Rightarrow> state \<Rightarrow> bool \<times> state" where
  \<comment> \<open>the call \<open>promptConfirm(question)\<close>\<close>
  "ask_confirm env question s =
     (let (answer, input, output) = promptConfirm env question (stdin s, stdout s)
      in (answer, s\<lparr>stdin := input, stdout := output\<rparr>))"

definition interactiveProjectConfig :: "env \<Rightarrow> ProjectConfig \<Rightarrow> state \<Rightarrow> (error option \<times> ProjectConfig) \<times> state" where
  "interactiveProjectConfig env cfg s =
     (let (v1, s1) = promptProject env ''Project Name'' ''my-project'' s;
          (v2, s2) = promptProject env ''Project ID (must be globally unique)''
                       (''my-project-'' @ randomSuffix env) s1;
          s3 = Println [] s2;
          (v3, s4) = promptProject env ''Service Account Name'' ''github-actions'' s3;
          (v4, s5) = promptProject env ''Artifact Registry Name'' ''docker'' s4;
          (v5, s6) = promptProject env ''Artifact Registry Location (e.g., us-central1)'' ''us-central1'' s5
      in ((None, cfg\<lparr>ProjectName := v1, pc_ProjectID := v2, pc_ServiceAccountName := v3,
                      pc_ArtifactRegistryName := v4, pc_ArtifactRegistryLocation := v5\<rparr>), s6))"

definition createGCPProject :: "env \<Rightarrow> ProjectConfig \<Rightarrow> state \<Rightarrow> error option \<times> state" where
  "createGCPProject env cfg s =
     (if projectDryRun env
      then (None, Print (''  [dry-run] gcloud projects create '' @ pc_ProjectID cfg @ '' --name='' @
                         dquote @ ProjectName cfg @ dquote @ nl) s)
      else
        let s1 = Print (''  Creating project '' @ [CHR 0x27] @ pc_ProjectID cfg @ [CHR 0x27] @ ''...'' @ nl) s
        in case exec_Run env (''gcloud'', [''projects'', ''create'', pc_ProjectID cfg,
                                          ''--name='' @ ProjectName cfg]) s1 of
             (Some err, s2) \<Rightarrow> (Some (Wrap (''failed to create project: '' @ Error err) err), s2)
           | (None, s2) \<Rightarrow>
               (None, Print (''  '' @ check_mark @ '' Project '' @ [CHR 0x27] @ pc_ProjectID cfg @
                             [CHR 0x27] @ '' created'' @ nl) s2))"

definition project_apis :: "string list" where
  "project_apis =
     [''cloudresourcemanager.googleapis.com'', ''serviceusage.googleapis.com'',
      ''iam.googleapis.com'', ''artifactregistry.googleapis.com'',
      ''iamcredentials.googleapis.com'', ''cloudkms.googleapis.com'']"

fun enableProjectAPIs_dry :: "ProjectConfig \<Rightarrow> string list \<Rightarrow> state \<Rightarrow> state" where
  "enableProjectAPIs_dry cfg [] s = s"
| "enableProjectAPIs_dry cfg (api # rest) s =
     enableProjectAPIs_dry cfg rest
       (Print (''  [dry-run] gcloud services enable '' @ api @ '' --project='' @ pc_ProjectID cfg @ nl) s)"

fun enableProjectAPIs_range :: "env \<Rightarrow> ProjectConfig \<Rightarrow> string list \<Rightarrow> state \<Rightarrow> error option \<times> state" where
  "enableProjectAPIs_range env cfg [] s = (None, Print (''  '' @ check_mark @ '' APIs enabled'' @ nl) s)"
| "enableProjectAPIs_range env cfg (api # rest) s =
     (let s1 = Print (''    Enabling '' @ api @ nl) s
      in case exec_Run env (''gcloud'', [''services'', ''enable'', api, ''--project='' @ pc_ProjectID cfg]) s1 of
           (Some err, s2) \<Rightarrow> (Some (Wrap (''failed to enable API '' @ api @ '': '' @ Error err) err), s2)
         | (None, s2) \<Rightarrow> enableProjectAPIs_range env cfg rest s2)"

definition enableProjectAPIs :: "env \<Rightarrow> ProjectConfig \<Rightarrow> state \<Rightarrow> error option \<times> state" where
  "enableProjectAPIs env cfg s =
     (if projectDryRun env then (None, enableProjectAPIs_dry cfg project_apis s)
      else enableProjectAPIs_range env cfg project_apis
             (Print (''  Enabling APIs for project '' @ [CHR 0x27] @ pc_ProjectID cfg @ [CHR 0x27] @
                     ''...'' @ nl) s))"

definition createProjectServiceAccount :: "env \<Rightarrow> ProjectConfig \<Rightarrow> state \<Rightarrow> error option \<times> state" where
  "createProjectServiceAccount env cfg0 s =
     (let cfg = cfg0\<lparr>pc_ServiceAccountEmail :=
                  pc_ServiceAccountName cfg0 @ ''@'' @ pc_ProjectID cfg0 @ ''.iam.gserviceaccount.com''\<rparr>
      in if projectDryRun env
         then (None, Print (''  [dry-run] gcloud iam service-accounts create '' @ pc_ServiceAccountName cfg @
                            '' --project='' @ pc_ProjectID cfg @ nl) s)
         else
           let s1 = Print (''  Creating service account '' @ [CHR 0x27] @ pc_ServiceAccountName cfg @
                           [CHR 0x27] @ ''...'' @ nl) s
           in case exec_Run env (''gcloud'', [''iam'', ''service-accounts'', ''create'',
                                             pc_ServiceAccountName cfg, ''--project='' @ pc_ProjectID cfg]) s1 of
                (Some err, s2) \<Rightarrow> (Some (Wrap (''failed to create service account: '' @ Error err) err), s2)
              | (None, s2) \<Rightarrow>
                  (None, Print (''  '' @ check_mark @ '' Service account created: '' @
                                pc_ServiceAccountEmail cfg @ nl) s2))"

definition setupProjectWorkloadIdentity :: "env \<Rightarrow> ProjectConfig \<Rightarrow> state \<Rightarrow> error option \<times> state" where
  "setupProjectWorkloadIdentity env cfg s =
     (if projectDryRun env
      then
        let s1 = Println ''  [dry-run] Setting up Workload Identity Federation'' s;
            s2 = Print (''  [dry-run] gcloud iam workload-identity-pools create github-pool --project='' @
                        pc_ProjectID cfg @ '' --location=global'' @ nl) s1;
            s3 = Println ''  [dry-run] gcloud iam workload-identity-pools providers create-oidc github-provider ...'' s2
        in (None, s3)
      else
        let s1 = Println ''  Setting up Workload Identity Federation...'' s;
            s2 = Println (''    Creating workload identity pool '' @ [CHR 0x27] @ ''github-pool'' @ [CHR 0x27]) s1
        in case exec_Run env (''gcloud'', [''iam'', ''workload-identity-pools'', ''create'', ''github-pool'',
                                          ''--project='' @ pc_ProjectID cfg, ''--location=global'',
                                          ''--display-name=GitHub'']) s2 of
             (Some err, s3) \<Rightarrow>
               (Some (Wrap (''failed to create workload identity pool: '' @ Error err) err), s3)
           | (None, s3) \<Rightarrow>
               let s4 = Println (''    Creating OIDC provider '' @ [CHR 0x27] @ ''github-provider'' @ [CHR 0x27]) s3
               in case exec_Run env (''gcloud'',
                         [''iam'', ''workload-identity-pools'', ''providers'', ''create-oidc'', ''github-provider'',
                          ''--project='' @ pc_ProjectID cfg,
                          ''--location=global'',
                          ''--workload-identity-pool=github-pool'',
                          ''--display-name=GitHub'',
                          ''--attribute-mapping=google.subject=assertion.sub,assertion.aud=assertion.aud'',
                          ''--issuer-uri=https://token.actions.githubusercontent.com'']) s4 of
                    (Some err, s5) \<Rightarrow> (Some (Wrap (''failed to create OIDC provider: '' @ Error err) err), s5)
                  | (None, s5) \<Rightarrow>
                      (None, Println (''  '' @ check_mark @ '' Workload Identity Federation configured'') s5))"

definition createProjectArtifactRegistry :: "env \<Rightarrow> ProjectConfig \<Rightarrow> state \<Rightarrow> error option \<times> state" where
  "createProjectArtifactRegistry env cfg0 s =
     (let cfg = cfg0\<lparr>pc_ArtifactRegistryURL :=
                  pc_ArtifactRegistryLocation cfg0 @ ''-docker.pkg.dev/'' @ pc_ProjectID cfg0 @ ''/'' @
                  pc_ArtifactRegistryName cfg0\<rparr>
      in if projectDryRun env
         then (None, Print (''  [dry-run] gcloud artifacts repositories create '' @ pc_ArtifactRegistryName cfg @
                            '' --repository-format=docker --location='' @ pc_ArtifactRegistryLocation cfg @
                            '' --project='' @ pc_ProjectID cfg @ nl) s)
         else
           let s1 = Print (''  Creating artifact registry '' @ [CHR 0x27] @ pc_ArtifactRegistryName cfg @
                           [CHR 0x27] @ ''...'' @ nl) s
           in case exec_Run env (''gcloud'', [''artifacts'', ''repositories'', ''create'',
                                             pc_ArtifactRegistryName cfg,
                                             ''--repository-format=docker'',
                                             ''--location='' @ pc_ArtifactRegistryLocation cfg,
                                             ''--project='' @ pc_ProjectID cfg]) s1 of
                (Some err, s2) \<Rightarrow> (Some (Wrap (''failed to create artifact registry: '' @ Error err) err), s2)
              | (None, s2) \<Rightarrow>
                  (None, Print (''  '' @ check_mark @ '' Artifact registry created: '' @
                                pc_ArtifactRegistryURL cfg @ nl) s2))"

type_synonym project_step = "string \<times> (env \<Rightarrow> ProjectConfig \<Rightarrow> state \<Rightarrow> error option \<times> state)"

definition project_steps :: "project_step list" where
  "project_steps =
     [(''Creating GCP Project'', createGCPProject),
      (''Enabling APIs'', enableProjectAPIs),
      (''Creating Service Account'', createProjectServiceAccount),
      (''Setting up Workload Identity Federation'', setupProjectWorkloadIdentity),
      (''Creating Artifact Registry'', createProjectArtifactRegistry)]"

fun runProjectCreate_range ::
  "env \<Rightarrow> ProjectConfig \<Rightarrow> nat \<Rightarrow> nat \<Rightarrow> project_step list \<Rightarrow> state \<Rightarrow> error option \<times> state" where
  "runProjectCreate_range env cfg n i [] s = (None, s)"
| "runProjectCreate_range env cfg n i ((name, fn) # todo) s =
     (let s1 = Print (''Step '' @ showNat (i + 1) @ ''/'' @ showNat n @ '': '' @ name @ ''...'' @ nl) s;
          s2 = Println dashes s1
      in case fn env cfg s2 of
           (Some err, s3) \<Rightarrow> (Some (Wrap (name @ '' failed: '' @ Error err) err), s3)
         | (None, s3) \<Rightarrow> runProjectCreate_range env cfg n (i + 1) todo (Println [] s3))"

definition runProjectCreate_steps :: "env \<Rightarrow> ProjectConfig \<Rightarrow> state \<Rightarrow> error option \<times> state" where
  \<comment> \<open>the second half of \<open>runProjectCreate\<close>: the loop over the steps and the closing lines\<close>
  "runProjectCreate_steps env cfg s =
     (case runProjectCreate_range env cfg (length project_steps) 0 project_steps s of
        (Some err, s1) \<Rightarrow> (Some err, s1)
      | (None, s1) \<Rightarrow>
          let s2 = Println rule s1;
              s3 = Println ''  Project Creation Complete!'' s2;
              s4 = Println rule s3;
              s5 = Println [] s4;
              s6 = Print (''Project ID: '' @ pc_ProjectID cfg @ nl) s5;
              s7 = Println ''Next steps:'' s6;
              s8 = Println ''  1. Save the project ID for later use'' s7;
              s9 = Println ''  2. Run: gcsetup service setup'' s8;
              s10 = Println ''     (with your GitHub org/repo and cloud run service details)'' s9
          in (None, s10))"

definition runProjectCreate :: "env \<Rightarrow> state \<Rightarrow> error option \<times> state" where
  "runProjectCreate env s =
     (case checkGcloud env of
        Some err \<Rightarrow> (Some err, s)
      | None \<Rightarrow>
          let s1 = Println [] s;
              s2 = Println rule s1;
              s3 = Println ''  GCP Project Creation'' s2;
              s4 = Println rule s3;
              s5 = Println [] s4;
              cfg0 = empty_ProjectConfig;
              ((err, cfg), s6) =
                (if \<not> projectNonInteractive env then interactiveProjectConfig env cfg0 s5
                 else
                   let (v1, t1) = promptProject env ''Project Name'' ''my-project'' s5;
                       (v2, t2) = promptProject env ''Project ID'' ''my-project'' t1;
                       (v3, t3) = promptProject env ''Service Account Name'' ''github-actions'' t2;
                       (v4, t4) = promptProject env ''Artifact Registry Name'' ''docker'' t3;
                       (v5, t5) = promptProject env ''Artifact Registry Location'' ''us-central1'' t4
                   in ((None, cfg0\<lparr>ProjectName := v1, pc_ProjectID := v2, pc_ServiceAccountName := v3,
                                    pc_ArtifactRegistryName := v4, pc_ArtifactRegistryLocation := v5\<rparr>), t5))
          in case err of
               Some e \<Rightarrow> (Some e, s6)
             | None \<Rightarrow>
                 let s7 = Println [] s6;
                     s8 = Println rule s7;
                     s9 = Println ''  Project Configuration Summary'' s8;
                     s10 = Println rule s9;
                     s11 = Print (''  Project Name:         '' @ ProjectName cfg @ nl) s10;
                     s12 = Print (''  Project ID:           '' @ pc_ProjectID cfg @ nl) s11;
                     s13 = Print (''  Service Account:      '' @ pc_ServiceAccountName cfg @ nl) s12;
                     s14 = Print (''  Artifact Registry:    '' @ pc_ArtifactRegistryName cfg @ '' ('' @
                                  pc_ArtifactRegistryLocation cfg @ '')'' @ nl) s13;
                     s15 = Println rule s14;
                     s16 = Println [] s15
                 in if \<not> projectNonInteractive env
                    then
                      (case ask_confirm env ''Proceed with project creation?'' s16 of
                         (False, s17) \<Rightarrow> (None, Println ''Project creation cancelled.'' s17)
                       | (True, s17) \<Rightarrow> runProjectCreate_steps env cfg (Println [] s17))
                    else runProjectCreate_steps env cfg s16)"


section \<open>The load balancer setup command\<close>

text \<open>
  The fields of \<open>LoadBalancerConfig\<close> that share a name with a field of \<open>Config\<close> carry
  the prefix \<open>lb_\<close>. \<open>Port\<close> and \<open>HealthCheckPort\<close> are Go ints.
\<close>

record LoadBalancerService =
  Name :: string
  Protocol :: string
  Port :: int
  Path :: string
  HealthCheck :: string

record LoadBalancerConfig =
  lb_ProjectID :: string
  lb_ProjectNumber :: string
  LBName :: string
  Region :: string
  Network :: string
  Subnet :: string
  Services :: "LoadBalancerService list"
  HealthCheckPort :: int
  UseSSL :: bool
  SSLCertificate :: string

definition backslash :: string where
  "backslash = [CHR 0x5C]"

definition quote :: string where
  "quote = [CHR 0x27]"

definition ToLower :: "string \<Rightarrow> string" where
  \<comment> \<open>\<open>strings.ToLower\<close> on the ASCII letters; other bytes are kept\<close>
  "ToLower s =
     map (\<lambda>c. if 65 \<le> (of_char c :: nat) \<and> (of_char c :: nat) \<le> 90
              then char_of ((of_char c :: nat) + 32) else c) s"

text \<open>
  The loop of \<open>interactiveLBConfig\<close> over the services, \<open>for i := 0; i < numServices; i++\<close>.
  The function reads its numbers through one reader, whose buffer \<open>buf\<close> lives as long as
  the function; the calls of \<open>promptLB\<close> in between read through readers of their own.
\<close>

function interactiveLBConfig_services ::
  "env \<Rightarrow> int \<Rightarrow> int \<Rightarrow> string \<Rightarrow> LoadBalancerService list \<Rightarrow> state
   \<Rightarrow> LoadBalancerService list \<times> string \<times> state" where
  "interactiveLBConfig_services env numServices i buf services s =
     (if i < numServices
      then
        let s1 = Print (''Service '' @ showInt (i + 1) @ '':'' @ nl) s;
            (name, s2) = promptLB env ''  Service name'' (''service-'' @ showInt (i + 1)) s1;
            (protocol, s3) = promptLB env ''  Protocol (HTTP/HTTPS)'' ''HTTP'' s2;
            s4 = Print ''  Port (default 8080): '' s3;
            r = ReadString buf (stdin s4);
            input = TrimSpace (fst (fst r));
            s5 = s4\<lparr>stdin := snd (snd r)\<rparr>;
            port = (if input \<noteq> []
                    then (case Sscanf_d env input of Some n \<Rightarrow> n | None \<Rightarrow> 8080)
                    else 8080);
            (path, s6) = promptLB env ''  URL Path (e.g., /api/*)'' (''/'' @ name @ ''/*'') s5;
            service = \<lparr>Name = name, Protocol = protocol, Port = port, Path = path,
                       HealthCheck = name @ ''-hc''\<rparr>
        in interactiveLBConfig_services env numServices (i + 1) (fst (snd r))
             (services @ [service]) (Println [] s6)
      else (services, buf, s))"
  by pat_completeness auto
termination
  by (relation "measure (\<lambda>(env, numServices, i, buf, services, s). nat (numServices - i))") auto

declare interactiveLBConfig_services.simps [simp del]

definition interactiveLBConfig ::
  "env \<Rightarrow> LoadBalancerConfig \<Rightarrow> state \<Rightarrow> (error option \<times> LoadBalancerConfig) \<times> state" where
  "interactiveLBConfig env cfg s =
     (let (lbName, s1) = promptLB env ''Load Balancer Name'' ''gcloud-lb'' s;
          (network, s2) = promptLB env ''Network'' ''default'' s1;
          (subnet, s3) = promptLB env ''Subnet (leave empty for auto)'' [] s2;
          s4 = Println [] s3;
          s5 = Print ''Health Check Port (default 8080): '' s4;
          r1 = ReadString [] (stdin s5);
          input1 = TrimSpace (fst (fst r1));
          s6 = s5\<lparr>stdin := snd (snd r1)\<rparr>;
          healthCheckPort =
            (if input1 = [] then 8080
             else (case Sscanf_d env input1 of Some n \<Rightarrow> n | None \<Rightarrow> 8080));
          s7 = Println [] s6;
          s8 = Print ''Use SSL/TLS? (y/n, default: n): '' s7;
          r2 = ReadString (fst (snd r1)) (stdin s8);
          s9 = s8\<lparr>stdin := snd (snd r2)\<rparr>;
          useSSL0 = (ToLower (TrimSpace (fst (fst r2))) = ''y'');
          (certificate, s10) =
            (if useSSL0 then promptLB env ''SSL Certificate Name'' [] s9
             else (SSLCertificate cfg, s9));
          s11 = (if useSSL0 \<and> certificate = []
                 then Println (warning_sign @ '' SSL certificate name is required for HTTPS. Using HTTP instead.'') s10
                 else s10);
          useSSL = (useSSL0 \<and> certificate \<noteq> []);
          s12 = Println [] s11;
          s13 = Println ''Configure backend services:'' s12;
          s14 = Print ''How many services? (default: 1): '' s13;
          r3 = ReadString (fst (snd r2)) (stdin s14);
          input3 = TrimSpace (fst (fst r3));
          s15 = s14\<lparr>stdin := snd (snd r3)\<rparr>;
          numServices =
            (if input3 \<noteq> []
             then (case Sscanf_d env input3 of Some n \<Rightarrow> n | None \<Rightarrow> 1)
             else 1);
          s16 = Println [] s15;
          (services, buf, s17) =
            interactiveLBConfig_services env numServices 0 (fst (snd r3)) (Services cfg) s16
      in ((None, cfg\<lparr>LBName := lbName, Network := network, Subnet := subnet,
                      HealthCheckPort := healthCheckPort, UseSSL := useSSL,
                      SSLCertificate := certificate, Services := services\<rparr>), s17))"

text \<open>
  The five steps. A step gets a copy of the configuration, whose slice of services shares
  its array with the caller's: what \<open>createBackendServices\<close> assigns to
  \<open>cfg.Services[i].HealthCheck\<close> is seen by the later steps, so a step returns the
  services with its result. \<open>createURLMap\<close> indexes \<open>cfg.Services[0]\<close> and panics when
  there is no service.
\<close>

fun createHealthChecks_range ::
  "env \<Rightarrow> LoadBalancerConfig \<Rightarrow> LoadBalancerService list \<Rightarrow> state \<Rightarrow> error option \<times> state" where
  "createHealthChecks_range env cfg [] s = (None, s)"
| "createHealthChecks_range env cfg (service # rest) s =
     (if lbDryRun env
      then createHealthChecks_range env cfg rest
             (Println (''gcloud compute health-checks create http '' @ dquote @ HealthCheck service @ dquote @
                       '' '' @ backslash @ nl @
                       ''  --global '' @ backslash @ nl @
                       ''  --port='' @ showInt (HealthCheckPort cfg) @ '' '' @ backslash @ nl @
                       ''  --request-path='' @ dquote @ ''/healthz'' @ dquote @ '' '' @ backslash @ nl @
                       ''  --project='' @ dquote @ lb_ProjectID cfg @ dquote) s)
      else
        (case exec_Run env (''gcloud'', [''compute'', ''health-checks'', ''describe'',
                                        HealthCheck service, ''--global'', ''--project'', lb_ProjectID cfg]) s of
           (None, s1) \<Rightarrow>
             createHealthChecks_range env cfg rest
               (Print (''  '' @ check_mark @ '' Health check '' @ quote @ HealthCheck service @ quote @
                       '' already exists'' @ nl) s1)
         | (Some err, s1) \<Rightarrow>
             let s2 = Print (''  Creating health check '' @ quote @ HealthCheck service @ quote @ ''...'' @ nl) s1
             in case exec_Run env (''gcloud'',
                       [''compute'', ''health-checks'', ''create'', ''http'', HealthCheck service,
                        ''--global'',
                        ''--port='' @ showInt (HealthCheckPort cfg),
                        ''--request-path=/healthz'',
                        ''--project='' @ lb_ProjectID cfg]) s2 of
                  (Some err, s3) \<Rightarrow> (Some (Wrap (''failed to create health check: '' @ Error err) err), s3)
                | (None, s3) \<Rightarrow>
                    createHealthChecks_range env cfg rest
                      (Print (''  '' @ check_mark @ '' Health check '' @ quote @ HealthCheck service @ quote @
                              '' created'' @ nl) s3)))"

definition createHealthChecks ::
  "env \<Rightarrow> LoadBalancerConfig \<Rightarrow> state \<Rightarrow> (error option go \<times> LoadBalancerService list) \<times> state" where
  "createHealthChecks env cfg s =
     (let (err, s1) = createHealthChecks_range env cfg (Services cfg) s
      in ((Return err, Services cfg), s1))"

text \<open>
  \<open>createBackendServices_range env cfg i todo services s\<close>: \<open>todo\<close> are the services still
  to visit, the first of them at index \<open>i\<close>, and \<open>services\<close> is the shared array.
\<close>

fun createBackendServices_range ::
  "env \<Rightarrow> LoadBalancerConfig \<Rightarrow> nat \<Rightarrow> LoadBalancerService list \<Rightarrow> LoadBalancerService list \<Rightarrow> state
   \<Rightarrow> (error option \<times> LoadBalancerService list) \<times> state" where
  "createBackendServices_range env cfg i [] services s = ((None, services), s)"
| "createBackendServices_range env cfg i (service # rest) services s =
     (let backendName = Name service @ ''-backend'';
          protocol = (if Protocol service = ''HTTPS'' then ''HTTPS'' else ''HTTP'')
      in if lbDryRun env
         then createBackendServices_range env cfg (i + 1) rest services
                (Print (''  [dry-run] Creating backend service '' @ quote @ backendName @ quote @ nl) s)
         else
           (case exec_Run env (''gcloud'', [''compute'', ''backend-services'', ''describe'',
                                           backendName, ''--global'', ''--project'', lb_ProjectID cfg]) s of
              (None, s1) \<Rightarrow>
                createBackendServices_range env cfg (i + 1) rest
                  (services[i := (services ! i)\<lparr>HealthCheck := backendName\<rparr>])
                  (Print (''  '' @ check_mark @ '' Backend service '' @ quote @ backendName @ quote @
                          '' already exists'' @ nl) s1)
            | (Some err, s1) \<Rightarrow>
                let s2 = Print (''  Creating backend service '' @ quote @ backendName @ quote @ ''...'' @ nl) s1
                in case exec_Run env (''gcloud'',
                          [''compute'', ''backend-services'', ''create'', backendName,
                           ''--global'',
                           ''--protocol='' @ protocol,
                           ''--port-name=http'',
                           ''--health-checks='' @ HealthCheck service,
                           ''--load-balancing-scheme=EXTERNAL'',
                           ''--enable-cdn'',
                           ''--project='' @ lb_ProjectID cfg]) s2 of
                     (Some err, s3) \<Rightarrow>
                       ((Some (Wrap (''failed to create backend service: '' @ Error err) err), services), s3)
                   | (None, s3) \<Rightarrow>
                       createBackendServices_range env cfg (i + 1) rest
                         (services[i := (services ! i)\<lparr>HealthCheck := backendName\<rparr>])
                         (Print (''  '' @ check_mark @ '' Backend service '' @ quote @ backendName @ quote @
                                 '' created'' @ nl) s3)))"

definition createBackendServices ::
  "env \<Rightarrow> LoadBalancerConfig \<Rightarrow> state \<Rightarrow> (error option go \<times> LoadBalancerService list) \<times> state" where
  "createBackendServices env cfg s =
     (let ((err, services), s1) = createBackendServices_range env cfg 0 (Services cfg) (Services cfg) s
      in ((Return err, services), s1))"

fun addPathRules_range ::
  "env \<Rightarrow> LoadBalancerConfig \<Rightarrow> string \<Rightarrow> LoadBalancerService list \<Rightarrow> state \<Rightarrow> state" where
  "addPathRules_range env cfg urlMapName [] s = s"
| "addPathRules_range env cfg urlMapName (service # rest) s =
     (let backendName = Name service @ ''-backend'';
          s1 = Print (''  Adding path rule '' @ quote @ Path service @ quote @ '' -> '' @ backendName @ nl) s
      in case exec_Run env (''gcloud'',
                [''compute'', ''url-maps'', ''add-path-rule'', urlMapName,
                 ''--service='' @ backendName,
                 ''--path-pattern='' @ Path service,
                 ''--project='' @ lb_ProjectID cfg]) s1 of
           (Some err, s2) \<Rightarrow>
             addPathRules_range env cfg urlMapName rest
               (Print (''  '' @ warning_sign @ '' Could not add path rule (may already exist): '' @
                       Error err @ nl) s2)
         | (None, s2) \<Rightarrow> addPathRules_range env cfg urlMapName rest s2)"

definition createURLMap ::
  "env \<Rightarrow> LoadBalancerConfig \<Rightarrow> state \<Rightarrow> (error option go \<times> LoadBalancerService list) \<times> state" where
  "createURLMap env cfg s =
     (let urlMapName = LBName cfg @ ''-url-map''
      in if lbDryRun env
         then ((Return None, Services cfg),
               Print (''  [dry-run] Creating URL map '' @ quote @ urlMapName @ quote @ nl) s)
         else
           (case exec_Run env (''gcloud'', [''compute'', ''url-maps'', ''describe'',
                                           urlMapName, ''--project'', lb_ProjectID cfg]) s of
              (None, s1) \<Rightarrow>
                ((Return None, Services cfg),
                 Print (''  '' @ check_mark @ '' URL map '' @ quote @ urlMapName @ quote @
                        '' already exists'' @ nl) s1)
            | (Some err, s1) \<Rightarrow>
                (case Services cfg of
                   [] \<Rightarrow> ((Panic ''runtime error: index out of range [0] with length 0'', Services cfg), s1)
                 | first # others \<Rightarrow>
                     let defaultBackend = Name first @ ''-backend'';
                         s2 = Print (''  Creating URL map '' @ quote @ urlMapName @ quote @ ''...'' @ nl) s1
                     in case exec_Run env (''gcloud'',
                               [''compute'', ''url-maps'', ''create'', urlMapName,
                                ''--default-service='' @ defaultBackend,
                                ''--project='' @ lb_ProjectID cfg]) s2 of
                          (Some err, s3) \<Rightarrow>
                            ((Return (Some (Wrap (''failed to create URL map: '' @ Error err) err)), Services cfg), s3)
                        | (None, s3) \<Rightarrow>
                            let s4 = addPathRules_range env cfg urlMapName (Services cfg) s3
                            in ((Return None, Services cfg),
                                Print (''  '' @ check_mark @ '' URL map '' @ quote @ urlMapName @ quote @
                                       '' created'' @ nl) s4))))"

definition createHTTPSProxy ::
  "env \<Rightarrow> LoadBalancerConfig \<Rightarrow> state \<Rightarrow> (error option go \<times> LoadBalancerService list) \<times> state" where
  "createHTTPSProxy env cfg s =
     (let proxyName = LBName cfg @ ''-proxy'';
          urlMapName = LBName cfg @ ''-url-map''
      in if lbDryRun env
         then ((Return None, Services cfg),
               Print (''  [dry-run] Creating HTTP(S) proxy '' @ quote @ proxyName @ quote @ nl) s)
         else
           let protocol = (if UseSSL cfg then ''HTTPS'' else ''HTTP'')
           in case exec_Run env (''gcloud'', [''compute'', ToLower protocol @ ''-proxies'', ''describe'',
                                             proxyName, ''--global'', ''--project'', lb_ProjectID cfg]) s of
                (None, s1) \<Rightarrow>
                  ((Return None, Services cfg),
                   Print (''  '' @ check_mark @ '' '' @ protocol @ '' proxy '' @ quote @ proxyName @ quote @
                          '' already exists'' @ nl) s1)
              | (Some err, s1) \<Rightarrow>
                  let s2 = Print (''  Creating '' @ protocol @ '' proxy '' @ quote @ proxyName @ quote @
                                  ''...'' @ nl) s1;
                      (r, s3) =
                        (if protocol = ''HTTP''
                         then exec_Run env (''gcloud'',
                                [''compute'', ''http-proxies'', ''create'', proxyName,
                                 ''--url-map='' @ urlMapName,
                                 ''--project='' @ lb_ProjectID cfg]) s2
                         else exec_Run env (''gcloud'',
                                [''compute'', ''https-proxies'', ''create'', proxyName,
                                 ''--url-map='' @ urlMapName,
                                 ''--ssl-certificates='' @ SSLCertificate cfg,
                                 ''--project='' @ lb_ProjectID cfg]) s2)
                  in case r of
                       Some err \<Rightarrow>
                         ((Return (Some (Wrap (''failed to create '' @ protocol @ '' proxy: '' @ Error err) err)),
                           Services cfg), s3)
                     | None \<Rightarrow>
                         ((Return None, Services cfg),
                          Print (''  '' @ check_mark @ '' '' @ protocol @ '' proxy '' @ quote @ proxyName @
                                 quote @ '' created'' @ nl) s3))"

definition createForwardingRule ::
  "env \<Rightarrow> LoadBalancerConfig \<Rightarrow> state \<Rightarrow> (error option go \<times> LoadBalancerService list) \<times> state" where
  "createForwardingRule env cfg s =
     (let ruleName = LBName cfg @ ''-forwarding-rule'';
          proxyName = LBName cfg @ ''-proxy'';
          protocol = (if UseSSL cfg then ''HTTPS'' else ''HTTP'');
          port = (if UseSSL cfg then 443 else (80 :: int))
      in if lbDryRun env
         then ((Return None, Services cfg),
               Print (''  [dry-run] Creating forwarding rule '' @ quote @ ruleName @ quote @ nl) s)
         else
           (case exec_Run env (''gcloud'', [''compute'', ''forwarding-rules'', ''describe'',
                                           ruleName, ''--global'', ''--project'', lb_ProjectID cfg]) s of
              (None, s1) \<Rightarrow>
                ((Return None, Services cfg),
                 Print (''  '' @ check_mark @ '' Forwarding rule '' @ quote @ ruleName @ quote @
                        '' already exists'' @ nl) s1)
            | (Some err, s1) \<Rightarrow>
                let s2 = Print (''  Creating forwarding rule '' @ quote @ ruleName @ quote @ ''...'' @ nl) s1
                in case exec_Run env (''gcloud'',
                          [''compute'', ''forwarding-rules'', ''create'', ruleName,
                           ''--global'',
                           ''--target-'' @ ToLower protocol @ ''-proxy='' @ proxyName,
                           ''--address='' @ LBName cfg @ ''-ip'',
                           ''--ports='' @ showInt port,
                           ''--project='' @ lb_ProjectID cfg]) s2 of
                     (Some err, s3) \<Rightarrow>
                       ((Return (Some (Wrap (''failed to create forwarding rule: '' @ Error err) err)),
                         Services cfg), s3)
                   | (None, s3) \<Rightarrow>
                       ((Return None, Services cfg),
                        Print (''  '' @ check_mark @ '' Forwarding rule '' @ quote @ ruleName @ quote @
                               '' created'' @ nl) s3)))"

type_synonym lb_step =
  "string \<times> (env \<Rightarrow> LoadBalancerConfig \<Rightarrow> state \<Rightarrow> (error option go \<times> LoadBalancerService list) \<times> state)"

definition lb_steps :: "lb_step list" where
  "lb_steps =
     [(''Creating Health Checks'', createHealthChecks),
      (''Creating Backend Services'', createBackendServices),
      (''Creating URL Map'', createURLMap),
      (''Creating HTTP(S) Proxy'', createHTTPSProxy),
      (''Creating Forwarding Rule'', createForwardingRule)]"

fun runLoadBalancer_range ::
  "env \<Rightarrow> LoadBalancerConfig \<Rightarrow> nat \<Rightarrow> nat \<Rightarrow> lb_step list \<Rightarrow> state \<Rightarrow> error option go \<times> state" where
  "runLoadBalancer_range env cfg n i [] s = (Return None, s)"
| "runLoadBalancer_range env cfg n i ((name, fn) # todo) s =
     (let s1 = Print (''Step '' @ showNat (i + 1) @ ''/'' @ showNat n @ '': '' @ name @ ''...'' @ nl) s;
          s2 = Println dashes s1
      in case fn env cfg s2 of
           ((Panic text, services), s3) \<Rightarrow> (Panic text, s3)
         | ((Return (Some err), services), s3) \<Rightarrow>
             (Return (Some (Wrap (name @ '' failed: '' @ Error err) err)), s3)
         | ((Return None, services), s3) \<Rightarrow>
             runLoadBalancer_range env (cfg\<lparr>Services := services\<rparr>) n (i + 1) todo (Println [] s3))"

fun printServices_range :: "nat \<Rightarrow> LoadBalancerService list \<Rightarrow> state \<Rightarrow> state" where
  "printServices_range i [] s = s"
| "printServices_range i (svc # rest) s =
     printServices_range (i + 1) rest
       (Print (''    Protocol: '' @ Protocol svc @ '', Port: '' @ showInt (Port svc) @ '', Path: '' @
               Path svc @ nl)
         (Print (''  Service '' @ showNat (i + 1) @ '': '' @ Name svc @ nl) s))"

definition runLoadBalancer_steps :: "env \<Rightarrow> LoadBalancerConfig \<Rightarrow> state \<Rightarrow> error option go \<times> state" where
  \<comment> \<open>the second half of \<open>runLoadBalancer\<close>: the loop over the steps and the closing lines\<close>
  "runLoadBalancer_steps env cfg s =
     (case runLoadBalancer_range env cfg (length lb_steps) 0 lb_steps s of
        (Panic text, s1) \<Rightarrow> (Panic text, s1)
      | (Return (Some err), s1) \<Rightarrow> (Return (Some err), s1)
      | (Return None, s1) \<Rightarrow>
          let s2 = Println rule s1;
              s3 = Println ''  Load Balancer Configuration Complete!'' s2;
              s4 = Println rule s3;
              s5 = Println [] s4;
              s6 = Print (''Load Balancer Name: '' @ LBName cfg @ nl) s5;
              s7 = Println ''Next steps:'' s6;
              s8 = Println ''  1. Get the load balancer IP:'' s7;
              s9 = Print (''     gcloud compute forwarding-rules describe '' @ LBName cfg @
                          ''-forwarding-rule'' @ '' --global'' @ nl) s8;
              s10 = Println ''  2. Create a DNS record pointing to the load balancer IP'' s9;
              s11 = Println ''  3. Test the configuration with curl'' s10
          in (Return None, s11))"

definition runLoadBalancer :: "env \<Rightarrow> state \<Rightarrow> error option go \<times> state" where
  "runLoadBalancer env s =
     (case checkGcloud env of
        Some err \<Rightarrow> (Return (Some err), s)
      | None \<Rightarrow>
          let s1 = Println [] s;
              s2 = Println rule s1;
              s3 = Println ''  Load Balancer Configuration'' s2;
              s4 = Println rule s3;
              s5 = Println [] s4;
              cfg0 = \<lparr>lb_ProjectID = GetString env ''GCP_PROJECT_ID'',
                      lb_ProjectNumber = GetString env ''GCP_PROJECT_NUMBER'',
                      LBName = [], Region = GetString env ''CLOUD_RUN_REGION'',
                      Network = [], Subnet = [], Services = [], HealthCheckPort = 0,
                      UseSSL = False, SSLCertificate = []\<rparr>
          in if lb_ProjectID cfg0 = []
             then (Return (Some (New ''GCP_PROJECT_ID is required'')), s5)
             else
               let ((err, cfg), s6) =
                     (if \<not> lbNonInteractive env then interactiveLBConfig env cfg0 s5
                      else
                        let (v1, t1) = promptLB env ''Load Balancer Name'' ''gcloud-lb'' s5;
                            (v2, t2) = promptLB env ''Network'' ''default'' t1;
                            (v3, t3) = promptLB env ''Subnet (leave empty for auto)'' [] t2
                        in ((None, cfg0\<lparr>LBName := v1, Network := v2, Subnet := v3,
                                         HealthCheckPort := 8080, UseSSL := False\<rparr>), t3))
               in case err of
                    Some e \<Rightarrow> (Return (Some e), s6)
                  | None \<Rightarrow>
                      let s7 = Println [] s6;
                          s8 = Println rule s7;
                          s9 = Println ''  Load Balancer Configuration Summary'' s8;
                          s10 = Println rule s9;
                          s11 = Print (''  Name:                 '' @ LBName cfg @ nl) s10;
                          s12 = Print (''  Network:              '' @ Network cfg @ nl) s11;
                          s13 = Print (''  Health Check Port:    '' @ showInt (HealthCheckPort cfg) @ nl) s12;
                          s14 = Print (''  Use SSL:              '' @
                                       (if UseSSL cfg then ''true'' else ''false'') @ nl) s13;
                          s15 = Print (''  Number of Services:   '' @ showNat (length (Services cfg)) @ nl) s14;
                          s16 = Println [] s15;
                          s17 = printServices_range 0 (Services cfg) s16;
                          s18 = Println rule s17;
                          s19 = Println [] s18
                      in if \<not> lbNonInteractive env
                         then
                           (case ask_confirm env ''Proceed with load balancer configuration?'' s19 of
                              (False, s20) \<Rightarrow> (Return None, Println ''Configuration cancelled.'' s20)
                            | (True, s20) \<Rightarrow> runLoadBalancer_steps env cfg (Println [] s20))
                         else runLoadBalancer_steps env cfg s19)"


section \<open>The root command\<close>

text \<open>
  \<open>rootCmd.Execute()\<close> is cobra's. For one of the four commands of this repository it runs
  the initializers (\<open>initConfig\<close>, which reports the configuration file viper has read)
  and then the \<open>RunE\<close> of the command. When \<open>RunE\<close> returns an error, cobra writes the
  error after \<open>Error:\<close> and then the usage text of the command, both to standard error,
  because \<open>root.go\<close> sets neither \<open>SilenceErrors\<close> nor \<open>SilenceUsage\<close>, and returns the
  error. A panic of \<open>RunE\<close> is not recovered.

  Every other command line is answered by cobra itself: the \<open>help\<close> command and the
  completion commands run the initializers too, a \<open>--help\<close> flag or a command that is not
  runnable prints the help without them, an unknown command or flag is reported on
  standard error and returned as an error. A \<open>builtin\<close> says which of these a command line
  gets: whether the initializers run, what cobra writes, and the error it returns.
\<close>

record builtin =
  runs_initializers :: bool
  to_stdout :: "string list"
  to_stderr :: "string list"
  returned :: "error option"

datatype invocation = Init | Setup | ProjectCreate | LoadBalancerSetup | Other builtin

definition initConfig :: "env \<Rightarrow> state \<Rightarrow> state" where
  "initConfig env s =
     (case ConfigFileUsed env of
        Some file \<Rightarrow> Println (''Using config file: '' @ file) s
      | None \<Rightarrow> s)"

definition cobra_reports :: "env \<Rightarrow> string \<Rightarrow> error \<Rightarrow> state \<Rightarrow> state" where
  \<comment> \<open>\<open>c.PrintErrln(cmd.ErrPrefix(), err.Error())\<close> and \<open>c.Println(cmd.UsageString())\<close>\<close>
  "cobra_reports env path err s =
     s\<lparr>stderr := stderr s @ [''Error: '' @ Error err @ nl, UsageString env path @ nl]\<rparr>"

definition cobra_execute ::
  "env \<Rightarrow> string \<Rightarrow> (env \<Rightarrow> state \<Rightarrow> error option go \<times> state) \<Rightarrow> state \<Rightarrow> error option go \<times> state" where
  \<comment> \<open>the command at \<open>path\<close> with the function \<open>runE\<close>\<close>
  "cobra_execute env path runE s =
     (case runE env (initConfig env s) of
        (Return (Some err), s1) \<Rightarrow> (Return (Some err), cobra_reports env path err s1)
      | (Return None, s1) \<Rightarrow> (Return None, s1)
      | (Panic text, s1) \<Rightarrow> (Panic text, s1))"

definition rootCmd_Execute :: "env \<Rightarrow> invocation \<Rightarrow> state \<Rightarrow> error option go \<times> state" where
  "rootCmd_Execute env cmd s =
     (case cmd of
        Init \<Rightarrow> cobra_execute env ''gcsetup init'' runInit s
      | Setup \<Rightarrow>
          cobra_execute env ''gcsetup setup''
            (\<lambda>env s. let (err, s1) = runSetup env s in (Return err, s1)) s
      | ProjectCreate \<Rightarrow>
          cobra_execute env ''gcsetup project create''
            (\<lambda>env s. let (err, s1) = runProjectCreate env s in (Return err, s1)) s
      | LoadBalancerSetup \<Rightarrow> cobra_execute env ''gcsetup loadbalancer setup'' runLoadBalancer s
      | Other b \<Rightarrow>
          let s1 = (if runs_initializers b then initConfig env s else s)
          in (Return (returned b),
              s1\<lparr>stdout := stdout s1 @ to_stdout b, stderr := stderr s1 @ to_stderr b\<rparr>))"

text \<open>
  \<open>Execute\<close> returns the exit status of the process with the final state: 1 after
  \<open>os.Exit(1)\<close>, 0 when \<open>main\<close> returns, and 2 when the Go runtime ends the process after
  a panic; the report of the runtime on standard error starts with the line of the panic,
  and the stack trace that follows it is left out.
\<close>

definition Execute :: "env \<Rightarrow> invocation \<Rightarrow> state \<Rightarrow> nat \<times> state" where
  "Execute env cmd s =
     (case rootCmd_Execute env cmd s of
        (Return (Some err), s1) \<Rightarrow> (1, s1\<lparr>stderr := stderr s1 @ [Error err @ nl]\<rparr>)
      | (Return None, s1) \<Rightarrow> (0, s1)
      | (Panic text, s1) \<Rightarrow> (2, s1\<lparr>stderr := stderr s1 @ [''panic: '' @ text @ nl]\<rparr>))"


section \<open>The setup run as a list of commands\<close>

text \<open>
  The specification's view of the setup command: a fixed list of invocations, run in
  order. These definitions follow the specification; the theorems below compare the
  functions translated from the source with them.
\<close>

subsection \<open>The commands\<close>

definition enable_cmd :: "Config \<Rightarrow> string \<Rightarrow> command" where
  "enable_cmd cfg api = (''gcloud'', [''services'', ''enable'', api, ''--project='' @ ProjectID cfg])"

definition create_account_cmd :: "Config \<Rightarrow> command" where
  "create_account_cmd cfg =
     (''gcloud'', [''iam'', ''service-accounts'', ''create'', ServiceAccountName cfg,
        ''--project='' @ ProjectID cfg,
        ''--display-name='' @ ServiceAccountName cfg @ '' Service Account'',
        ''--description=Service account for GitHub Actions CI/CD''])"

definition grant_cmd :: "Config \<Rightarrow> string \<Rightarrow> command" where
  "grant_cmd cfg role =
     (''gcloud'', [''projects'', ''add-iam-policy-binding'', ProjectID cfg,
        ''--member=serviceAccount:'' @ ServiceAccountEmail cfg,
        ''--role='' @ role, ''--condition=None''])"

definition create_pool_cmd :: "Config \<Rightarrow> command" where
  "create_pool_cmd cfg =
     (''gcloud'', [''iam'', ''workload-identity-pools'', ''create'', ''github-pool'',
        ''--project='' @ ProjectID cfg, ''--location=global'',
        ''--display-name=GitHub Actions Pool''])"

definition create_provider_cmd :: "Config \<Rightarrow> command" where
  "create_provider_cmd cfg =
     (''gcloud'', [''iam'', ''workload-identity-pools'', ''providers'', ''create-oidc'', ''github-provider'',
        ''--project='' @ ProjectID cfg, ''--location=global'',
        ''--workload-identity-pool=github-pool'', ''--display-name=GitHub Provider'',
        ''--attribute-mapping=google.subject=assertion.sub,attribute.actor=assertion.actor,attribute.repository=assertion.repository'',
        ''--issuer-uri=https://token.actions.githubusercontent.com''])"

definition bind_cmd :: "Config \<Rightarrow> command" where
  "bind_cmd cfg =
     (''gcloud'', [''iam'', ''service-accounts'', ''add-iam-policy-binding'', ServiceAccountEmail cfg,
        ''--project='' @ ProjectID cfg, ''--role=roles/iam.workloadIdentityUser'',
        ''--member=principalSet://iam.googleapis.com/projects/'' @ ProjectNumber cfg @
        ''/locations/global/workloadIdentityPools/github-pool/attribute.repository/'' @
        GitHubOrg cfg @ ''/'' @ GitHubRepo cfg])"

definition create_repository_cmd :: "Config \<Rightarrow> command" where
  "create_repository_cmd cfg =
     (''gcloud'', [''artifacts'', ''repositories'', ''create'', ArtifactRegistryName cfg,
        ''--project='' @ ProjectID cfg, ''--location='' @ ArtifactRegistryLocation cfg,
        ''--repository-format=docker'', ''--description=Container registry for CI/CD''])"

definition secret_cmd :: "Config \<Rightarrow> string \<times> string \<Rightarrow> command" where
  "secret_cmd cfg kv =
     (''gh'', [''secret'', ''set'', fst kv, ''--repo'', GitHubOrg cfg @ ''/'' @ GitHubRepo cfg, ''--body'', snd kv])"

definition variable_cmd :: "Config \<Rightarrow> string \<times> string \<Rightarrow> command" where
  "variable_cmd cfg kv =
     (''gh'', [''variable'', ''set'', fst kv, ''--repo'', GitHubOrg cfg @ ''/'' @ GitHubRepo cfg, ''--body'', snd kv])"

definition auth_cmd :: command where
  "auth_cmd = (''gh'', [''auth'', ''status''])"

definition github_cmds :: "env \<Rightarrow> Config \<Rightarrow> command list" where
  "github_cmds env cfg =
     map (secret_cmd cfg) (rangeMap (secretsOrder env) (secrets cfg)) @
     map (variable_cmd cfg) (rangeMap (variablesOrder env) (variables cfg))"

definition setup_cmds :: "env \<Rightarrow> Config \<Rightarrow> command list" where
  "setup_cmds env cfg =
     map (enable_cmd cfg) apis @
     (create_account_cmd cfg # map (grant_cmd cfg) roles) @
     [create_pool_cmd cfg, create_provider_cmd cfg, bind_cmd cfg] @
     [create_repository_cmd cfg] @
     github_cmds env cfg"

subsection \<open>Running a list of commands\<close>

text \<open>
  The idempotent creates are the commands that create the service account, the
  workload-identity pool, the OIDC provider and the artifact repository.
  \<open>run_cmds env history cmds\<close> runs \<open>cmds\<close> in order after the commands of \<open>history\<close>:
  a failing create is ignored, any other failing command ends the run. It returns whether
  no command ended the run, and the commands that were run. A function \<open>refines\<close> a list
  of commands when, from every state, it returns no error exactly when \<open>run_cmds\<close>
  succeeds and runs exactly the commands \<open>run_cmds\<close> runs.
\<close>

definition is_create :: "command \<Rightarrow> bool" where
  "is_create c =
     (fst c = ''gcloud'' \<and>
      (take 3 (snd c) = [''iam'', ''service-accounts'', ''create'']
       \<or> take 3 (snd c) = [''iam'', ''workload-identity-pools'', ''create'']
       \<or> take 4 (snd c) = [''iam'', ''workload-identity-pools'', ''providers'', ''create-oidc'']
       \<or> take 3 (snd c) = [''artifacts'', ''repositories'', ''create'']))"

fun run_cmds :: "env \<Rightarrow> command list \<Rightarrow> command list \<Rightarrow> bool \<times> command list" where
  "run_cmds env h [] = (True, [])"
| "run_cmds env h (c # cs) =
     (if Run env h c \<noteq> None \<and> \<not> is_create c then (False, [c])
      else (fst (run_cmds env (h @ [c]) cs), c # snd (run_cmds env (h @ [c]) cs)))"

definition refines :: "env \<Rightarrow> (state \<Rightarrow> error option \<times> state) \<Rightarrow> command list \<Rightarrow> bool" where
  "refines env f cmds \<longleftrightarrow>
     (\<forall>s. (fst (f s) = None) = fst (run_cmds env (executed s) cmds)
        \<and> executed (snd (f s)) = executed s @ snd (run_cmds env (executed s) cmds))"

subsection \<open>What a run prints\<close>

definition dry_run_line :: "command \<Rightarrow> string" where
  "dry_run_line c = ''  [dry-run] '' @ fst c @ '' '' @ Join (snd c) '' '' @ nl"

definition setup_banner :: "Config \<Rightarrow> state \<Rightarrow> state" where
  "setup_banner cfg s =
     Println []
       (Println rule
         (Print (''GitHub:         '' @ GitHubOrg cfg @ ''/'' @ GitHubRepo cfg @ nl)
           (Print (''Project Number: '' @ ProjectNumber cfg @ nl)
             (Print (''Project ID:     '' @ ProjectID cfg @ nl)
               (Println rule (Println ''GCloud Project Setup'' (Println rule s)))))))"

definition setup_complete :: "state \<Rightarrow> state" where
  "setup_complete s =
     Println ''Push to main or create a PR to trigger a deployment.''
       (Println ''Your repository is fully configured.''
         (Println [] (Println rule (Println ''Setup Complete!'' (Println rule s)))))"

definition step_banner :: "nat \<Rightarrow> nat \<Rightarrow> string \<Rightarrow> state \<Rightarrow> state" where
  "step_banner n i name s =
     Println dashes
       (Print (''Step '' @ showNat (i + 1) @ ''/'' @ showNat n @ '': '' @ name @ ''...'' @ nl) s)"

subsection \<open>The binaries a run calls\<close>

text \<open>
  \<open>extends_with P h ex\<close>: the commands \<open>ex\<close> are the commands \<open>h\<close> followed by commands that
  all satisfy \<open>P\<close>.
\<close>

definition gcloud_or_gh :: "command \<Rightarrow> bool" where
  "gcloud_or_gh c \<longleftrightarrow> fst c = ''gcloud'' \<or> fst c = ''gh''"

definition extends_with :: "(command \<Rightarrow> bool) \<Rightarrow> command list \<Rightarrow> command list \<Rightarrow> bool" where
  "extends_with P h ex \<longleftrightarrow> (\<exists>new. ex = h @ new \<and> list_all P new)"

subsection \<open>What a dry run prints\<close>

text \<open>
  The lines of the banner, of the closing lines and of the heading of a step, and the
  lines each step prints in a dry run: the progress lines, each followed by the
  \<open>[dry-run]\<close> line of its command. For a \<open>gcloud\<close> command that line is the whole command
  line; for a secret or a variable it is the command line up to the repository, without
  \<open>--body\<close> and the value. \<open>sections_output n i names sections\<close> are the lines of the
  steps \<open>names\<close>, numbered from \<open>i + 1\<close> of \<open>n\<close>, each printing its section and an empty line.
\<close>

definition setup_banner_lines :: "Config \<Rightarrow> string list" where
  "setup_banner_lines cfg =
     [rule @ nl, ''GCloud Project Setup'' @ nl, rule @ nl,
      ''Project ID:     '' @ ProjectID cfg @ nl,
      ''Project Number: '' @ ProjectNumber cfg @ nl,
      ''GitHub:         '' @ GitHubOrg cfg @ ''/'' @ GitHubRepo cfg @ nl,
      rule @ nl, nl]"

definition setup_complete_lines :: "string list" where
  "setup_complete_lines =
     [rule @ nl, ''Setup Complete!'' @ nl, rule @ nl, nl,
      ''Your repository is fully configured.'' @ nl,
      ''Push to main or create a PR to trigger a deployment.'' @ nl]"

definition step_banner_lines :: "nat \<Rightarrow> nat \<Rightarrow> string \<Rightarrow> string list" where
  "step_banner_lines n i name =
     [''Step '' @ showNat (i + 1) @ ''/'' @ showNat n @ '': '' @ name @ ''...'' @ nl, dashes @ nl]"

definition enable_lines :: "Config \<Rightarrow> string list" where
  "enable_lines cfg =
     concat (map (\<lambda>api. [''  Enabling '' @ api @ nl, dry_run_line (enable_cmd cfg api)]) apis)"

definition account_lines :: "Config \<Rightarrow> string list" where
  "account_lines cfg =
     [''  Creating service account: '' @ ServiceAccountName cfg @ nl,
      dry_run_line (create_account_cmd cfg)]
     @ concat (map (\<lambda>role. [''  Granting '' @ role @ nl, dry_run_line (grant_cmd cfg role)]) roles)"

definition identity_lines :: "Config \<Rightarrow> string list" where
  "identity_lines cfg =
     [''  Creating Workload Identity Pool...'' @ nl, dry_run_line (create_pool_cmd cfg),
      ''  Creating OIDC Provider...'' @ nl, dry_run_line (create_provider_cmd cfg),
      ''  Configuring repository access...'' @ nl, dry_run_line (bind_cmd cfg)]"

definition registry_lines :: "Config \<Rightarrow> string list" where
  "registry_lines cfg =
     [''  Creating repository: '' @ ArtifactRegistryName cfg @ nl,
      dry_run_line (create_repository_cmd cfg)]"

definition github_lines :: "env \<Rightarrow> Config \<Rightarrow> string list" where
  "github_lines env cfg =
     [''  Setting secrets...'' @ nl]
     @ concat (map (\<lambda>kv. [''    '' @ fst kv @ nl,
          ''    [dry-run] gh secret set '' @ fst kv @ '' --repo '' @ GitHubOrg cfg @ ''/'' @ GitHubRepo cfg @ nl])
         (rangeMap (secretsOrder env) (secrets cfg)))
     @ [''  Setting variables...'' @ nl]
     @ concat (map (\<lambda>kv. [''    '' @ fst kv @ nl,
          ''    [dry-run] gh variable set '' @ fst kv @ '' --repo '' @ GitHubOrg cfg @ ''/'' @ GitHubRepo cfg @ nl])
         (rangeMap (variablesOrder env) (variables cfg)))"

fun sections_output :: "nat \<Rightarrow> nat \<Rightarrow> string list \<Rightarrow> string list list \<Rightarrow> string list" where
  "sections_output n i (name # names) (lines # sections) =
     step_banner_lines n i name @ lines @ [nl] @ sections_output n (i + 1) names sections"
| "sections_output n i names sections = []"

definition dry_run_output :: "env \<Rightarrow> Config \<Rightarrow> string list" where
  "dry_run_output env cfg =
     setup_banner_lines cfg
     @ sections_output 5 0
         [''Enabling APIs'', ''Creating Service Account'', ''Setting up Workload Identity Federation'',
          ''Creating Artifact Registry'', ''Configuring GitHub Repository'']
         [enable_lines cfg, account_lines cfg, identity_lines cfg, registry_lines cfg,
          github_lines env cfg]
     @ setup_complete_lines"

subsection \<open>What is written to standard error for an error\<close>

definition failure_report :: "env \<Rightarrow> string \<Rightarrow> error \<Rightarrow> string list" where
  \<comment> \<open>the two lines of cobra and the line of \<open>Execute\<close>\<close>
  "failure_report env path err =
     [''Error: '' @ Error err @ nl, UsageString env path @ nl, Error err @ nl]"

section \<open>Example worlds\<close>

text \<open>
  A world in which both binaries are installed, every command succeeds and no flag is
  set, and an empty state; the concrete runs below vary them.
\<close>

definition example_env :: env where
  "example_env =
     \<lparr>dryRun = False, projectDryRun = False, projectNonInteractive = False,
      lbDryRun = False, lbNonInteractive = False,
      GetString = (\<lambda>key. []), ConfigFileUsed = None, LookPath = (\<lambda>name. True),
      Run = (\<lambda>history c. None), secretsOrder = 0, variablesOrder = 0, Intn = 0,
      Getwd = Inr ''/w'', Sscanf_d = (\<lambda>input. None),
      DeployWorkflow = ''on: push'', EnvTemplate = ''GCP_PROJECT_ID='',
      promptConfirm = (\<lambda>question io. (True, io)),
      UsageString = (\<lambda>path. ''Usage:'' @ nl @ ''  '' @ path @ '' [flags]'' @ nl)\<rparr>"

definition example_state :: state where
  "example_state = \<lparr>stdin = [], stdout = [], stderr = [], executed = [], files = Map.empty\<rparr>"


definition existing_env_state :: state where
  \<comment> \<open>a project directory that already has an environment file\<close>
  "existing_env_state =
     \<lparr>stdin = [], stdout = [], stderr = [], executed = [],
      files = [''/w'' \<mapsto> Dir True,
               ''/w/.env.gcloud'' \<mapsto> File ''GCP_PROJECT_ID=acme'' True True]\<rparr>"


text \<open>
  A configured project, and worlds in which the role bindings fail, in which every create
  fails, in which the run is a dry run, and in which the runtime iterates over the secrets
  in the other order.
\<close>

definition example_values :: "string \<Rightarrow> string" where
  "example_values key =
     (case map_of
        [(''GCP_PROJECT_ID'', ''acme''), (''GCP_PROJECT_NUMBER'', ''42''),
         (''GITHUB_ORGANIZATION'', ''org''), (''GITHUB_REPOSITORY'', ''repo''),
         (''SERVICE_ACCOUNT_NAME'', ''ci''), (''ARTIFACT_REGISTRY_NAME'', ''docker''),
         (''ARTIFACT_REGISTRY_LOCATION'', ''eu''), (''CLOUD_RUN_SERVICE'', ''api''),
         (''CLOUD_RUN_REGION'', ''eu'')] key of
        None \<Rightarrow> []
      | Some v \<Rightarrow> v)"

definition configured_env :: env where
  "configured_env = example_env\<lparr>GetString := example_values\<rparr>"

definition grant_fails :: "command list \<Rightarrow> command \<Rightarrow> error option" where
  "grant_fails history c =
     (if take 2 (snd c) = [''projects'', ''add-iam-policy-binding'']
      then Some (New ''exit status 1'') else None)"

definition creates_fail :: "command list \<Rightarrow> command \<Rightarrow> error option" where
  "creates_fail history c = (if is_create c then Some (New ''exit status 1'') else None)"

definition failing_grant_env :: env where
  "failing_grant_env = configured_env\<lparr>Run := grant_fails\<rparr>"

definition dry_run_env :: env where
  "dry_run_env = configured_env\<lparr>dryRun := True\<rparr>"

definition failing_creates_env :: env where
  "failing_creates_env = configured_env\<lparr>Run := creates_fail\<rparr>"

definition other_order_env :: env where
  "other_order_env = configured_env\<lparr>secretsOrder := 1\<rparr>"

text \<open>
  Worlds in which a command fails before it starts: one required value is not set,
  \<open>gcloud\<close> is not installed, the working directory is gone.
\<close>

definition incomplete_env :: env where
  \<comment> \<open>the region of the service is not set\<close>
  "incomplete_env = configured_env\<lparr>GetString := example_values(''CLOUD_RUN_REGION'' := [])\<rparr>"

definition no_gcloud_env :: env where
  "no_gcloud_env = configured_env\<lparr>LookPath := (\<lambda>name. name \<noteq> ''gcloud'')\<rparr>"

definition no_cwd_env :: env where
  "no_cwd_env = configured_env\<lparr>Getwd := Inl (New ''getwd: no such file or directory'')\<rparr>"

section \<open>Properties\<close>

subsection \<open>Substring search\<close>

lemma containsSubstring_loop_spec:
  "0 \<le> i \<Longrightarrow>
   containsSubstring_loop s substr i =
     Some (\<exists>k. nat i \<le> k \<and> k + length substr \<le> length s \<and>
               take (length substr) (drop k s) = substr)"
proof (induction s substr i rule: containsSubstring_loop.induct)
  case (1 s substr i)
  show ?case
  proof (cases "i \<le> int (length s) - int (length substr)")
    case False
    then have "\<not> (\<exists>k. nat i \<le> k \<and> k + length substr \<le> length s)"
      using 1(2) by auto
    then show ?thesis
      using False by (subst containsSubstring_loop.simps) auto
  next
    case True
    then have sl: "slice s i (i + int (length substr)) =
        Some (take (length substr) (drop (nat i) s))"
      using 1(2) by (simp add: slice_def)
    show ?thesis
    proof (cases "take (length substr) (drop (nat i) s) = substr")
      case hit: True
      have "nat i + length substr \<le> length s"
        using True 1(2) by linarith
      then show ?thesis
        using True sl hit by (subst containsSubstring_loop.simps) auto
    next
      case miss: False
      have ih: "containsSubstring_loop s substr (i + 1) =
          Some (\<exists>k. nat (i + 1) \<le> k \<and> k + length substr \<le> length s \<and>
                    take (length substr) (drop k s) = substr)"
        using 1(1)[OF True sl] miss 1(2) by simp
      have "(\<exists>k. nat (i + 1) \<le> k \<and> k + length substr \<le> length s \<and>
                 take (length substr) (drop k s) = substr)
          = (\<exists>k. nat i \<le> k \<and> k + length substr \<le> length s \<and>
                 take (length substr) (drop k s) = substr)"
      proof -
        have "nat (i + 1) = Suc (nat i)"
          using 1(2) by simp
        then show ?thesis
          using miss by (metis Suc_leD Suc_leI le_neq_implies_less)
      qed
      then show ?thesis
        using True sl miss ih by (subst containsSubstring_loop.simps) simp
    qed
  qed
qed

lemma occurs_iff_take_drop:
  "(\<exists>ps ss. s = ps @ sub @ ss) \<longleftrightarrow>
   (\<exists>k. k + length sub \<le> length s \<and> take (length sub) (drop k s) = sub)"
proof
  assume "\<exists>ps ss. s = ps @ sub @ ss"
  then obtain ps ss where "s = ps @ sub @ ss"
    by blast
  then have "length ps + length sub \<le> length s \<and> take (length sub) (drop (length ps) s) = sub"
    by simp
  then show "\<exists>k. k + length sub \<le> length s \<and> take (length sub) (drop k s) = sub"
    by blast
next
  assume "\<exists>k. k + length sub \<le> length s \<and> take (length sub) (drop k s) = sub"
  then obtain k where k: "take (length sub) (drop k s) = sub"
    by blast
  have "s = take k s @ take (length sub) (drop k s) @ drop (length sub) (drop k s)"
    by (metis append_take_drop_id)
  then show "\<exists>ps ss. s = ps @ sub @ ss"
    using k by metis
qed

lemma contains_occurs: "contains s substr = Some (\<exists>ps ss. s = ps @ substr @ ss)"
proof (cases "length substr \<le> length s")
  case False
  then have "\<not> (\<exists>ps ss. s = ps @ substr @ ss)"
    by auto
  then show ?thesis
    using False by (simp add: contains_def)
next
  case True
  show ?thesis
  proof (cases "s = substr")
    case True
    then have "s = [] @ substr @ []"
      by simp
    then have "\<exists>ps ss. s = ps @ substr @ ss"
      by blast
    then show ?thesis
      using True by (simp add: contains_def)
  next
    case ne: False
    then have "s \<noteq> []"
      using True by auto
    then show ?thesis
      using True ne
      by (simp add: contains_def containsSubstring_def containsSubstring_loop_spec
          occurs_iff_take_drop)
  qed
qed

text \<open>
  C10. For all strings \<open>s\<close> and \<open>substr\<close>, \<open>contains s substr\<close> returns (it never panics) and
  returns true exactly when \<open>substr\<close> occurs as a contiguous substring of \<open>s\<close>. At the edges:
  the empty substring is contained in every string, every string contains itself, and a
  substring longer than \<open>s\<close> is not contained.
\<close>

theorem contains_correct:
  "contains s substr = Some (\<exists>ps ss. s = ps @ substr @ ss)
   \<and> contains s [] = Some True
   \<and> contains s s = Some True
   \<and> (length s < length substr \<longrightarrow> contains s substr = Some False)"
proof -
  have empty: "\<exists>ps ss. s = ps @ [] @ ss"
    by (rule exI [of _ "[]"], rule exI [of _ s]) simp
  have "contains s [] = Some True"
    by (simp only: contains_occurs empty)
  moreover have "contains s s = Some True"
    by (simp add: contains_def)
  moreover have "length s < length substr \<longrightarrow> contains s substr = Some False"
    by (simp add: contains_def)
  ultimately show ?thesis
    by (simp add: contains_occurs)
qed

theorem contains_correct_witness:
  "length ''ab'' < length ''abc''
   \<and> contains ''ab'' ''abc'' = Some False
   \<and> contains ''.gitignore'' ''git'' = Some True"
proof -
  have occ: "\<exists>ps ss. ''.gitignore'' = ps @ ''git'' @ ss"
    by (rule exI [of _ "''.''"], rule exI [of _ "''ignore''"]) simp
  have "contains ''.gitignore'' ''git'' = Some True"
    using contains_correct [of "''.gitignore''" "''git''"] by (simp only: occ)
  then show ?thesis
    using contains_correct [of "''ab''" "''abc''"] by simp
qed

subsection \<open>Printing changes standard output only\<close>

lemma Print_fields [simp]:
  "files (Print t s) = files s" "executed (Print t s) = executed s"
  "stdin (Print t s) = stdin s" "stderr (Print t s) = stderr s"
  "stdout (Print t s) = stdout s @ [t]"
  by (simp_all add: Print_def)

lemma Println_fields [simp]:
  "files (Println t s) = files s" "executed (Println t s) = executed s"
  "stdin (Println t s) = stdin s" "stderr (Println t s) = stderr s"
  "stdout (Println t s) = stdout s @ [t @ nl]"
  by (simp_all add: Println_def)

subsection \<open>Prompts\<close>

text \<open>
  C7. In non-interactive mode \<open>promptProject\<close> and \<open>promptLB\<close> return the default and
  leave the state as it was: nothing is read and nothing is printed. In interactive mode
  they return the default when the line read is empty after \<open>strings.TrimSpace\<close>, and
  the trimmed line otherwise.
\<close>

theorem prompt_default_or_trimmed:
  "(projectNonInteractive env \<longrightarrow> promptProject env label d s = (d, s))
   \<and> (\<not> projectNonInteractive env \<longrightarrow>
        fst (promptProject env label d s) =
          (if TrimSpace (fst (fst (ReadString [] (stdin s)))) = [] then d
           else TrimSpace (fst (fst (ReadString [] (stdin s))))))
   \<and> (lbNonInteractive env \<longrightarrow> promptLB env label d s = (d, s))
   \<and> (\<not> lbNonInteractive env \<longrightarrow>
        fst (promptLB env label d s) =
          (if TrimSpace (fst (fst (ReadString [] (stdin s)))) = [] then d
           else TrimSpace (fst (fst (ReadString [] (stdin s))))))"
  by (simp add: promptProject_def promptLB_def Print_def Let_def)

theorem prompt_default_or_trimmed_witness:
  "projectNonInteractive (example_env\<lparr>projectNonInteractive := True\<rparr>)
   \<and> promptProject (example_env\<lparr>projectNonInteractive := True\<rparr>) ''Project ID'' ''my-project''
        (example_state\<lparr>stdin := [''acme'' @ nl]\<rparr>)
       = (''my-project'', example_state\<lparr>stdin := [''acme'' @ nl]\<rparr>)
   \<and> \<not> projectNonInteractive example_env
   \<and> fst (promptProject example_env ''Project ID'' ''my-project''
        (example_state\<lparr>stdin := [''  acme-prod  '' @ nl]\<rparr>)) = ''acme-prod''
   \<and> \<not> lbNonInteractive example_env
   \<and> fst (promptLB example_env ''Network'' ''default''
        (example_state\<lparr>stdin := [''   '' @ nl]\<rparr>)) = ''default''"
proof -
  have a: "projectNonInteractive (example_env\<lparr>projectNonInteractive := True\<rparr>)"
    by simp
  have b: "\<not> projectNonInteractive example_env" "\<not> lbNonInteractive example_env"
    by (simp_all add: example_env_def)
  have c: "TrimSpace (fst (fst (ReadString [] (stdin (example_state\<lparr>stdin := [''  acme-prod  '' @ nl]\<rparr>)))))
      = ''acme-prod''"
    by (simp add: example_state_def nl_def upto_newline_def TrimSpace_def leadingSpace_def
        trailingSpace_def spaceRunes_def TrimLeftSpace.simps TrimRightSpace.simps)
  have d: "TrimSpace (fst (fst (ReadString [] (stdin (example_state\<lparr>stdin := [''   '' @ nl]\<rparr>))))) = []"
    by (simp add: example_state_def nl_def upto_newline_def TrimSpace_def leadingSpace_def
        trailingSpace_def spaceRunes_def TrimLeftSpace.simps TrimRightSpace.simps)
  show ?thesis
    using prompt_default_or_trimmed [of "example_env\<lparr>projectNonInteractive := True\<rparr>"
        "''Project ID''" "''my-project''" "example_state\<lparr>stdin := [''acme'' @ nl]\<rparr>"]
      prompt_default_or_trimmed [of example_env "''Project ID''" "''my-project''"
        "example_state\<lparr>stdin := [''  acme-prod  '' @ nl]\<rparr>"]
      prompt_default_or_trimmed [of example_env "''Network''" "''default''"
        "example_state\<lparr>stdin := [''   '' @ nl]\<rparr>"]
      a b c d
    by simp
qed

subsection \<open>Existing entries are kept\<close>

lemma writeFileIfNotExists_exists:
  "files s path \<noteq> None \<Longrightarrow>
   writeFileIfNotExists path content s = (Some (New (''file already exists: '' @ path)), s)"
  by (auto simp: writeFileIfNotExists_def Stat_def)

lemma writeFileIfNotExists_absent:
  "files s path = None \<Longrightarrow> writeFileIfNotExists path content s = WriteFile path content s"
  by (auto simp: writeFileIfNotExists_def Stat_def)

lemma WriteFile_absent_error:
  "files s path = None \<Longrightarrow> fst (WriteFile path content s) \<noteq> Some (New (''file already exists: '' @ path))"
  by (auto simp: WriteFile_def create_error_def PathError_def split: option.splits node.splits)

lemma WriteFile_absent_keeps:
  "files s path = None \<Longrightarrow> files s q = Some n \<Longrightarrow> files (snd (WriteFile path content s)) q = Some n"
  by (auto simp: WriteFile_def split: option.splits)

lemma writeFileIfNotExists_keeps:
  "files s q = Some n \<Longrightarrow> files (snd (writeFileIfNotExists path content s)) q = Some n"
  by (cases "files s path") (simp_all add: writeFileIfNotExists_exists writeFileIfNotExists_absent WriteFile_absent_keeps)

lemma Mkdir_keeps:
  "files s q = Some n \<Longrightarrow> files (snd (Mkdir path s)) q = Some n"
  by (auto simp: Mkdir_def split: option.splits)

lemma MkdirAll_keeps:
  "files s q = Some n \<Longrightarrow> files (snd (MkdirAll path s)) q = Some n"
proof (induction path s rule: MkdirAll.induct)
  case (1 path s)
  show ?case
  proof (cases "files s path")
    case (Some a)
    then show ?thesis using 1(2) by (subst MkdirAll.simps) (simp split: node.splits)
  next
    case None
    show ?thesis
    proof (cases "length (parent path) < length path")
      case False
      then show ?thesis using None 1(2) by (subst MkdirAll.simps) (simp add: Mkdir_keeps)
    next
      case True
      have ih: "files (snd (MkdirAll (parent path) s)) q = Some n"
        using 1(1)[OF None True] 1(2) by simp
      obtain r s1 where p: "MkdirAll (parent path) s = (r, s1)" by (cases "MkdirAll (parent path) s")
      show ?thesis using None True p ih
        by (subst MkdirAll.simps) (simp add: Mkdir_keeps split: option.splits)
    qed
  qed
qed

lemma appendToGitignore_others:
  "q \<noteq> path \<Longrightarrow> files (snd (appendToGitignore path s)) q = files s q"
  by (auto simp: appendToGitignore_def WriteString_append_def WriteFile_def
      split: sum.splits option.splits bool.splits node.splits prod.splits)

lemma paths_differ:
  "filepath_Join cwd ''.gitignore'' \<noteq> filepath_Join cwd ''.env.gcloud''"
  "filepath_Join cwd ''.gitignore'' \<noteq>
     filepath_Join (filepath_Join (filepath_Join cwd ''.github'') ''workflows'') ''gcloud-deploy.yml''"
  by (auto simp: filepath_Join_def)

lemma runInit_keeps:
  assumes "Getwd env = Inr cwd" "q \<noteq> filepath_Join cwd ''.gitignore''" "files s q = Some n"
  shows "files (snd (runInit env s)) q = Some n"
proof -
  let ?wd = "filepath_Join (filepath_Join cwd ''.github'') ''workflows''"
  let ?wp = "filepath_Join ?wd ''gcloud-deploy.yml''"
  let ?ep = "filepath_Join cwd ''.env.gcloud''"
  let ?gp = "filepath_Join cwd ''.gitignore''"
  obtain r1 s1 where m: "MkdirAll ?wd s = (r1, s1)" by (cases "MkdirAll ?wd s")
  have k1: "files s1 q = Some n" using MkdirAll_keeps[OF assms(3), of ?wd] m by simp
  obtain r2 s2 where w: "writeFileIfNotExists ?wp (DeployWorkflow env) s1 = (r2, s2)"
    by (cases "writeFileIfNotExists ?wp (DeployWorkflow env) s1")
  have k2: "files s2 q = Some n" using writeFileIfNotExists_keeps[OF k1, of ?wp "DeployWorkflow env"] w by simp
  let ?s3 = "Println (check_mark @ '' Created '' @ ?wp) s2"
  obtain r4 s4 where e: "writeFileIfNotExists ?ep (EnvTemplate env) ?s3 = (r4, s4)"
    by (cases "writeFileIfNotExists ?ep (EnvTemplate env) ?s3")
  have k4: "files s4 q = Some n" using writeFileIfNotExists_keeps[of ?s3 q n ?ep "EnvTemplate env"] k2 e by simp
  let ?s5 = "Println (check_mark @ '' Created '' @ ?ep) s4"
  obtain r6 s6 where g: "appendToGitignore ?gp ?s5 = (r6, s6)" by (cases "appendToGitignore ?gp ?s5")
  have k6: "files s6 q = Some n" using appendToGitignore_others[OF assms(2), of ?s5] g k4 by simp
  show ?thesis
    using assms(1) m w e g k1 k2 k4 k6
    by (simp add: runInit_def Let_def split: option.splits go.splits)
qed


subsection \<open>Writing the templates\<close>

text \<open>
  C8, as amended. \<open>writeFileIfNotExists\<close> returns its "file already exists" error exactly
  when the path exists, and then changes nothing; when the path does not exist it returns
  what \<open>os.WriteFile\<close> returns, which may be an error too. In every case each entry that
  existed before the call is unchanged after it, and \<open>runInit\<close> leaves an existing
  workflow file and an existing environment file as they were.
\<close>

theorem writeFileIfNotExists_keeps_existing:
  "(fst (writeFileIfNotExists path content s) = Some (New (''file already exists: '' @ path))
      \<longleftrightarrow> files s path \<noteq> None)
   \<and> (files s path \<noteq> None \<longrightarrow> snd (writeFileIfNotExists path content s) = s)
   \<and> (files s path = None \<longrightarrow> writeFileIfNotExists path content s = WriteFile path content s)
   \<and> (files s q = Some n \<longrightarrow> files (snd (writeFileIfNotExists path content s)) q = Some n)
   \<and> (Getwd env = Inr cwd \<and> files s q = Some n \<and>
        (q = filepath_Join (filepath_Join (filepath_Join cwd ''.github'') ''workflows'') ''gcloud-deploy.yml''
         \<or> q = filepath_Join cwd ''.env.gcloud'')
        \<longrightarrow> files (snd (runInit env s)) q = Some n)"
proof -
  have "fst (writeFileIfNotExists path content s) = Some (New (''file already exists: '' @ path))
      \<longleftrightarrow> files s path \<noteq> None"
    using WriteFile_absent_error [of s path content]
    by (cases "files s path") (simp_all add: writeFileIfNotExists_exists writeFileIfNotExists_absent)
  moreover have "files s path \<noteq> None \<longrightarrow> snd (writeFileIfNotExists path content s) = s"
    by (simp add: writeFileIfNotExists_exists)
  moreover have "files s path = None \<longrightarrow> writeFileIfNotExists path content s = WriteFile path content s"
    by (simp add: writeFileIfNotExists_absent)
  moreover have "files s q = Some n \<longrightarrow> files (snd (writeFileIfNotExists path content s)) q = Some n"
    by (simp add: writeFileIfNotExists_keeps)
  moreover have "Getwd env = Inr cwd \<and> files s q = Some n \<and>
        (q = filepath_Join (filepath_Join (filepath_Join cwd ''.github'') ''workflows'') ''gcloud-deploy.yml''
         \<or> q = filepath_Join cwd ''.env.gcloud'')
        \<longrightarrow> files (snd (runInit env s)) q = Some n"
    using runInit_keeps [of env cwd q s n] paths_differ [of cwd] by metis
  ultimately show ?thesis by blast
qed

text \<open>
  C8 as stated fails: in a directory the process may not write to, the path does not
  exist and the call returns an error all the same.
\<close>

theorem writeFileIfNotExists_error_without_file:
  "files \<lparr>stdin = [], stdout = [], stderr = [], executed = [], files = [''/srv'' \<mapsto> Dir False]\<rparr>
      ''/srv/.env.gcloud'' = None
   \<and> fst (writeFileIfNotExists ''/srv/.env.gcloud'' ''GCP_PROJECT_ID=''
        \<lparr>stdin = [], stdout = [], stderr = [], executed = [], files = [''/srv'' \<mapsto> Dir False]\<rparr>)
      = Some (New ''open /srv/.env.gcloud: permission denied'')"
  by (simp add: writeFileIfNotExists_def Stat_def WriteFile_def create_error_def parent_def PathError_def)

theorem writeFileIfNotExists_keeps_existing_witness:
  "files existing_env_state ''/w/.env.gcloud'' \<noteq> None
   \<and> fst (writeFileIfNotExists ''/w/.env.gcloud'' ''GCP_PROJECT_ID='' existing_env_state)
       = Some (New ''file already exists: /w/.env.gcloud'')
   \<and> snd (writeFileIfNotExists ''/w/.env.gcloud'' ''GCP_PROJECT_ID='' existing_env_state) = existing_env_state
   \<and> files existing_env_state ''/w/.gitignore'' = None
   \<and> writeFileIfNotExists ''/w/.gitignore'' ''x'' existing_env_state = WriteFile ''/w/.gitignore'' ''x'' existing_env_state
   \<and> Getwd example_env = Inr ''/w''
   \<and> files (snd (runInit example_env existing_env_state)) ''/w/.env.gcloud'' = Some (File ''GCP_PROJECT_ID=acme'' True True)"
proof -
  have a: "files existing_env_state ''/w/.env.gcloud'' = Some (File ''GCP_PROJECT_ID=acme'' True True)"
    by (simp add: existing_env_state_def)
  have b: "files existing_env_state ''/w/.gitignore'' = None"
    by (simp add: existing_env_state_def)
  have c: "Getwd example_env = Inr ''/w''"
    by (simp add: example_env_def)
  have d: "filepath_Join ''/w'' ''.env.gcloud'' = ''/w/.env.gcloud''"
    by (simp add: filepath_Join_def)
  show ?thesis
    using writeFileIfNotExists_keeps_existing [of "''/w/.env.gcloud''" "''GCP_PROJECT_ID=''" existing_env_state
        "''/w/.env.gcloud''" "File ''GCP_PROJECT_ID=acme'' True True" example_env "''/w''"]
      writeFileIfNotExists_keeps_existing [of "''/w/.gitignore''" "''x''" existing_env_state]
      a b c d
    by simp
qed


subsection \<open>The ignore file\<close>

lemma entry_occurs: "\<exists>ps ss. c @ gitignore_entry = ps @ ''.env.gcloud'' @ ss"
  by (rule exI [of _ "c @ nl @ ''# GCloud setup'' @ nl"], rule exI [of _ nl])
    (simp add: gitignore_entry_def)

lemma contains_entry [simp]: "contains (c @ gitignore_entry) ''.env.gcloud'' = Some True"
  using entry_occurs [of c] by (simp only: contains_occurs)

lemma contains_entry0 [simp]: "contains gitignore_entry ''.env.gcloud'' = Some True"
  using contains_entry [of "[]"] by simp

lemma contains_total: "contains c sub = Some True \<or> contains c sub = Some False"
  unfolding contains_occurs by blast

lemma appendToGitignore_cases:
  "appendToGitignore path s =
     (case files s path of
        None \<Rightarrow>
          (case create_error s ''open'' path of
             Some err \<Rightarrow> (Return (Some err), s)
           | None \<Rightarrow> (Return None, s\<lparr>files := (files s)(path \<mapsto> File gitignore_entry True True)\<rparr>))
      | Some (Dir w) \<Rightarrow> (Return (Some (PathError ''open'' path ''is a directory'')), s)
      | Some (File c r w) \<Rightarrow>
          if r then
            if contains c ''.env.gcloud'' = Some True then (Return None, s)
            else if w then (Return None, s\<lparr>files := (files s)(path \<mapsto> File (c @ gitignore_entry) r w)\<rparr>)
            else (Return (Some (PathError ''open'' path ''permission denied'')), s)
          else if w then (Return None, s\<lparr>files := (files s)(path \<mapsto> File gitignore_entry r w)\<rparr>)
          else (Return (Some (PathError ''open'' path ''permission denied'')), s))"
proof (cases "files s path")
  case None
  then show ?thesis
    by (simp add: appendToGitignore_def ReadFile_def WriteFile_def split: option.splits)
next
  case (Some n)
  show ?thesis
  proof (cases n)
    case (Dir w)
    then show ?thesis
      using Some by (simp add: appendToGitignore_def ReadFile_def WriteFile_def)
  next
    case (File c r w)
    then show ?thesis
      using Some contains_total [of c "''.env.gcloud''"]
      by (auto simp: appendToGitignore_def ReadFile_def WriteFile_def OpenFile_append_def
          WriteString_append_def)
  qed
qed

lemma appendToGitignore_fixed:
  "files s path = Some (File c r w) \<Longrightarrow> (r \<longrightarrow> contains c ''.env.gcloud'' = Some True) \<Longrightarrow>
   (\<not> r \<longrightarrow> c = gitignore_entry \<and> w) \<Longrightarrow> snd (appendToGitignore path s) = s"
  by (simp add: appendToGitignore_cases fun_upd_idem)

lemma appendToGitignore_twice:
  "snd (appendToGitignore path (snd (appendToGitignore path s))) = snd (appendToGitignore path s)"
proof (cases "files s path")
  case None
  show ?thesis
  proof (cases "create_error s ''open'' path")
    case (Some err)
    then show ?thesis
      using None by (simp add: appendToGitignore_cases)
  next
    case ok: None
    have 1: "snd (appendToGitignore path s) =
        s\<lparr>files := (files s)(path \<mapsto> File gitignore_entry True True)\<rparr>"
      using None ok by (simp add: appendToGitignore_cases)
    show ?thesis
      unfolding 1
      by (rule appendToGitignore_fixed [of _ _ gitignore_entry True True]) simp_all
  qed
next
  case (Some n)
  show ?thesis
  proof (cases n)
    case (Dir w)
    then show ?thesis
      using Some by (simp add: appendToGitignore_cases)
  next
    case (File c r w)
    have "snd (appendToGitignore path s) = s
      \<or> r \<and> snd (appendToGitignore path s) =
            s\<lparr>files := (files s)(path \<mapsto> File (c @ gitignore_entry) r w)\<rparr>
      \<or> \<not> r \<and> w \<and> snd (appendToGitignore path s) =
            s\<lparr>files := (files s)(path \<mapsto> File gitignore_entry r w)\<rparr>"
      using Some File by (simp add: appendToGitignore_cases)
    then consider (same) "snd (appendToGitignore path s) = s"
      | (appended) "r" "snd (appendToGitignore path s) =
            s\<lparr>files := (files s)(path \<mapsto> File (c @ gitignore_entry) r w)\<rparr>"
      | (replaced) "\<not> r" "w" "snd (appendToGitignore path s) =
            s\<lparr>files := (files s)(path \<mapsto> File gitignore_entry r w)\<rparr>"
      by blast
    then show ?thesis
    proof cases
      case same
      then show ?thesis by simp
    next
      case appended
      show ?thesis
        unfolding appended(2)
        by (rule appendToGitignore_fixed [of _ _ "c @ gitignore_entry" r w]) (simp_all add: appended(1))
    next
      case replaced
      show ?thesis
        unfolding replaced(3)
        by (rule appendToGitignore_fixed [of _ _ gitignore_entry r w]) (simp_all add: replaced)
    qed
  qed
qed

text \<open>
  What holds of every state: after a successful call the file contains \<open>.env.gcloud\<close>; if
  the file can be read and already contains that string, the call changes nothing; a
  second call leaves the state the first call produced; and the call never panics.
\<close>

theorem appendToGitignore_idempotent:
  "(appendToGitignore path s = (Return None, s') \<longrightarrow>
      (\<exists>c r w. files s' path = Some (File c r w) \<and> (\<exists>ps ss. c = ps @ ''.env.gcloud'' @ ss)))
   \<and> (files s path = Some (File c True w) \<and> (\<exists>ps ss. c = ps @ ''.env.gcloud'' @ ss) \<longrightarrow>
        appendToGitignore path s = (Return None, s))
   \<and> snd (appendToGitignore path (snd (appendToGitignore path s))) = snd (appendToGitignore path s)
   \<and> fst (appendToGitignore path s) \<noteq> Panic text"
proof -
  have "\<exists>c r w. files s' path = Some (File c r w) \<and> contains c ''.env.gcloud'' = Some True"
    if "appendToGitignore path s = (Return None, s')"
    using that
    by (cases "files s path")
      (auto simp: appendToGitignore_cases split: option.splits node.splits if_splits)
  then have "appendToGitignore path s = (Return None, s') \<longrightarrow>
      (\<exists>c r w. files s' path = Some (File c r w) \<and> (\<exists>ps ss. c = ps @ ''.env.gcloud'' @ ss))"
    unfolding contains_occurs by simp
  moreover have "files s path = Some (File c True w) \<and> contains c ''.env.gcloud'' = Some True \<longrightarrow>
        appendToGitignore path s = (Return None, s)"
    by (simp add: appendToGitignore_cases)
  then have "files s path = Some (File c True w) \<and> (\<exists>ps ss. c = ps @ ''.env.gcloud'' @ ss) \<longrightarrow>
        appendToGitignore path s = (Return None, s)"
    unfolding contains_occurs by simp
  moreover have "fst (appendToGitignore path s) \<noteq> Panic text"
    by (simp add: appendToGitignore_cases split: option.splits node.splits)
  ultimately show ?thesis
    using appendToGitignore_twice by blast
qed

theorem appendToGitignore_idempotent_witness:
  "appendToGitignore ''/w/.gitignore'' existing_env_state
     = (Return None,
        existing_env_state\<lparr>files := (files existing_env_state)
          (''/w/.gitignore'' \<mapsto> File gitignore_entry True True)\<rparr>)
   \<and> (\<exists>c r w. files (existing_env_state\<lparr>files := (files existing_env_state)
          (''/w/.gitignore'' \<mapsto> File gitignore_entry True True)\<rparr>) ''/w/.gitignore'' = Some (File c r w)
        \<and> (\<exists>ps ss. c = ps @ ''.env.gcloud'' @ ss))
   \<and> appendToGitignore ''/w/.gitignore''
        (existing_env_state\<lparr>files := (files existing_env_state)
          (''/w/.gitignore'' \<mapsto> File ''dist .env.gcloud'' True True)\<rparr>)
     = (Return None,
        existing_env_state\<lparr>files := (files existing_env_state)
          (''/w/.gitignore'' \<mapsto> File ''dist .env.gcloud'' True True)\<rparr>)"
proof -
  let ?s' = "existing_env_state\<lparr>files := (files existing_env_state)
          (''/w/.gitignore'' \<mapsto> File gitignore_entry True True)\<rparr>"
  let ?t = "existing_env_state\<lparr>files := (files existing_env_state)
          (''/w/.gitignore'' \<mapsto> File ''dist .env.gcloud'' True True)\<rparr>"
  have a: "appendToGitignore ''/w/.gitignore'' existing_env_state = (Return None, ?s')"
    by (simp add: appendToGitignore_cases existing_env_state_def create_error_def parent_def)
  have b: "files ?t ''/w/.gitignore'' = Some (File ''dist .env.gcloud'' True True)"
    by simp
  have c: "\<exists>ps ss. ''dist .env.gcloud'' = ps @ ''.env.gcloud'' @ ss"
    by (rule exI [of _ "''dist ''"], rule exI [of _ "[]"]) simp
  show ?thesis
    using appendToGitignore_idempotent [of "''/w/.gitignore''" existing_env_state ?s']
      appendToGitignore_idempotent [of "''/w/.gitignore''" ?t _ "''dist .env.gcloud''" True]
      a b c
    by simp
qed

text \<open>
  C9. The function is documented to add the entry to \<open>.gitignore\<close> if it is not already
  present, and its comment says that it checks whether the file exists and already
  contains the entry. What it tests is whether \<open>os.ReadFile\<close> returned no error. For a
  file that exists, holds the entry and cannot be read (its mode is write-only),
  \<open>os.ReadFile\<close> returns an error, the function takes the file for missing, and
  \<open>os.WriteFile\<close> truncates it and writes the entry: the contents the file had are lost,
  where the other branch appends and keeps them. The claim, that a file which already
  contains the string is left unchanged, fails at this state.
\<close>

theorem appendToGitignore_overwrites_unreadable:
  "ReadFile ''/w/.gitignore''
      \<lparr>stdin = [], stdout = [], stderr = [], executed = [],
       files = [''/w'' \<mapsto> Dir True, ''/w/.gitignore'' \<mapsto> File ''dist .env.gcloud'' False True]\<rparr>
     = Inl (New ''open /w/.gitignore: permission denied'')
   \<and> appendToGitignore ''/w/.gitignore''
      \<lparr>stdin = [], stdout = [], stderr = [], executed = [],
       files = [''/w'' \<mapsto> Dir True, ''/w/.gitignore'' \<mapsto> File ''dist .env.gcloud'' False True]\<rparr>
     = (Return None,
        \<lparr>stdin = [], stdout = [], stderr = [], executed = [],
         files = [''/w'' \<mapsto> Dir True,
                  ''/w/.gitignore'' \<mapsto> File (nl @ ''# GCloud setup'' @ nl @ ''.env.gcloud'' @ nl) False True]\<rparr>)"
  by (simp add: appendToGitignore_cases ReadFile_def PathError_def gitignore_entry_def)

lemma run_cmds_append:
  "run_cmds env h (a @ b) =
     (if fst (run_cmds env h a)
      then (fst (run_cmds env (h @ a) b), a @ snd (run_cmds env (h @ a) b))
      else run_cmds env h a)"
  by (induction a arbitrary: h) auto

lemma run_cmds_ok: "fst (run_cmds env h cs) \<Longrightarrow> snd (run_cmds env h cs) = cs"
  by (induction cs arbitrary: h) (auto split: if_splits)

lemma run_cmds_prefix: "prefix (snd (run_cmds env h cs)) cs"
  by (induction cs arbitrary: h) auto

lemma run_cmds_none:
  "(\<And>h c. Run env h c = None) \<Longrightarrow> run_cmds env h cs = (True, cs)"
  by (induction cs arbitrary: h) auto

subsection \<open>The steps run their commands in order\<close>

lemma is_create_simps [simp]:
  "\<not> is_create (enable_cmd cfg api)" "is_create (create_account_cmd cfg)"
  "\<not> is_create (grant_cmd cfg role)" "is_create (create_pool_cmd cfg)"
  "is_create (create_provider_cmd cfg)" "\<not> is_create (bind_cmd cfg)"
  "is_create (create_repository_cmd cfg)" "\<not> is_create (secret_cmd cfg kv)"
  "\<not> is_create (variable_cmd cfg kv)"
  by (simp_all add: is_create_def enable_cmd_def create_account_cmd_def grant_cmd_def
      create_pool_cmd_def create_provider_cmd_def bind_cmd_def create_repository_cmd_def
      secret_cmd_def variable_cmd_def)

lemma runCommandSilent_run:
  "\<not> dryRun env \<Longrightarrow> runCommandSilent env name args s =
     (Run env (executed s) (name, args), s\<lparr>executed := executed s @ [(name, args)]\<rparr>)"
  by (simp add: runCommandSilent_def exec_Run_def)

lemma enableAPIs_range_run:
  "\<not> dryRun env \<Longrightarrow>
   (fst (enableAPIs_range env cfg as s) = None) = fst (run_cmds env (executed s) (map (enable_cmd cfg) as))
   \<and> executed (snd (enableAPIs_range env cfg as s)) =
       executed s @ snd (run_cmds env (executed s) (map (enable_cmd cfg) as))"
proof (induction as arbitrary: s)
  case Nil
  then show ?case by simp
next
  case (Cons api as)
  let ?c = "enable_cmd cfg api"
  let ?s1 = "Print (''  Enabling '' @ api @ nl) s"
  let ?s2 = "?s1\<lparr>executed := executed s @ [?c]\<rparr>"
  have rc: "runCommandSilent env ''gcloud'' [''services'', ''enable'', api, ''--project='' @ ProjectID cfg] ?s1
      = (Run env (executed s) ?c, ?s2)"
    using Cons.prems by (simp add: runCommandSilent_run enable_cmd_def)
  show ?case
  proof (cases "Run env (executed s) ?c")
    case None
    then show ?thesis
      using rc Cons.IH [OF Cons.prems, of ?s2] by simp
  next
    case (Some err)
    then show ?thesis
      using rc by simp
  qed
qed

lemma grantRoles_range_run:
  "\<not> dryRun env \<Longrightarrow>
   (fst (grantRoles_range env cfg rs s) = None) = fst (run_cmds env (executed s) (map (grant_cmd cfg) rs))
   \<and> executed (snd (grantRoles_range env cfg rs s)) =
       executed s @ snd (run_cmds env (executed s) (map (grant_cmd cfg) rs))"
proof (induction rs arbitrary: s)
  case Nil
  then show ?case by simp
next
  case (Cons role rs)
  let ?c = "grant_cmd cfg role"
  let ?s1 = "Print (''  Granting '' @ role @ nl) s"
  let ?s2 = "?s1\<lparr>executed := executed s @ [?c]\<rparr>"
  have rc: "runCommandSilent env ''gcloud''
       [''projects'', ''add-iam-policy-binding'', ProjectID cfg,
        ''--member=serviceAccount:'' @ ServiceAccountEmail cfg, ''--role='' @ role,
        ''--condition=None''] ?s1
      = (Run env (executed s) ?c, ?s2)"
    using Cons.prems by (simp add: runCommandSilent_run grant_cmd_def)
  show ?case
  proof (cases "Run env (executed s) ?c")
    case None
    then show ?thesis
      using rc Cons.IH [OF Cons.prems, of ?s2] by simp
  next
    case (Some err)
    then show ?thesis
      using rc by simp
  qed
qed

lemma runs_intro:
  assumes "\<And>s. (fst (f s) = None) = fst (run_cmds env (executed s) cmds)"
    and "\<And>s. executed (snd (f s)) = executed s @ snd (run_cmds env (executed s) cmds)"
  shows "refines env f cmds"
  using assms by (simp add: refines_def)

lemma refines_enableAPIs:
  "\<not> dryRun env \<Longrightarrow> refines env (enableAPIs env cfg) (map (enable_cmd cfg) apis)"
  by (simp add: refines_def enableAPIs_def enableAPIs_range_run)

lemma refines_createServiceAccount:
  assumes "\<not> dryRun env"
  shows "refines env (createServiceAccount env cfg) (create_account_cmd cfg # map (grant_cmd cfg) roles)"
proof -
  have "createServiceAccount env cfg s =
      grantRoles_range env cfg roles
        ((if Run env (executed s) (create_account_cmd cfg) \<noteq> None
          then Println ''  (service account may already exist, continuing...)''
          else (\<lambda>s. s))
         (Print (''  Creating service account: '' @ ServiceAccountName cfg @ nl) s
           \<lparr>executed := executed s @ [create_account_cmd cfg]\<rparr>))" for s
    using assms by (simp add: createServiceAccount_def runCommandSilent_run create_account_cmd_def)
  then show ?thesis
    using assms by (simp add: refines_def grantRoles_range_run)
qed

lemma refinesD:
  "refines env f cmds \<Longrightarrow>
   (fst (f s) = None) = fst (run_cmds env (executed s) cmds)
   \<and> executed (snd (f s)) = executed s @ snd (run_cmds env (executed s) cmds)"
  by (simp add: refines_def)

lemma if_Println_executed [simp]: "executed (if c then Println t s else s) = executed s"
  by simp

lemma if_Println_stdout [simp]:
  "stdout (if c then Println t s else s) = stdout s @ (if c then [t @ nl] else [])"
  by simp

lemma setupWorkloadIdentity_fst:
  assumes "\<not> dryRun env"
  shows "fst (setupWorkloadIdentity env cfg s) =
     Run env (executed s @ [create_pool_cmd cfg, create_provider_cmd cfg]) (bind_cmd cfg)"
  using assms
  by (simp add: setupWorkloadIdentity_def runCommandSilent_run Let_def
      create_pool_cmd_def create_provider_cmd_def bind_cmd_def)

lemma setupWorkloadIdentity_executed:
  assumes "\<not> dryRun env"
  shows "executed (snd (setupWorkloadIdentity env cfg s)) =
     executed s @ [create_pool_cmd cfg, create_provider_cmd cfg, bind_cmd cfg]"
  using assms
  by (simp add: setupWorkloadIdentity_def runCommandSilent_run Let_def
      create_pool_cmd_def create_provider_cmd_def bind_cmd_def)

lemma setupWorkloadIdentity_stdout:
  assumes "\<not> dryRun env"
  shows "stdout (snd (setupWorkloadIdentity env cfg s)) =
     stdout s @ [''  Creating Workload Identity Pool...'' @ nl]
     @ (if Run env (executed s) (create_pool_cmd cfg) \<noteq> None
        then [''  (pool may already exist, continuing...)'' @ nl] else [])
     @ [''  Creating OIDC Provider...'' @ nl]
     @ (if Run env (executed s @ [create_pool_cmd cfg]) (create_provider_cmd cfg) \<noteq> None
        then [''  (provider may already exist, continuing...)'' @ nl] else [])
     @ [''  Configuring repository access...'' @ nl]"
  using assms
  by (simp add: setupWorkloadIdentity_def runCommandSilent_run Let_def
      create_pool_cmd_def create_provider_cmd_def bind_cmd_def)

lemma refines_setupWorkloadIdentity:
  assumes "\<not> dryRun env"
  shows "refines env (setupWorkloadIdentity env cfg)
    [create_pool_cmd cfg, create_provider_cmd cfg, bind_cmd cfg]"
  by (simp add: refines_def setupWorkloadIdentity_fst [OF assms]
      setupWorkloadIdentity_executed [OF assms])

lemma createArtifactRegistry_fst: "fst (createArtifactRegistry env cfg s) = None"
  by (simp add: createArtifactRegistry_def Let_def split_def)

lemma createArtifactRegistry_executed:
  assumes "\<not> dryRun env"
  shows "executed (snd (createArtifactRegistry env cfg s)) = executed s @ [create_repository_cmd cfg]"
  using assms
  by (simp add: createArtifactRegistry_def runCommandSilent_run Let_def create_repository_cmd_def)

lemma createArtifactRegistry_stdout:
  assumes "\<not> dryRun env"
  shows "stdout (snd (createArtifactRegistry env cfg s)) =
     stdout s @ [''  Creating repository: '' @ ArtifactRegistryName cfg @ nl]
     @ (if Run env (executed s) (create_repository_cmd cfg) \<noteq> None
        then [''  (repository may already exist, continuing...)'' @ nl] else [])"
  using assms
  by (simp add: createArtifactRegistry_def runCommandSilent_run Let_def create_repository_cmd_def)

lemma refines_createArtifactRegistry:
  assumes "\<not> dryRun env"
  shows "refines env (createArtifactRegistry env cfg) [create_repository_cmd cfg]"
  by (simp add: refines_def createArtifactRegistry_fst createArtifactRegistry_executed [OF assms])

lemma setSecrets_range_Cons:
  assumes "\<not> dryRun env" "repo = GitHubOrg cfg @ ''/'' @ GitHubRepo cfg"
  shows "setSecrets_range env repo ((name, val) # kvs) s =
     (case Run env (executed s) (secret_cmd cfg (name, val)) of
        Some err \<Rightarrow>
          (Some (Wrap (''failed to set secret '' @ name @ '': '' @ Error err) err),
           (Print (''    '' @ name @ nl) s)\<lparr>executed := executed s @ [secret_cmd cfg (name, val)]\<rparr>)
      | None \<Rightarrow>
          setSecrets_range env repo kvs
            ((Print (''    '' @ name @ nl) s)\<lparr>executed := executed s @ [secret_cmd cfg (name, val)]\<rparr>))"
  using assms by (simp add: exec_Run_def secret_cmd_def split: option.splits)

lemma setSecrets_range_run:
  "\<not> dryRun env \<Longrightarrow> repo = GitHubOrg cfg @ ''/'' @ GitHubRepo cfg \<Longrightarrow>
   (fst (setSecrets_range env repo kvs s) = None)
     = fst (run_cmds env (executed s) (map (secret_cmd cfg) kvs))
   \<and> executed (snd (setSecrets_range env repo kvs s)) =
       executed s @ snd (run_cmds env (executed s) (map (secret_cmd cfg) kvs))"
proof (induction kvs arbitrary: s)
  case Nil
  then show ?case by simp
next
  case (Cons kv kvs)
  obtain name val where kv: "kv = (name, val)" by (cases kv)
  let ?c = "secret_cmd cfg (name, val)"
  let ?s2 = "(Print (''    '' @ name @ nl) s)\<lparr>executed := executed s @ [?c]\<rparr>"
  note step = setSecrets_range_Cons [OF Cons.prems, of name val kvs s]
  show ?case
  proof (cases "Run env (executed s) ?c")
    case None
    then show ?thesis
      using Cons.IH [OF Cons.prems, of ?s2]
      by (simp add: kv step del: setSecrets_range.simps)
  next
    case (Some err)
    then show ?thesis
      by (simp add: kv step del: setSecrets_range.simps)
  qed
qed

lemma setVariables_range_Cons:
  assumes "\<not> dryRun env" "repo = GitHubOrg cfg @ ''/'' @ GitHubRepo cfg"
  shows "setVariables_range env repo ((name, val) # kvs) s =
     (case Run env (executed s) (variable_cmd cfg (name, val)) of
        Some err \<Rightarrow>
          (Some (Wrap (''failed to set variable '' @ name @ '': '' @ Error err) err),
           (Print (''    '' @ name @ nl) s)\<lparr>executed := executed s @ [variable_cmd cfg (name, val)]\<rparr>)
      | None \<Rightarrow>
          setVariables_range env repo kvs
            ((Print (''    '' @ name @ nl) s)\<lparr>executed := executed s @ [variable_cmd cfg (name, val)]\<rparr>))"
  using assms by (simp add: exec_Run_def variable_cmd_def split: option.splits)

lemma setVariables_range_run:
  "\<not> dryRun env \<Longrightarrow> repo = GitHubOrg cfg @ ''/'' @ GitHubRepo cfg \<Longrightarrow>
   (fst (setVariables_range env repo kvs s) = None)
     = fst (run_cmds env (executed s) (map (variable_cmd cfg) kvs))
   \<and> executed (snd (setVariables_range env repo kvs s)) =
       executed s @ snd (run_cmds env (executed s) (map (variable_cmd cfg) kvs))"
proof (induction kvs arbitrary: s)
  case Nil
  then show ?case by simp
next
  case (Cons kv kvs)
  obtain name val where kv: "kv = (name, val)" by (cases kv)
  let ?c = "variable_cmd cfg (name, val)"
  let ?s2 = "(Print (''    '' @ name @ nl) s)\<lparr>executed := executed s @ [?c]\<rparr>"
  note step = setVariables_range_Cons [OF Cons.prems, of name val kvs s]
  show ?case
  proof (cases "Run env (executed s) ?c")
    case None
    then show ?thesis
      using Cons.IH [OF Cons.prems, of ?s2]
      by (simp add: kv step del: setVariables_range.simps)
  next
    case (Some err)
    then show ?thesis
      by (simp add: kv step del: setVariables_range.simps)
  qed
qed

lemma refines_configureGitHub:
  assumes "\<not> dryRun env"
  shows "refines env (configureGitHub env cfg) (github_cmds env cfg)"
proof (rule runs_intro)
  fix s
  let ?repo = "GitHubOrg cfg @ ''/'' @ GitHubRepo cfg"
  let ?s1 = "Println ''  Setting secrets...'' s"
  let ?sec = "rangeMap (secretsOrder env) (secrets cfg)"
  let ?var = "rangeMap (variablesOrder env) (variables cfg)"
  obtain r s2 where a: "setSecrets_range env ?repo ?sec ?s1 = (r, s2)"
    by (cases "setSecrets_range env ?repo ?sec ?s1")
  have a1: "(r = None) = fst (run_cmds env (executed s) (map (secret_cmd cfg) ?sec))"
    and a2: "executed s2 = executed s @ snd (run_cmds env (executed s) (map (secret_cmd cfg) ?sec))"
    using setSecrets_range_run [OF assms refl, of cfg ?sec ?s1] a by simp_all
  let ?s3 = "Println ''  Setting variables...'' s2"
  have b: "(fst (setVariables_range env ?repo ?var ?s3) = None)
       = fst (run_cmds env (executed s2) (map (variable_cmd cfg) ?var))"
    "executed (snd (setVariables_range env ?repo ?var ?s3)) =
       executed s2 @ snd (run_cmds env (executed s2) (map (variable_cmd cfg) ?var))"
    using setVariables_range_run [OF assms refl, of cfg ?var ?s3] by simp_all
  have c: "configureGitHub env cfg s =
      (case r of Some err \<Rightarrow> (Some err, s2) | None \<Rightarrow> setVariables_range env ?repo ?var ?s3)"
    using a by (simp add: configureGitHub_def Let_def split: option.splits)
  show "(fst (configureGitHub env cfg s) = None) = fst (run_cmds env (executed s) (github_cmds env cfg))"
    using a1 a2 b c run_cmds_ok [of env "executed s" "map (secret_cmd cfg) ?sec"]
    by (cases r) (auto simp: github_cmds_def run_cmds_append)
  show "executed (snd (configureGitHub env cfg s)) =
      executed s @ snd (run_cmds env (executed s) (github_cmds env cfg))"
    using a1 a2 b c run_cmds_ok [of env "executed s" "map (secret_cmd cfg) ?sec"]
    by (cases r) (auto simp: github_cmds_def run_cmds_append)
qed

lemma runSetup_range_append:
  "runSetup_range env cfg n i (done @ todo) s =
     (case runSetup_range env cfg n i done s of
        (Some err, s') \<Rightarrow> (Some err, s')
      | (None, s') \<Rightarrow> runSetup_range env cfg n (i + length done) todo s')"
proof (induction "done" arbitrary: i s)
  case Nil
  then show ?case by simp
next
  case (Cons st rest)
  obtain name fn where st: "st = (name, fn)" by (cases st)
  show ?case
    using Cons.IH by (simp add: st Let_def split: prod.splits option.splits)
qed

lemma runSetup_range_single:
  "runSetup_range env cfg n i [(name, fn)] s =
     (case fn env cfg
             (Println dashes
               (Print (''Step '' @ showNat (i + 1) @ ''/'' @ showNat n @ '': '' @ name @ ''...'' @ nl) s)) of
        (Some err, s') \<Rightarrow> (Some (Wrap (name @ '' failed: '' @ Error err) err), s')
      | (None, s') \<Rightarrow> (None, Println [] s'))"
  by (simp add: Let_def split: prod.splits option.splits)

lemma refines_step:
  assumes f: "refines env (fn env cfg) a"
    and g: "\<And>i. refines env (runSetup_range env cfg n i todo) b"
  shows "refines env (runSetup_range env cfg n i ((name, fn) # todo)) (a @ b)"
proof (rule runs_intro)
  fix s
  let ?s2 = "Println dashes
      (Print (''Step '' @ showNat (i + 1) @ ''/'' @ showNat n @ '': '' @ name @ ''...'' @ nl) s)"
  obtain r s3 where a: "fn env cfg ?s2 = (r, s3)"
    by (cases "fn env cfg ?s2")
  have a1: "(r = None) = fst (run_cmds env (executed s) a)"
    and a2: "executed s3 = executed s @ snd (run_cmds env (executed s) a)"
    using refinesD [OF f, of ?s2] a by simp_all
  have b: "(fst (runSetup_range env cfg n (i + 1) todo (Println [] s3)) = None)
       = fst (run_cmds env (executed s3) b)"
    "executed (snd (runSetup_range env cfg n (i + 1) todo (Println [] s3))) =
       executed s3 @ snd (run_cmds env (executed s3) b)"
    using refinesD [OF g [of "i + 1"], of "Println [] s3"] by simp_all
  have c: "runSetup_range env cfg n i ((name, fn) # todo) s =
      (case r of Some err \<Rightarrow> (Some (Wrap (name @ '' failed: '' @ Error err) err), s3)
       | None \<Rightarrow> runSetup_range env cfg n (i + 1) todo (Println [] s3))"
    using a by (simp add: Let_def split: option.splits)
  show "(fst (runSetup_range env cfg n i ((name, fn) # todo) s) = None)
      = fst (run_cmds env (executed s) (a @ b))"
    using a1 a2 b c run_cmds_ok [of env "executed s" a]
    by (cases r) (auto simp: run_cmds_append)
  show "executed (snd (runSetup_range env cfg n i ((name, fn) # todo) s)) =
      executed s @ snd (run_cmds env (executed s) (a @ b))"
    using a1 a2 b c run_cmds_ok [of env "executed s" a]
    by (cases r) (auto simp: run_cmds_append)
qed

lemma refines_nil: "refines env (runSetup_range env cfg n i []) []"
  by (simp add: refines_def)

lemma refines_steps:
  assumes "\<not> dryRun env"
  shows "refines env (runSetup_range env cfg n i steps) (setup_cmds env cfg)"
proof -
  have 5: "\<And>i. refines env (runSetup_range env cfg n i [(''Configuring GitHub Repository'', configureGitHub)])
      (github_cmds env cfg)"
    using refines_step [where fn = configureGitHub and env = env and cfg = cfg and todo = "[]" and b = "[]",
        OF refines_configureGitHub [OF assms] refines_nil] by simp
  have 4: "\<And>i. refines env (runSetup_range env cfg n i
      [(''Creating Artifact Registry'', createArtifactRegistry),
       (''Configuring GitHub Repository'', configureGitHub)])
      ([create_repository_cmd cfg] @ github_cmds env cfg)"
    by (rule refines_step [where fn = createArtifactRegistry and env = env and cfg = cfg,
        OF refines_createArtifactRegistry [OF assms] 5])
  have 3: "\<And>i. refines env (runSetup_range env cfg n i
      [(''Setting up Workload Identity Federation'', setupWorkloadIdentity),
       (''Creating Artifact Registry'', createArtifactRegistry),
       (''Configuring GitHub Repository'', configureGitHub)])
      ([create_pool_cmd cfg, create_provider_cmd cfg, bind_cmd cfg] @
       [create_repository_cmd cfg] @ github_cmds env cfg)"
    by (rule refines_step [where fn = setupWorkloadIdentity and env = env and cfg = cfg,
        OF refines_setupWorkloadIdentity [OF assms] 4])
  have 2: "\<And>i. refines env (runSetup_range env cfg n i
      [(''Creating Service Account'', createServiceAccount),
       (''Setting up Workload Identity Federation'', setupWorkloadIdentity),
       (''Creating Artifact Registry'', createArtifactRegistry),
       (''Configuring GitHub Repository'', configureGitHub)])
      ((create_account_cmd cfg # map (grant_cmd cfg) roles) @
       [create_pool_cmd cfg, create_provider_cmd cfg, bind_cmd cfg] @
       [create_repository_cmd cfg] @ github_cmds env cfg)"
    by (rule refines_step [where fn = createServiceAccount and env = env and cfg = cfg,
        OF refines_createServiceAccount [OF assms] 3])
  show ?thesis
    unfolding steps_def setup_cmds_def
    by (rule refines_step [where fn = enableAPIs and env = env and cfg = cfg,
        OF refines_enableAPIs [OF assms] 2])
qed

subsection \<open>Dry runs\<close>

lemma runCommandSilent_dry:
  "dryRun env \<Longrightarrow> runCommandSilent env name args s = (None, Print (dry_run_line (name, args)) s)"
  by (simp add: runCommandSilent_def dry_run_line_def)

lemma enableAPIs_range_dry:
  "dryRun env \<Longrightarrow>
   fst (enableAPIs_range env cfg as s) = None
   \<and> executed (snd (enableAPIs_range env cfg as s)) = executed s
   \<and> stdout (snd (enableAPIs_range env cfg as s)) =
       stdout s @ concat (map (\<lambda>api. [''  Enabling '' @ api @ nl, dry_run_line (enable_cmd cfg api)]) as)"
proof (induction as arbitrary: s)
  case Nil
  then show ?case by simp
next
  case (Cons api as)
  let ?s2 = "Print (dry_run_line (enable_cmd cfg api)) (Print (''  Enabling '' @ api @ nl) s)"
  have "enableAPIs_range env cfg (api # as) s = enableAPIs_range env cfg as ?s2"
    using Cons.prems by (simp add: runCommandSilent_dry enable_cmd_def)
  then show ?case
    using Cons.IH [OF Cons.prems, of ?s2] by simp
qed

lemma grantRoles_range_dry:
  "dryRun env \<Longrightarrow>
   fst (grantRoles_range env cfg rs s) = None
   \<and> executed (snd (grantRoles_range env cfg rs s)) = executed s
   \<and> stdout (snd (grantRoles_range env cfg rs s)) =
       stdout s @ concat (map (\<lambda>role. [''  Granting '' @ role @ nl, dry_run_line (grant_cmd cfg role)]) rs)"
proof (induction rs arbitrary: s)
  case Nil
  then show ?case by simp
next
  case (Cons role rs)
  let ?s2 = "Print (dry_run_line (grant_cmd cfg role)) (Print (''  Granting '' @ role @ nl) s)"
  have "grantRoles_range env cfg (role # rs) s = grantRoles_range env cfg rs ?s2"
    using Cons.prems by (simp add: runCommandSilent_dry grant_cmd_def)
  then show ?case
    using Cons.IH [OF Cons.prems, of ?s2] by simp
qed

lemma createServiceAccount_dry:
  assumes "dryRun env"
  shows "fst (createServiceAccount env cfg s) = None
   \<and> executed (snd (createServiceAccount env cfg s)) = executed s
   \<and> stdout (snd (createServiceAccount env cfg s)) =
       stdout s @ [''  Creating service account: '' @ ServiceAccountName cfg @ nl,
                   dry_run_line (create_account_cmd cfg)]
       @ concat (map (\<lambda>role. [''  Granting '' @ role @ nl, dry_run_line (grant_cmd cfg role)]) roles)"
proof -
  have "createServiceAccount env cfg s = grantRoles_range env cfg roles
      (Print (dry_run_line (create_account_cmd cfg))
        (Print (''  Creating service account: '' @ ServiceAccountName cfg @ nl) s))"
    using assms by (simp add: createServiceAccount_def runCommandSilent_dry create_account_cmd_def)
  then show ?thesis
    using grantRoles_range_dry [OF assms] by simp
qed

lemma setupWorkloadIdentity_dry:
  assumes "dryRun env"
  shows "setupWorkloadIdentity env cfg s =
     (None, Print (dry_run_line (bind_cmd cfg))
       (Println ''  Configuring repository access...''
         (Print (dry_run_line (create_provider_cmd cfg))
           (Println ''  Creating OIDC Provider...''
             (Print (dry_run_line (create_pool_cmd cfg))
               (Println ''  Creating Workload Identity Pool...'' s))))))"
  using assms
  by (simp add: setupWorkloadIdentity_def runCommandSilent_dry Let_def
      create_pool_cmd_def create_provider_cmd_def bind_cmd_def)

lemma createArtifactRegistry_dry:
  assumes "dryRun env"
  shows "createArtifactRegistry env cfg s =
     (None, Print (dry_run_line (create_repository_cmd cfg))
        (Print (''  Creating repository: '' @ ArtifactRegistryName cfg @ nl) s))"
  using assms
  by (simp add: createArtifactRegistry_def runCommandSilent_dry Let_def create_repository_cmd_def)

lemma setSecrets_range_dry:
  "dryRun env \<Longrightarrow>
   fst (setSecrets_range env repo kvs s) = None
   \<and> executed (snd (setSecrets_range env repo kvs s)) = executed s
   \<and> stdout (snd (setSecrets_range env repo kvs s)) =
       stdout s @ concat (map (\<lambda>kv. [''    '' @ fst kv @ nl,
          ''    [dry-run] gh secret set '' @ fst kv @ '' --repo '' @ repo @ nl]) kvs)"
proof (induction kvs arbitrary: s)
  case Nil
  then show ?case by simp
next
  case (Cons kv kvs)
  obtain name val where kv: "kv = (name, val)" by (cases kv)
  show ?case
    using Cons.prems Cons.IH [OF Cons.prems] by (simp add: kv)
qed

lemma setVariables_range_dry:
  "dryRun env \<Longrightarrow>
   fst (setVariables_range env repo kvs s) = None
   \<and> executed (snd (setVariables_range env repo kvs s)) = executed s
   \<and> stdout (snd (setVariables_range env repo kvs s)) =
       stdout s @ concat (map (\<lambda>kv. [''    '' @ fst kv @ nl,
          ''    [dry-run] gh variable set '' @ fst kv @ '' --repo '' @ repo @ nl]) kvs)"
proof (induction kvs arbitrary: s)
  case Nil
  then show ?case by simp
next
  case (Cons kv kvs)
  obtain name val where kv: "kv = (name, val)" by (cases kv)
  show ?case
    using Cons.prems Cons.IH [OF Cons.prems] by (simp add: kv)
qed

lemma configureGitHub_dry:
  assumes "dryRun env"
  shows "fst (configureGitHub env cfg s) = None
   \<and> executed (snd (configureGitHub env cfg s)) = executed s
   \<and> stdout (snd (configureGitHub env cfg s)) =
       stdout s @ [''  Setting secrets...'' @ nl]
       @ concat (map (\<lambda>kv. [''    '' @ fst kv @ nl,
            ''    [dry-run] gh secret set '' @ fst kv @ '' --repo '' @ GitHubOrg cfg @ ''/'' @ GitHubRepo cfg @ nl])
           (rangeMap (secretsOrder env) (secrets cfg)))
       @ [''  Setting variables...'' @ nl]
       @ concat (map (\<lambda>kv. [''    '' @ fst kv @ nl,
            ''    [dry-run] gh variable set '' @ fst kv @ '' --repo '' @ GitHubOrg cfg @ ''/'' @ GitHubRepo cfg @ nl])
           (rangeMap (variablesOrder env) (variables cfg)))"
proof -
  let ?repo = "GitHubOrg cfg @ ''/'' @ GitHubRepo cfg"
  let ?s1 = "Println ''  Setting secrets...'' s"
  obtain r s2 where a: "setSecrets_range env ?repo (rangeMap (secretsOrder env) (secrets cfg)) ?s1 = (r, s2)"
    by (cases "setSecrets_range env ?repo (rangeMap (secretsOrder env) (secrets cfg)) ?s1")
  have r: "r = None" and e: "executed s2 = executed s"
    and o: "stdout s2 = stdout ?s1 @ concat (map (\<lambda>kv. [''    '' @ fst kv @ nl,
          ''    [dry-run] gh secret set '' @ fst kv @ '' --repo '' @ ?repo @ nl])
           (rangeMap (secretsOrder env) (secrets cfg)))"
    using setSecrets_range_dry [OF assms, of ?repo "rangeMap (secretsOrder env) (secrets cfg)" ?s1] a
    by simp_all
  have c: "configureGitHub env cfg s =
      setVariables_range env ?repo (rangeMap (variablesOrder env) (variables cfg))
        (Println ''  Setting variables...'' s2)"
    using a r by (simp add: configureGitHub_def Let_def)
  show ?thesis
    unfolding c
    using setVariables_range_dry [OF assms, of ?repo "rangeMap (variablesOrder env) (variables cfg)"
        "Println ''  Setting variables...'' s2"] e o
    by simp
qed

subsection \<open>The whole run\<close>

lemma banner_fields [simp]:
  "executed (setup_banner cfg s) = executed s" "executed (setup_complete s) = executed s"
  "executed (step_banner n i name s) = executed s"
  by (simp_all add: setup_banner_def setup_complete_def step_banner_def)

lemma checkGH_run:
  "checkGH env s =
     (if \<not> LookPath env ''gh''
      then (Some (New ''GitHub CLI (gh) not found. Install it: https://cli.github.com/''), s)
      else (if Run env (executed s) auth_cmd \<noteq> None
            then Some (New ''GitHub CLI not authenticated. Run: gh auth login'') else None,
            s\<lparr>executed := executed s @ [auth_cmd]\<rparr>))"
  by (auto simp: checkGH_def exec_Run_def auth_cmd_def)

lemma length_steps: "length steps = 5"
  by (simp add: steps_def)

lemma runSetup_unfold:
  "runSetup env s =
     (case ValidateConfig env of
        Some err \<Rightarrow> (Some err, s)
      | None \<Rightarrow>
     (case checkGcloud env of
        Some err \<Rightarrow> (Some err, s)
      | None \<Rightarrow>
     (case checkGH env s of
        (Some err, s0) \<Rightarrow> (Some err, s0)
      | (None, s0) \<Rightarrow>
          (case runSetup_range env (loadConfig env) 5 0 steps (setup_banner (loadConfig env) s0) of
             (Some err, s9) \<Rightarrow> (Some err, s9)
           | (None, s9) \<Rightarrow> (None, setup_complete s9)))))"
  by (simp add: runSetup_def length_steps setup_banner_def setup_complete_def Let_def
      split: option.splits prod.splits)

lemma runSetup_range_quiet:
  assumes "\<And>name fn s. (name, fn) \<in> set todo \<Longrightarrow>
      fst (fn env cfg s) = None \<and> executed (snd (fn env cfg s)) = executed s"
  shows "fst (runSetup_range env cfg n i todo s) = None
      \<and> executed (snd (runSetup_range env cfg n i todo s)) = executed s"
  using assms
proof (induction todo arbitrary: i s)
  case Nil
  then show ?case by simp
next
  case (Cons st todo)
  obtain name fn where st: "st = (name, fn)" by (cases st)
  let ?s2 = "step_banner n i name s"
  obtain r s3 where a: "fn env cfg ?s2 = (r, s3)" by (cases "fn env cfg ?s2")
  have q: "r = None" "executed s3 = executed s"
    using Cons.prems [of name fn ?s2] a st by simp_all
  have u: "runSetup_range env cfg n i (st # todo) s = runSetup_range env cfg n (i + 1) todo (Println [] s3)"
    using a q by (simp add: st step_banner_def Let_def)
  have "fst (runSetup_range env cfg n (i + 1) todo (Println [] s3)) = None
      \<and> executed (snd (runSetup_range env cfg n (i + 1) todo (Println [] s3))) = executed (Println [] s3)"
    by (rule Cons.IH) (use Cons.prems in auto)
  then show ?case
    unfolding u using q by simp
qed

lemma steps_dry:
  assumes "dryRun env"
  shows "fst (runSetup_range env cfg n i steps s) = None
      \<and> executed (snd (runSetup_range env cfg n i steps s)) = executed s"
proof (rule runSetup_range_quiet)
  fix name fn s
  assume "(name, fn) \<in> set steps"
  then consider "fn = enableAPIs" | "fn = createServiceAccount" | "fn = setupWorkloadIdentity"
    | "fn = createArtifactRegistry" | "fn = configureGitHub"
    by (auto simp: steps_def)
  then show "fst (fn env cfg s) = None \<and> executed (snd (fn env cfg s)) = executed s"
  proof cases
    case 1
    then show ?thesis using enableAPIs_range_dry [OF assms] by (simp add: enableAPIs_def)
  next
    case 2
    then show ?thesis using createServiceAccount_dry [OF assms] by simp
  next
    case 3
    then show ?thesis by (simp add: setupWorkloadIdentity_dry [OF assms])
  next
    case 4
    then show ?thesis by (simp add: createArtifactRegistry_dry [OF assms])
  next
    case 5
    then show ?thesis using configureGitHub_dry [OF assms] by simp
  qed
qed

lemma runSetup_dry:
  assumes "dryRun env"
  shows "executed (snd (runSetup env s)) =
      executed s @ (if ValidateConfig env = None \<and> checkGcloud env = None \<and> LookPath env ''gh''
                    then [auth_cmd] else [])"
    and "ValidateConfig env = None \<Longrightarrow> checkGcloud env = None \<Longrightarrow> LookPath env ''gh'' \<Longrightarrow>
         Run env (executed s) auth_cmd = None \<Longrightarrow> fst (runSetup env s) = None"
proof -
  let ?cfg = "loadConfig env"
  let ?s0 = "s\<lparr>executed := executed s @ [auth_cmd]\<rparr>"
  obtain r s9 where a: "runSetup_range env ?cfg 5 0 steps (setup_banner ?cfg ?s0) = (r, s9)"
    by (cases "runSetup_range env ?cfg 5 0 steps (setup_banner ?cfg ?s0)")
  have q: "r = None" "executed s9 = executed s @ [auth_cmd]"
    using steps_dry [OF assms, of ?cfg 5 0 "setup_banner ?cfg ?s0"] a by simp_all
  show "executed (snd (runSetup env s)) =
      executed s @ (if ValidateConfig env = None \<and> checkGcloud env = None \<and> LookPath env ''gh''
                    then [auth_cmd] else [])"
    using a q by (auto simp: runSetup_unfold checkGH_run split: option.splits)
  show "ValidateConfig env = None \<Longrightarrow> checkGcloud env = None \<Longrightarrow> LookPath env ''gh'' \<Longrightarrow>
         Run env (executed s) auth_cmd = None \<Longrightarrow> fst (runSetup env s) = None"
    using a q by (simp add: runSetup_unfold checkGH_run)
qed

lemma runSetup_run:
  assumes "\<not> dryRun env" "ValidateConfig env = None" "checkGcloud env = None" "LookPath env ''gh''"
    "Run env (executed s) auth_cmd = None"
  shows "(fst (runSetup env s) = None)
      = fst (run_cmds env (executed s @ [auth_cmd]) (setup_cmds env (loadConfig env)))"
    and "executed (snd (runSetup env s)) =
      executed s @ auth_cmd # snd (run_cmds env (executed s @ [auth_cmd]) (setup_cmds env (loadConfig env)))"
proof -
  let ?cfg = "loadConfig env"
  let ?s0 = "s\<lparr>executed := executed s @ [auth_cmd]\<rparr>"
  obtain r s9 where a: "runSetup_range env ?cfg 5 0 steps (setup_banner ?cfg ?s0) = (r, s9)"
    by (cases "runSetup_range env ?cfg 5 0 steps (setup_banner ?cfg ?s0)")
  have q: "(r = None) = fst (run_cmds env (executed s @ [auth_cmd]) (setup_cmds env ?cfg))"
    "executed s9 = executed s @ [auth_cmd] @ snd (run_cmds env (executed s @ [auth_cmd]) (setup_cmds env ?cfg))"
    using refinesD [OF refines_steps [OF assms(1)], of ?cfg 5 0 "setup_banner ?cfg ?s0"] a
    by simp_all
  show "(fst (runSetup env s) = None)
      = fst (run_cmds env (executed s @ [auth_cmd]) (setup_cmds env (loadConfig env)))"
    using a q assms by (cases r) (simp_all add: runSetup_unfold checkGH_run)
  show "executed (snd (runSetup env s)) =
      executed s @ auth_cmd # snd (run_cmds env (executed s @ [auth_cmd]) (setup_cmds env (loadConfig env)))"
    using a q assms by (cases r) (simp_all add: runSetup_unfold checkGH_run)
qed

lemma runSetup_step_fails:
  assumes "ValidateConfig env = None" "checkGcloud env = None" "checkGH env s = (None, s0)"
    and "steps = done @ (name, fn) # later"
    and "runSetup_range env (loadConfig env) 5 0 done (setup_banner (loadConfig env) s0) = (None, s1)"
    and "fn env (loadConfig env) (step_banner 5 (length done) name s1) = (Some err, s2)"
  shows "runSetup env s = (Some (Wrap (name @ '' failed: '' @ Error err) err), s2)"
proof -
  have "runSetup_range env (loadConfig env) 5 0 steps (setup_banner (loadConfig env) s0)
      = (Some (Wrap (name @ '' failed: '' @ Error err) err), s2)"
    unfolding assms(4) runSetup_range_append
    using assms(5,6) by (simp add: step_banner_def Let_def)
  then show ?thesis
    using assms(1-3) by (simp add: runSetup_unfold)
qed

lemma configured_preflight:
  "ValidateConfig (configured_env\<lparr>Run := r, dryRun := d, secretsOrder := k\<rparr>) = None"
  "checkGcloud (configured_env\<lparr>Run := r, dryRun := d, secretsOrder := k\<rparr>) = None"
  "LookPath (configured_env\<lparr>Run := r, dryRun := d, secretsOrder := k\<rparr>) ''gh''"
  by (simp_all add: ValidateConfig_def checkGcloud_def configured_env_def example_env_def
      example_values_def RequiredVars_def)

lemma stdout_grantRoles_range:
  "\<exists>more. stdout (snd (grantRoles_range env cfg rs s)) = stdout s @ more"
proof (induction rs arbitrary: s)
  case Nil
  then show ?case by simp
next
  case (Cons role rs)
  let ?s1 = "Print (''  Granting '' @ role @ nl) s"
  let ?args = "[''projects'', ''add-iam-policy-binding'', ProjectID cfg,
        ''--member=serviceAccount:'' @ ServiceAccountEmail cfg, ''--role='' @ role,
        ''--condition=None'']"
  obtain r s2 where a: "runCommandSilent env ''gcloud'' ?args ?s1 = (r, s2)"
    by (cases "runCommandSilent env ''gcloud'' ?args ?s1")
  have b: "\<exists>more. stdout s2 = stdout s @ more"
    using a by (auto simp: runCommandSilent_def exec_Run_def split: if_splits)
  obtain more where c: "stdout (snd (grantRoles_range env cfg rs s2)) = stdout s2 @ more"
    using Cons.IH by blast
  show ?case
    using a b c by (cases r) auto
qed

lemma createServiceAccount_note:
  assumes "\<not> dryRun env" "Run env (executed s) (create_account_cmd cfg) \<noteq> None"
  shows "''  (service account may already exist, continuing...)'' @ nl
      \<in> set (stdout (snd (createServiceAccount env cfg s)))"
proof -
  let ?s3 = "Println ''  (service account may already exist, continuing...)''
      ((Print (''  Creating service account: '' @ ServiceAccountName cfg @ nl) s)
        \<lparr>executed := executed s @ [create_account_cmd cfg]\<rparr>)"
  have "createServiceAccount env cfg s = grantRoles_range env cfg roles ?s3"
    using assms by (simp add: createServiceAccount_def runCommandSilent_run create_account_cmd_def)
  then show ?thesis
    using stdout_grantRoles_range [of env cfg roles ?s3] by auto
qed

lemma run_cmds_fails:
  "\<not> fst (run_cmds env h cs) \<longleftrightarrow>
     (\<exists>pre c post. cs = pre @ c # post \<and> snd (run_cmds env h cs) = pre @ [c]
        \<and> Run env (h @ pre) c \<noteq> None \<and> \<not> is_create c)"
proof (induction cs arbitrary: h)
  case Nil
  then show ?case by simp
next
  case (Cons c cs)
  show ?case
  proof (cases "Run env h c \<noteq> None \<and> \<not> is_create c")
    case True
    then have "c # cs = [] @ c # cs \<and> snd (run_cmds env h (c # cs)) = [] @ [c]
        \<and> Run env (h @ []) c \<noteq> None \<and> \<not> is_create c"
      by simp
    then have "\<exists>pre c' post. c # cs = pre @ c' # post \<and> snd (run_cmds env h (c # cs)) = pre @ [c']
        \<and> Run env (h @ pre) c' \<noteq> None \<and> \<not> is_create c'"
      by blast
    then show ?thesis
      using True by simp
  next
    case False
    have "(\<exists>pre c' post. c # cs = pre @ c' # post \<and> snd (run_cmds env h (c # cs)) = pre @ [c']
        \<and> Run env (h @ pre) c' \<noteq> None \<and> \<not> is_create c')
      \<longleftrightarrow> (\<exists>pre c' post. cs = pre @ c' # post \<and> snd (run_cmds env (h @ [c]) cs) = pre @ [c']
        \<and> Run env (h @ [c] @ pre) c' \<noteq> None \<and> \<not> is_create c')" (is "?L \<longleftrightarrow> ?R")
    proof
      assume ?L
      then obtain pre c' post where p: "c # cs = pre @ c' # post"
        "snd (run_cmds env h (c # cs)) = pre @ [c']" "Run env (h @ pre) c' \<noteq> None" "\<not> is_create c'"
        by blast
      have "pre \<noteq> []"
        using p False by (cases pre) auto
      then obtain pre' where pre: "pre = c # pre'"
        using p(1) by (cases pre) auto
      then show ?R
        using p False by (intro exI [of _ pre'] exI [of _ c'] exI [of _ post]) auto
    next
      assume ?R
      then obtain pre c' post where p: "cs = pre @ c' # post"
        "snd (run_cmds env (h @ [c]) cs) = pre @ [c']" "Run env (h @ [c] @ pre) c' \<noteq> None" "\<not> is_create c'"
        by blast
      then show ?L
        using False by (intro exI [of _ "c # pre"] exI [of _ c'] exI [of _ post]) auto
    qed
    then have lr: "?L \<longleftrightarrow> ?R" .
    have "(\<not> fst (run_cmds env h (c # cs))) = (\<not> fst (run_cmds env (h @ [c]) cs))"
      using False by auto
    also have "\<dots> = ?R"
      using Cons.IH [of "h @ [c]"] by simp
    also have "\<dots> = ?L"
      using lr by simp
    finally show ?thesis .
  qed
qed

lemma mset_rangeMap: "mset (rangeMap order m) = mset m"
proof (induction order m rule: rangeMap.induct)
  case (1 order m)
  show ?case
  proof (cases "m = []")
    case True
    then show ?thesis by (simp add: rangeMap.simps)
  next
    case False
    let ?i = "order mod length m"
    have i: "?i < length m"
      using False by simp
    have ih: "mset (rangeMap (order div length m) (take ?i m @ drop (Suc ?i) m))
        = mset (take ?i m @ drop (Suc ?i) m)"
      using 1 [OF False refl] .
    have "mset m = mset (take ?i m @ m ! ?i # drop (Suc ?i) m)"
      using id_take_nth_drop [OF i] by simp
    then show ?thesis
      using False ih by (subst rangeMap.simps) (simp add: Let_def)
  qed
qed

lemma runSetup_preflight_fails:
  "ValidateConfig env \<noteq> None \<or> checkGcloud env \<noteq> None \<or> \<not> LookPath env ''gh'' \<Longrightarrow>
     executed (snd (runSetup env s)) = executed s"
  "ValidateConfig env = None \<Longrightarrow> checkGcloud env = None \<Longrightarrow> LookPath env ''gh'' \<Longrightarrow>
     Run env (executed s) auth_cmd \<noteq> None \<Longrightarrow> executed (snd (runSetup env s)) = executed s @ [auth_cmd]"
  by (auto simp: runSetup_unfold checkGH_run split: option.splits)

lemma runSetup_executed_prefix:
  "\<exists>k. executed (snd (runSetup env s)) = executed s @ take k (auth_cmd # setup_cmds env (loadConfig env))"
proof -
  let ?all = "auth_cmd # setup_cmds env (loadConfig env)"
  consider (none) "executed (snd (runSetup env s)) = executed s"
    | (auth) "executed (snd (runSetup env s)) = executed s @ [auth_cmd]"
    | (run) "\<not> dryRun env" "ValidateConfig env = None" "checkGcloud env = None" "LookPath env ''gh''"
        "Run env (executed s) auth_cmd = None"
    using runSetup_preflight_fails [of env s] runSetup_dry(1) [of env s]
    by (cases "dryRun env") (auto split: if_splits)
  then show ?thesis
  proof cases
    case none
    then have "executed (snd (runSetup env s)) = executed s @ take 0 ?all" by simp
    then show ?thesis ..
  next
    case auth
    then have "executed (snd (runSetup env s)) = executed s @ take 1 ?all" by simp
    then show ?thesis ..
  next
    case run
    obtain zs where "setup_cmds env (loadConfig env) =
        snd (run_cmds env (executed s @ [auth_cmd]) (setup_cmds env (loadConfig env))) @ zs"
      using run_cmds_prefix [of env "executed s @ [auth_cmd]" "setup_cmds env (loadConfig env)"]
      by (auto simp: prefix_def)
    then have "snd (run_cmds env (executed s @ [auth_cmd]) (setup_cmds env (loadConfig env)))
        = take (length (snd (run_cmds env (executed s @ [auth_cmd]) (setup_cmds env (loadConfig env)))))
            (setup_cmds env (loadConfig env))"
      by (metis append_eq_conv_conj)
    then have "executed (snd (runSetup env s)) = executed s @
        take (Suc (length (snd (run_cmds env (executed s @ [auth_cmd]) (setup_cmds env (loadConfig env)))))) ?all"
      using runSetup_run(2) [OF run] by simp
    then show ?thesis ..
  qed
qed

subsection \<open>The output of a dry run\<close>

lemma banner_stdout:
  "stdout (setup_banner cfg s) = stdout s @ setup_banner_lines cfg"
  "stdout (setup_complete s) = stdout s @ setup_complete_lines"
  "stdout (step_banner n i name s) = stdout s @ step_banner_lines n i name"
  by (simp_all add: setup_banner_def setup_complete_def step_banner_def setup_banner_lines_def
      setup_complete_lines_def step_banner_lines_def Println_def Print_def)

lemma runSetup_range_sections:
  assumes "list_all2 (\<lambda>st lines. \<forall>s. fst (snd st env cfg s) = None
      \<and> stdout (snd (snd st env cfg s)) = stdout s @ lines) todo sections"
  shows "fst (runSetup_range env cfg n i todo s) = None
    \<and> stdout (snd (runSetup_range env cfg n i todo s)) =
        stdout s @ sections_output n i (map fst todo) sections"
  using assms
proof (induction todo sections arbitrary: i s rule: list_all2_induct)
  case Nil
  then show ?case by simp
next
  case (Cons st todo lines sections)
  obtain name fn where st: "st = (name, fn)" by (cases st)
  let ?s2 = "step_banner n i name s"
  obtain r s3 where a: "fn env cfg ?s2 = (r, s3)" by (cases "fn env cfg ?s2")
  have "fst (fn env cfg ?s2) = None \<and> stdout (snd (fn env cfg ?s2)) = stdout ?s2 @ lines"
    using Cons.hyps(1) by (simp add: st)
  then have r: "r = None" and o: "stdout s3 = stdout s @ step_banner_lines n i name @ lines"
    by (simp_all add: a banner_stdout)
  have "runSetup_range env cfg n i (st # todo) s = runSetup_range env cfg n (i + 1) todo (Println [] s3)"
    using a r by (simp add: st step_banner_def Let_def)
  moreover have "stdout (Println [] s3) = stdout s @ step_banner_lines n i name @ lines @ [nl]"
    using o by (simp add: Println_def Print_def)
  ultimately show ?case
    using Cons.IH [of "i + 1" "Println [] s3"] by (simp add: st)
qed

lemma steps_dry_sections:
  assumes "dryRun env"
  shows "list_all2 (\<lambda>st lines. \<forall>s. fst (snd st env cfg s) = None
      \<and> stdout (snd (snd st env cfg s)) = stdout s @ lines) steps
      [enable_lines cfg, account_lines cfg, identity_lines cfg, registry_lines cfg, github_lines env cfg]"
proof -
  have 1: "fst (enableAPIs env cfg s) = None
      \<and> stdout (snd (enableAPIs env cfg s)) = stdout s @ enable_lines cfg" for s
    using enableAPIs_range_dry [OF assms, of cfg apis s] by (simp add: enableAPIs_def enable_lines_def)
  have 2: "fst (createServiceAccount env cfg s) = None
      \<and> stdout (snd (createServiceAccount env cfg s)) = stdout s @ account_lines cfg" for s
    using createServiceAccount_dry [OF assms, of cfg s] by (simp add: account_lines_def)
  have 3: "fst (setupWorkloadIdentity env cfg s) = None
      \<and> stdout (snd (setupWorkloadIdentity env cfg s)) = stdout s @ identity_lines cfg" for s
    by (simp add: setupWorkloadIdentity_dry [OF assms] identity_lines_def Println_def Print_def)
  have 4: "fst (createArtifactRegistry env cfg s) = None
      \<and> stdout (snd (createArtifactRegistry env cfg s)) = stdout s @ registry_lines cfg" for s
    by (simp add: createArtifactRegistry_dry [OF assms] registry_lines_def Println_def Print_def)
  have 5: "fst (configureGitHub env cfg s) = None
      \<and> stdout (snd (configureGitHub env cfg s)) = stdout s @ github_lines env cfg" for s
    using configureGitHub_dry [OF assms, of cfg s] by (simp add: github_lines_def)
  show ?thesis
    unfolding steps_def using 1 2 3 4 5 by simp
qed

lemma map_fst_steps:
  "map fst steps =
     [''Enabling APIs'', ''Creating Service Account'', ''Setting up Workload Identity Federation'',
      ''Creating Artifact Registry'', ''Configuring GitHub Repository'']"
  by (simp add: steps_def)

lemma runSetup_preflight:
  assumes "ValidateConfig env = None" "checkGcloud env = None" "checkGH env s = (None, s0)"
  shows "runSetup env s =
     (case runSetup_range env (loadConfig env) 5 0 steps (setup_banner (loadConfig env) s0) of
        (Some err, s9) \<Rightarrow> (Some err, s9)
      | (None, s9) \<Rightarrow> (None, setup_complete s9))"
  using assms by (simp add: runSetup_unfold)

lemma runSetup_dry_output:
  assumes "dryRun env" "ValidateConfig env = None" "checkGcloud env = None" "checkGH env s = (None, s0)"
  shows "fst (runSetup env s) = None"
    and "stdout (snd (runSetup env s)) = stdout s @ dry_run_output env (loadConfig env)"
proof -
  let ?cfg = "loadConfig env"
  obtain r s9 where a: "runSetup_range env ?cfg 5 0 steps (setup_banner ?cfg s0) = (r, s9)"
    by (cases "runSetup_range env ?cfg 5 0 steps (setup_banner ?cfg s0)")
  have s0: "stdout s0 = stdout s"
    using assms(4) by (auto simp: checkGH_run split: if_splits)
  have q: "r = None" "stdout s9 = stdout s @ setup_banner_lines ?cfg @ sections_output 5 0 (map fst steps)
      [enable_lines ?cfg, account_lines ?cfg, identity_lines ?cfg, registry_lines ?cfg, github_lines env ?cfg]"
    using runSetup_range_sections [OF steps_dry_sections [OF assms(1)], of ?cfg 5 0 "setup_banner ?cfg s0"] a
    by (simp_all add: banner_stdout s0)
  have u: "runSetup env s = (None, setup_complete s9)"
    using runSetup_preflight [OF assms(2-4)] a q(1) by simp
  show "fst (runSetup env s) = None"
    by (simp add: u)
  show "stdout (snd (runSetup env s)) = stdout s @ dry_run_output env ?cfg"
    unfolding u dry_run_output_def map_fst_steps [symmetric]
    by (simp add: banner_stdout q(2))
qed

subsection \<open>The claims about the setup command\<close>

text \<open>
  C1. The steps are the five functions in the fixed order. Every run whose preflight
  checks pass, dry or not, is the loop over these five steps between the banner and the
  closing lines. The loop runs them in series: running a list of steps is running its
  first part and, only when that returned no error, the rest from the state it left; one
  step prints its heading, and returns its function's error wrapped with the step name.
  So when the steps before a step return no error and the step returns an error,
  \<open>runSetup\<close> returns that error wrapped, in the state the failing step left: no later
  step runs, nothing is retried or rolled back. A run that is not a dry run and returns
  no error has run the whole list of commands in order; a dry run whose preflight checks
  pass returns no error and prints the banner, the five steps in order, each with its
  heading and its lines, and the closing lines.
\<close>

theorem runSetup_steps_in_order:
  "map fst steps =
     [''Enabling APIs'', ''Creating Service Account'', ''Setting up Workload Identity Federation'',
      ''Creating Artifact Registry'', ''Configuring GitHub Repository'']
   \<and> map snd steps =
     [enableAPIs, createServiceAccount, setupWorkloadIdentity, createArtifactRegistry, configureGitHub]
   \<and> runSetup_range env cfg n i (earlier @ todo) s =
       (case runSetup_range env cfg n i earlier s of
          (Some e, s') \<Rightarrow> (Some e, s')
        | (None, s') \<Rightarrow> runSetup_range env cfg n (i + length earlier) todo s')
   \<and> runSetup_range env cfg n i [(name, fn)] s =
       (case fn env cfg (step_banner n i name s) of
          (Some e, s') \<Rightarrow> (Some (Wrap (name @ '' failed: '' @ Error e) e), s')
        | (None, s') \<Rightarrow> (None, Println [] s'))
   \<and> (ValidateConfig env = None \<and> checkGcloud env = None \<and> checkGH env s = (None, s0)
        \<and> steps = earlier @ (name, fn) # later
        \<and> runSetup_range env (loadConfig env) 5 0 earlier (setup_banner (loadConfig env) s0) = (None, s1)
        \<and> fn env (loadConfig env) (step_banner 5 (length earlier) name s1) = (Some err, s2)
       \<longrightarrow> runSetup env s = (Some (Wrap (name @ '' failed: '' @ Error err) err), s2))
   \<and> (\<not> dryRun env \<and> fst (runSetup env s) = None
       \<longrightarrow> executed (snd (runSetup env s)) = executed s @ auth_cmd # setup_cmds env (loadConfig env))
   \<and> (ValidateConfig env = None \<and> checkGcloud env = None \<and> checkGH env s = (None, s0)
       \<longrightarrow> runSetup env s =
             (case runSetup_range env (loadConfig env) 5 0 steps (setup_banner (loadConfig env) s0) of
                (Some e, s') \<Rightarrow> (Some e, s')
              | (None, s') \<Rightarrow> (None, setup_complete s')))
   \<and> (dryRun env \<and> ValidateConfig env = None \<and> checkGcloud env = None \<and> checkGH env s = (None, s0)
       \<longrightarrow> fst (runSetup env s) = None
           \<and> stdout (snd (runSetup env s)) = stdout s @ dry_run_output env (loadConfig env))"
proof -
  have "\<not> dryRun env \<and> fst (runSetup env s) = None
       \<longrightarrow> executed (snd (runSetup env s)) = executed s @ auth_cmd # setup_cmds env (loadConfig env)"
  proof
    assume a: "\<not> dryRun env \<and> fst (runSetup env s) = None"
    then have pre: "ValidateConfig env = None" "checkGcloud env = None" "LookPath env ''gh''"
      "Run env (executed s) auth_cmd = None"
      by (auto simp: runSetup_unfold checkGH_run split: option.splits if_splits)
    have "fst (run_cmds env (executed s @ [auth_cmd]) (setup_cmds env (loadConfig env)))"
      using runSetup_run(1) [of env s] a pre by simp
    then show "executed (snd (runSetup env s)) = executed s @ auth_cmd # setup_cmds env (loadConfig env)"
      using runSetup_run(2) [of env s] a pre run_cmds_ok by simp
  qed
  moreover have "map fst steps =
     [''Enabling APIs'', ''Creating Service Account'', ''Setting up Workload Identity Federation'',
      ''Creating Artifact Registry'', ''Configuring GitHub Repository'']
   \<and> map snd steps =
     [enableAPIs, createServiceAccount, setupWorkloadIdentity, createArtifactRegistry, configureGitHub]"
    by (simp add: steps_def)
  moreover have "runSetup_range env cfg n i [(name, fn)] s =
       (case fn env cfg (step_banner n i name s) of
          (Some e, s') \<Rightarrow> (Some (Wrap (name @ '' failed: '' @ Error e) e), s')
        | (None, s') \<Rightarrow> (None, Println [] s'))"
    unfolding step_banner_def by (rule runSetup_range_single)
  moreover have "ValidateConfig env = None \<and> checkGcloud env = None \<and> checkGH env s = (None, s0)
       \<longrightarrow> runSetup env s =
             (case runSetup_range env (loadConfig env) 5 0 steps (setup_banner (loadConfig env) s0) of
                (Some e, s') \<Rightarrow> (Some e, s')
              | (None, s') \<Rightarrow> (None, setup_complete s'))"
    using runSetup_preflight [of env s s0] by blast
  moreover have "dryRun env \<and> ValidateConfig env = None \<and> checkGcloud env = None
        \<and> checkGH env s = (None, s0)
       \<longrightarrow> fst (runSetup env s) = None
           \<and> stdout (snd (runSetup env s)) = stdout s @ dry_run_output env (loadConfig env)"
    using runSetup_dry_output [of env s s0] by blast
  ultimately show ?thesis
    using runSetup_range_append [of env cfg n i earlier todo s]
      runSetup_step_fails [of env s s0 earlier name fn later s1 err s2]
    by blast
qed

theorem runSetup_steps_in_order_witness:
  "ValidateConfig failing_grant_env = None \<and> checkGcloud failing_grant_env = None
   \<and> fst (checkGH failing_grant_env example_state) = None
   \<and> steps = [(''Enabling APIs'', enableAPIs)] @ (''Creating Service Account'', createServiceAccount) # drop 2 steps
   \<and> fst (runSetup_range failing_grant_env (loadConfig failing_grant_env) 5 0 [(''Enabling APIs'', enableAPIs)]
        (setup_banner (loadConfig failing_grant_env) (snd (checkGH failing_grant_env example_state)))) = None
   \<and> fst (runSetup failing_grant_env example_state) =
        Some (Wrap ''Creating Service Account failed: exit status 1'' (New ''exit status 1''))
   \<and> executed (snd (runSetup failing_grant_env example_state)) =
        auth_cmd # map (enable_cmd (loadConfig failing_grant_env)) apis
        @ [create_account_cmd (loadConfig failing_grant_env),
           grant_cmd (loadConfig failing_grant_env) ''roles/run.developer'']
   \<and> \<not> dryRun configured_env \<and> fst (runSetup configured_env example_state) = None
   \<and> executed (snd (runSetup configured_env example_state)) =
        auth_cmd # setup_cmds configured_env (loadConfig configured_env)
   \<and> dryRun dry_run_env \<and> ValidateConfig dry_run_env = None \<and> checkGcloud dry_run_env = None
   \<and> fst (checkGH dry_run_env example_state) = None
   \<and> fst (runSetup dry_run_env example_state) = None
   \<and> stdout (snd (runSetup dry_run_env example_state)) =
        dry_run_output dry_run_env (loadConfig dry_run_env)
   \<and> filter (\<lambda>line. take 5 line = ''Step '') (dry_run_output dry_run_env (loadConfig dry_run_env)) =
        [''Step 1/5: Enabling APIs...'' @ nl,
         ''Step 2/5: Creating Service Account...'' @ nl,
         ''Step 3/5: Setting up Workload Identity Federation...'' @ nl,
         ''Step 4/5: Creating Artifact Registry...'' @ nl,
         ''Step 5/5: Configuring GitHub Repository...'' @ nl]"
proof -
  let ?e = failing_grant_env
  let ?cfg = "loadConfig ?e"
  let ?s0 = "snd (checkGH ?e example_state)"
  let ?r1 = "runSetup_range ?e ?cfg 5 0 [(''Enabling APIs'', enableAPIs)] (setup_banner ?cfg ?s0)"
  let ?r2 = "createServiceAccount ?e ?cfg (step_banner 5 (length [(''Enabling APIs'', enableAPIs)])
      ''Creating Service Account'' (snd ?r1))"
  have v1: "ValidateConfig ?e = None" and v2: "checkGcloud ?e = None"
    by (simp_all add: failing_grant_env_def ValidateConfig_def checkGcloud_def configured_env_def
        example_env_def example_values_def RequiredVars_def)
  have g: "fst (checkGH ?e example_state) = None"
    by (simp add: checkGH_run failing_grant_env_def configured_env_def example_env_def grant_fails_def
        auth_cmd_def)
  have st: "steps = [(''Enabling APIs'', enableAPIs)] @ (''Creating Service Account'', createServiceAccount) # drop 2 steps"
    by (simp add: steps_def)
  have r1: "fst ?r1 = None"
    by (simp add: enableAPIs_def apis_def runCommandSilent_def exec_Run_def failing_grant_env_def
        configured_env_def example_env_def grant_fails_def Let_def)
  have r2: "fst ?r2 = Some (New ''exit status 1'')"
    by (simp add: createServiceAccount_def roles_def runCommandSilent_def exec_Run_def
        failing_grant_env_def configured_env_def example_env_def grant_fails_def Let_def)
  have g': "checkGH ?e example_state = (None, ?s0)"
    using g by (simp add: prod_eq_iff)
  have r1': "?r1 = (None, snd ?r1)"
    using r1 by (simp add: prod_eq_iff)
  have r2': "?r2 = (Some (New ''exit status 1''), snd ?r2)"
    using r2 by (simp add: prod_eq_iff)
  have f0: "runSetup ?e example_state =
      (Some (Wrap (''Creating Service Account'' @ '' failed: '' @ Error (New ''exit status 1''))
        (New ''exit status 1'')), snd ?r2)"
    using runSetup_steps_in_order [of ?e _ _ _ "[(''Enabling APIs'', enableAPIs)]" _ example_state
        "''Creating Service Account''" createServiceAccount ?s0 "drop 2 steps" "snd ?r1"
        "New ''exit status 1''" "snd ?r2"]
      v1 v2 g' st r1' r2'
    by blast
  have f: "fst (runSetup ?e example_state) =
        Some (Wrap ''Creating Service Account failed: exit status 1'' (New ''exit status 1''))"
    unfolding f0 by simp
  have x: "executed (snd (runSetup ?e example_state)) =
        auth_cmd # map (enable_cmd ?cfg) apis
        @ [create_account_cmd ?cfg, grant_cmd ?cfg ''roles/run.developer'']"
    unfolding f0
    by (simp add: createServiceAccount_def roles_def runCommandSilent_def exec_Run_def enableAPIs_def
        apis_def failing_grant_env_def configured_env_def example_env_def grant_fails_def Let_def
        checkGH_run auth_cmd_def enable_cmd_def create_account_cmd_def grant_cmd_def example_state_def
        step_banner_def setup_banner_def Println_def Print_def)
  have c: "\<not> dryRun configured_env" "ValidateConfig configured_env = None"
    "checkGcloud configured_env = None" "LookPath configured_env ''gh''"
    "Run configured_env h k = None" for h k
    by (simp_all add: ValidateConfig_def checkGcloud_def configured_env_def
        example_env_def example_values_def RequiredVars_def)
  have c5: "fst (runSetup configured_env example_state) = None"
    using runSetup_run(1) [OF c(1-4) c(5), of example_state] run_cmds_none [of configured_env, OF c(5)]
    by simp
  have c6: "executed (snd (runSetup configured_env example_state)) =
        auth_cmd # setup_cmds configured_env (loadConfig configured_env)"
    using runSetup_steps_in_order [of configured_env _ _ _ "[]" "[]" example_state] c(1) c5
    by (simp add: example_state_def)
  have d: "dryRun dry_run_env" and d1: "ValidateConfig dry_run_env = None"
    and d2: "checkGcloud dry_run_env = None"
    by (simp_all add: dry_run_env_def ValidateConfig_def checkGcloud_def configured_env_def
        example_env_def example_values_def RequiredVars_def)
  have d3: "fst (checkGH dry_run_env example_state) = None"
    by (simp add: checkGH_run dry_run_env_def configured_env_def example_env_def)
  have d3': "checkGH dry_run_env example_state = (None, snd (checkGH dry_run_env example_state))"
    using d3 by (simp add: prod_eq_iff)
  have d4: "fst (runSetup dry_run_env example_state) = None
      \<and> stdout (snd (runSetup dry_run_env example_state)) =
          stdout example_state @ dry_run_output dry_run_env (loadConfig dry_run_env)"
    using runSetup_steps_in_order [where env = dry_run_env and s = example_state
        and ?s0.0 = "snd (checkGH dry_run_env example_state)" and earlier = "[]" and todo = "[]"]
      d d1 d2 d3'
    by blast
  have d5: "fst (runSetup dry_run_env example_state) = None"
    using d4 by simp
  have d6: "stdout (snd (runSetup dry_run_env example_state)) =
        dry_run_output dry_run_env (loadConfig dry_run_env)"
    using d4 by (simp add: example_state_def)
  have o: "secretsOrder dry_run_env = 0" "variablesOrder dry_run_env = 0"
    by (simp_all add: dry_run_env_def configured_env_def example_env_def)
  have d7: "filter (\<lambda>line. take 5 line = ''Step '') (dry_run_output dry_run_env (loadConfig dry_run_env)) =
        [''Step 1/5: Enabling APIs...'' @ nl,
         ''Step 2/5: Creating Service Account...'' @ nl,
         ''Step 3/5: Setting up Workload Identity Federation...'' @ nl,
         ''Step 4/5: Creating Artifact Registry...'' @ nl,
         ''Step 5/5: Configuring GitHub Repository...'' @ nl]"
    by (simp add: dry_run_output_def setup_banner_lines_def setup_complete_lines_def
        step_banner_lines_def enable_lines_def account_lines_def identity_lines_def
        registry_lines_def github_lines_def dry_run_line_def apis_def roles_def o secrets_def
        variables_def rangeMap.simps rule_def dashes_def showNat.simps nl_def)
  show ?thesis
    by (intro conjI v1 v2 g st r1 f x c(1) c5 c6 d d1 d2 d3 d5 d6 d7)
qed

text \<open>
  C2, as amended. With \<open>--dry-run\<close>, \<open>runCommand\<close> and \<open>runCommandSilent\<close> print the
  command line after \<open>[dry-run]\<close> and return nil; each of the five steps returns nil and
  runs no external command; the four steps that call \<open>gcloud\<close> print the whole command
  line of each of their commands after \<open>[dry-run]\<close>, and the GitHub step prints for each
  secret and each variable the command line up to the repository after \<open>[dry-run]\<close>,
  without \<open>--body\<close> and the value. The only external command of the whole run is the
  \<open>gh auth status\<close> of the preflight check, which is run whenever the configuration is
  complete and both binaries are found; when it succeeds the run returns nil and prints
  the banner, the five steps in order with these lines, and the closing lines.
\<close>

theorem dry_run_executes_preflight_only:
  "dryRun env \<longrightarrow>
     runCommand env name args s = (None, Print (dry_run_line (name, args)) s)
   \<and> runCommandSilent env name args s = (None, Print (dry_run_line (name, args)) s)
   \<and> (fn \<in> snd ` set steps \<longrightarrow> fst (fn env cfg s) = None \<and> executed (snd (fn env cfg s)) = executed s)
   \<and> stdout (snd (enableAPIs env cfg s)) =
       stdout s @ concat (map (\<lambda>api. [''  Enabling '' @ api @ nl, dry_run_line (enable_cmd cfg api)]) apis)
   \<and> stdout (snd (createServiceAccount env cfg s)) =
       stdout s @ [''  Creating service account: '' @ ServiceAccountName cfg @ nl,
                   dry_run_line (create_account_cmd cfg)]
       @ concat (map (\<lambda>role. [''  Granting '' @ role @ nl, dry_run_line (grant_cmd cfg role)]) roles)
   \<and> stdout (snd (setupWorkloadIdentity env cfg s)) =
       stdout s @ [''  Creating Workload Identity Pool...'' @ nl, dry_run_line (create_pool_cmd cfg),
                   ''  Creating OIDC Provider...'' @ nl, dry_run_line (create_provider_cmd cfg),
                   ''  Configuring repository access...'' @ nl, dry_run_line (bind_cmd cfg)]
   \<and> stdout (snd (createArtifactRegistry env cfg s)) =
       stdout s @ [''  Creating repository: '' @ ArtifactRegistryName cfg @ nl,
                   dry_run_line (create_repository_cmd cfg)]
   \<and> stdout (snd (configureGitHub env cfg s)) =
       stdout s @ [''  Setting secrets...'' @ nl]
       @ concat (map (\<lambda>kv. [''    '' @ fst kv @ nl,
            ''    [dry-run] gh secret set '' @ fst kv @ '' --repo '' @ GitHubOrg cfg @ ''/'' @ GitHubRepo cfg @ nl])
           (rangeMap (secretsOrder env) (secrets cfg)))
       @ [''  Setting variables...'' @ nl]
       @ concat (map (\<lambda>kv. [''    '' @ fst kv @ nl,
            ''    [dry-run] gh variable set '' @ fst kv @ '' --repo '' @ GitHubOrg cfg @ ''/'' @ GitHubRepo cfg @ nl])
           (rangeMap (variablesOrder env) (variables cfg)))
   \<and> executed (snd (runSetup env s)) =
       executed s @ (if ValidateConfig env = None \<and> checkGcloud env = None \<and> LookPath env ''gh''
                     then [auth_cmd] else [])
   \<and> (ValidateConfig env = None \<and> checkGcloud env = None \<and> LookPath env ''gh''
        \<and> Run env (executed s) auth_cmd = None \<longrightarrow>
          fst (runSetup env s) = None
          \<and> stdout (snd (runSetup env s)) = stdout s @ dry_run_output env (loadConfig env))"
proof
  assume d: "dryRun env"
  have 1: "runCommand env name args s = (None, Print (dry_run_line (name, args)) s)"
    using d by (simp add: runCommand_def dry_run_line_def)
  have 2: "runCommandSilent env name args s = (None, Print (dry_run_line (name, args)) s)"
    using d by (rule runCommandSilent_dry)
  have 3: "fn \<in> snd ` set steps \<longrightarrow> fst (fn env cfg s) = None \<and> executed (snd (fn env cfg s)) = executed s"
  proof
    assume "fn \<in> snd ` set steps"
    then have "fn = enableAPIs \<or> fn = createServiceAccount \<or> fn = setupWorkloadIdentity
        \<or> fn = createArtifactRegistry \<or> fn = configureGitHub"
      by (auto simp: steps_def)
    then show "fst (fn env cfg s) = None \<and> executed (snd (fn env cfg s)) = executed s"
      using enableAPIs_range_dry [OF d, of cfg apis s] createServiceAccount_dry [OF d, of cfg s]
        setupWorkloadIdentity_dry [OF d, of cfg s] createArtifactRegistry_dry [OF d, of cfg s]
        configureGitHub_dry [OF d, of cfg s]
      by (auto simp: enableAPIs_def)
  qed
  have 4: "stdout (snd (enableAPIs env cfg s)) =
       stdout s @ concat (map (\<lambda>api. [''  Enabling '' @ api @ nl, dry_run_line (enable_cmd cfg api)]) apis)"
    using enableAPIs_range_dry [OF d, of cfg apis s] by (simp add: enableAPIs_def)
  have 6: "stdout (snd (setupWorkloadIdentity env cfg s)) =
       stdout s @ [''  Creating Workload Identity Pool...'' @ nl, dry_run_line (create_pool_cmd cfg),
                   ''  Creating OIDC Provider...'' @ nl, dry_run_line (create_provider_cmd cfg),
                   ''  Configuring repository access...'' @ nl, dry_run_line (bind_cmd cfg)]"
    by (simp add: setupWorkloadIdentity_dry [OF d])
  have 7: "stdout (snd (createArtifactRegistry env cfg s)) =
       stdout s @ [''  Creating repository: '' @ ArtifactRegistryName cfg @ nl,
                   dry_run_line (create_repository_cmd cfg)]"
    by (simp add: createArtifactRegistry_dry [OF d])
  have 8: "ValidateConfig env = None \<and> checkGcloud env = None \<and> LookPath env ''gh''
        \<and> Run env (executed s) auth_cmd = None \<longrightarrow>
          fst (runSetup env s) = None
          \<and> stdout (snd (runSetup env s)) = stdout s @ dry_run_output env (loadConfig env)"
  proof
    assume a: "ValidateConfig env = None \<and> checkGcloud env = None \<and> LookPath env ''gh''
        \<and> Run env (executed s) auth_cmd = None"
    then have g: "checkGH env s = (None, s\<lparr>executed := executed s @ [auth_cmd]\<rparr>)"
      by (simp add: checkGH_run)
    show "fst (runSetup env s) = None
          \<and> stdout (snd (runSetup env s)) = stdout s @ dry_run_output env (loadConfig env)"
      using runSetup_dry_output [OF d _ _ g] a by simp
  qed
  show "runCommand env name args s = (None, Print (dry_run_line (name, args)) s)
   \<and> runCommandSilent env name args s = (None, Print (dry_run_line (name, args)) s)
   \<and> (fn \<in> snd ` set steps \<longrightarrow> fst (fn env cfg s) = None \<and> executed (snd (fn env cfg s)) = executed s)
   \<and> stdout (snd (enableAPIs env cfg s)) =
       stdout s @ concat (map (\<lambda>api. [''  Enabling '' @ api @ nl, dry_run_line (enable_cmd cfg api)]) apis)
   \<and> stdout (snd (createServiceAccount env cfg s)) =
       stdout s @ [''  Creating service account: '' @ ServiceAccountName cfg @ nl,
                   dry_run_line (create_account_cmd cfg)]
       @ concat (map (\<lambda>role. [''  Granting '' @ role @ nl, dry_run_line (grant_cmd cfg role)]) roles)
   \<and> stdout (snd (setupWorkloadIdentity env cfg s)) =
       stdout s @ [''  Creating Workload Identity Pool...'' @ nl, dry_run_line (create_pool_cmd cfg),
                   ''  Creating OIDC Provider...'' @ nl, dry_run_line (create_provider_cmd cfg),
                   ''  Configuring repository access...'' @ nl, dry_run_line (bind_cmd cfg)]
   \<and> stdout (snd (createArtifactRegistry env cfg s)) =
       stdout s @ [''  Creating repository: '' @ ArtifactRegistryName cfg @ nl,
                   dry_run_line (create_repository_cmd cfg)]
   \<and> stdout (snd (configureGitHub env cfg s)) =
       stdout s @ [''  Setting secrets...'' @ nl]
       @ concat (map (\<lambda>kv. [''    '' @ fst kv @ nl,
            ''    [dry-run] gh secret set '' @ fst kv @ '' --repo '' @ GitHubOrg cfg @ ''/'' @ GitHubRepo cfg @ nl])
           (rangeMap (secretsOrder env) (secrets cfg)))
       @ [''  Setting variables...'' @ nl]
       @ concat (map (\<lambda>kv. [''    '' @ fst kv @ nl,
            ''    [dry-run] gh variable set '' @ fst kv @ '' --repo '' @ GitHubOrg cfg @ ''/'' @ GitHubRepo cfg @ nl])
           (rangeMap (variablesOrder env) (variables cfg)))
   \<and> executed (snd (runSetup env s)) =
       executed s @ (if ValidateConfig env = None \<and> checkGcloud env = None \<and> LookPath env ''gh''
                     then [auth_cmd] else [])
   \<and> (ValidateConfig env = None \<and> checkGcloud env = None \<and> LookPath env ''gh''
        \<and> Run env (executed s) auth_cmd = None \<longrightarrow>
          fst (runSetup env s) = None
          \<and> stdout (snd (runSetup env s)) = stdout s @ dry_run_output env (loadConfig env))"
    using 1 2 3 4 6 7 8 createServiceAccount_dry [OF d, of cfg s] configureGitHub_dry [OF d, of cfg s]
      runSetup_dry(1) [OF d, of s]
    by blast
qed

text \<open>
  C2 as stated fails twice. A dry run of a configured project executes \<open>gh auth status\<close>.
  And what the GitHub step prints for a secret or a variable is not the command line: the
  command has \<open>--body\<close> and the value, the line has not.
\<close>

theorem dry_run_runs_gh_auth_status:
  "dryRun dry_run_env \<and> executed example_state = []
   \<and> executed (snd (runSetup dry_run_env example_state)) = [(''gh'', [''auth'', ''status''])]
   \<and> stdout (snd (configureGitHub dry_run_env (loadConfig dry_run_env) example_state)) =
       [''  Setting secrets...'' @ nl,
        ''    GCP_SERVICE_ACCOUNT'' @ nl,
        ''    [dry-run] gh secret set GCP_SERVICE_ACCOUNT --repo org/repo'' @ nl,
        ''    GCP_WORKLOAD_IDENTITY_PROVIDER'' @ nl,
        ''    [dry-run] gh secret set GCP_WORKLOAD_IDENTITY_PROVIDER --repo org/repo'' @ nl,
        ''  Setting variables...'' @ nl,
        ''    CLOUD_RUN_SERVICE'' @ nl,
        ''    [dry-run] gh variable set CLOUD_RUN_SERVICE --repo org/repo'' @ nl,
        ''    CLOUD_RUN_REGION'' @ nl,
        ''    [dry-run] gh variable set CLOUD_RUN_REGION --repo org/repo'' @ nl,
        ''    ARTIFACT_REGISTRY_URL'' @ nl,
        ''    [dry-run] gh variable set ARTIFACT_REGISTRY_URL --repo org/repo'' @ nl]
   \<and> secret_cmd (loadConfig dry_run_env) (hd (secrets (loadConfig dry_run_env))) =
       (''gh'', [''secret'', ''set'', ''GCP_SERVICE_ACCOUNT'', ''--repo'', ''org/repo'',
                ''--body'', ''ci@acme.iam.gserviceaccount.com''])
   \<and> dry_run_line (secret_cmd (loadConfig dry_run_env) (hd (secrets (loadConfig dry_run_env)))) =
       ''  [dry-run] gh secret set GCP_SERVICE_ACCOUNT --repo org/repo --body ci@acme.iam.gserviceaccount.com'' @ nl"
proof -
  have d: "dryRun dry_run_env"
    by (simp add: dry_run_env_def)
  have p: "ValidateConfig dry_run_env = None" "checkGcloud dry_run_env = None" "LookPath dry_run_env ''gh''"
    by (simp_all add: dry_run_env_def ValidateConfig_def checkGcloud_def configured_env_def example_env_def
        example_values_def RequiredVars_def)
  have e: "executed (snd (runSetup dry_run_env example_state)) = [(''gh'', [''auth'', ''status''])]"
    using runSetup_dry(1) [OF d, of example_state] p d
    by (simp add: example_state_def auth_cmd_def)
  have o: "secretsOrder dry_run_env = 0" "variablesOrder dry_run_env = 0"
    by (simp_all add: dry_run_env_def configured_env_def example_env_def)
  have c: "loadConfig dry_run_env =
      \<lparr>ProjectID = ''acme'', ProjectNumber = ''42'', GitHubOrg = ''org'', GitHubRepo = ''repo'',
       ServiceAccountName = ''ci'', ServiceAccountEmail = ''ci@acme.iam.gserviceaccount.com'',
       ArtifactRegistryName = ''docker'', ArtifactRegistryLocation = ''eu'',
       CloudRunService = ''api'', CloudRunRegion = ''eu'',
       WorkloadIdentityProvider =
         ''projects/42/locations/global/workloadIdentityPools/github-pool/providers/github-provider'',
       ArtifactRegistryURL = ''eu-docker.pkg.dev/acme/docker''\<rparr>"
    by (simp add: loadConfig_def dry_run_env_def configured_env_def example_env_def example_values_def
        Let_def)
  have g: "stdout (snd (configureGitHub dry_run_env (loadConfig dry_run_env) example_state)) =
       [''  Setting secrets...'' @ nl,
        ''    GCP_SERVICE_ACCOUNT'' @ nl,
        ''    [dry-run] gh secret set GCP_SERVICE_ACCOUNT --repo org/repo'' @ nl,
        ''    GCP_WORKLOAD_IDENTITY_PROVIDER'' @ nl,
        ''    [dry-run] gh secret set GCP_WORKLOAD_IDENTITY_PROVIDER --repo org/repo'' @ nl,
        ''  Setting variables...'' @ nl,
        ''    CLOUD_RUN_SERVICE'' @ nl,
        ''    [dry-run] gh variable set CLOUD_RUN_SERVICE --repo org/repo'' @ nl,
        ''    CLOUD_RUN_REGION'' @ nl,
        ''    [dry-run] gh variable set CLOUD_RUN_REGION --repo org/repo'' @ nl,
        ''    ARTIFACT_REGISTRY_URL'' @ nl,
        ''    [dry-run] gh variable set ARTIFACT_REGISTRY_URL --repo org/repo'' @ nl]"
    using configureGitHub_dry [OF d, of "loadConfig dry_run_env" example_state]
    by (simp add: o c secrets_def variables_def rangeMap.simps example_state_def)
  have k: "secret_cmd (loadConfig dry_run_env) (hd (secrets (loadConfig dry_run_env))) =
       (''gh'', [''secret'', ''set'', ''GCP_SERVICE_ACCOUNT'', ''--repo'', ''org/repo'',
                ''--body'', ''ci@acme.iam.gserviceaccount.com''])"
    by (simp add: c secrets_def secret_cmd_def)
  have l: "dry_run_line (secret_cmd (loadConfig dry_run_env) (hd (secrets (loadConfig dry_run_env)))) =
       ''  [dry-run] gh secret set GCP_SERVICE_ACCOUNT --repo org/repo --body ci@acme.iam.gserviceaccount.com'' @ nl"
    unfolding k by (simp add: dry_run_line_def)
  have x: "executed example_state = []"
    by (simp add: example_state_def)
  show ?thesis
    by (intro conjI d x e g k l)
qed

theorem dry_run_executes_preflight_only_witness:
  "dryRun dry_run_env
   \<and> ValidateConfig dry_run_env = None \<and> checkGcloud dry_run_env = None \<and> LookPath dry_run_env ''gh''
   \<and> Run dry_run_env (executed example_state) auth_cmd = None
   \<and> createArtifactRegistry \<in> snd ` set steps
   \<and> fst (runSetup dry_run_env example_state) = None
   \<and> stdout (snd (runSetup dry_run_env example_state)) =
       stdout example_state @ dry_run_output dry_run_env (loadConfig dry_run_env)
   \<and> fst (createArtifactRegistry dry_run_env (loadConfig dry_run_env) example_state) = None
   \<and> executed (snd (createArtifactRegistry dry_run_env (loadConfig dry_run_env) example_state)) = []
   \<and> stdout (snd (createArtifactRegistry dry_run_env (loadConfig dry_run_env) example_state)) =
       [''  Creating repository: docker'' @ nl,
        ''  [dry-run] gcloud artifacts repositories create docker --project=acme --location=eu --repository-format=docker --description=Container registry for CI/CD'' @ nl]"
proof -
  have d: "dryRun dry_run_env"
    by (simp add: dry_run_env_def)
  have p: "ValidateConfig dry_run_env = None" "checkGcloud dry_run_env = None" "LookPath dry_run_env ''gh''"
    "Run dry_run_env (executed example_state) auth_cmd = None"
    by (simp_all add: dry_run_env_def ValidateConfig_def checkGcloud_def configured_env_def example_env_def
        example_values_def RequiredVars_def)
  have m: "createArtifactRegistry \<in> snd ` set steps"
    by (simp add: steps_def)
  have c: "ArtifactRegistryName (loadConfig dry_run_env) = ''docker''"
    "dry_run_line (create_repository_cmd (loadConfig dry_run_env)) =
      ''  [dry-run] gcloud artifacts repositories create docker --project=acme --location=eu --repository-format=docker --description=Container registry for CI/CD'' @ nl"
    by (simp_all add: loadConfig_def dry_run_env_def configured_env_def example_env_def example_values_def
        dry_run_line_def create_repository_cmd_def Let_def)
  show ?thesis
    using dry_run_executes_preflight_only [of dry_run_env _ _ example_state createArtifactRegistry
        "loadConfig dry_run_env"] d p m c
    by (simp add: example_state_def)
qed

lemma setupWorkloadIdentity_notes:
  assumes "\<not> dryRun env"
  shows "Run env (executed s) (create_pool_cmd cfg) \<noteq> None \<longrightarrow>
      ''  (pool may already exist, continuing...)'' @ nl \<in> set (stdout (snd (setupWorkloadIdentity env cfg s)))"
    and "Run env (executed s @ [create_pool_cmd cfg]) (create_provider_cmd cfg) \<noteq> None \<longrightarrow>
      ''  (provider may already exist, continuing...)'' @ nl \<in> set (stdout (snd (setupWorkloadIdentity env cfg s)))"
  by (simp_all add: setupWorkloadIdentity_stdout [OF assms])

text \<open>
  C3. Outside a dry run each step refines its list of commands: it returns an error
  exactly when a command that is not an idempotent create fails, and it stops there; a
  failing create does not end the step, the step prints its "may already exist,
  continuing" note and goes on with the next command. Among the commands of the setup
  run the idempotent creates are exactly the four creates.
\<close>

theorem create_failures_are_ignored:
  "\<not> dryRun env \<longrightarrow>
     refines env (enableAPIs env cfg) (map (enable_cmd cfg) apis)
   \<and> refines env (createServiceAccount env cfg) (create_account_cmd cfg # map (grant_cmd cfg) roles)
   \<and> refines env (setupWorkloadIdentity env cfg) [create_pool_cmd cfg, create_provider_cmd cfg, bind_cmd cfg]
   \<and> refines env (createArtifactRegistry env cfg) [create_repository_cmd cfg]
   \<and> refines env (configureGitHub env cfg) (github_cmds env cfg)
   \<and> (Run env (executed s) (create_account_cmd cfg) \<noteq> None \<longrightarrow>
        ''  (service account may already exist, continuing...)'' @ nl
          \<in> set (stdout (snd (createServiceAccount env cfg s))))
   \<and> (Run env (executed s) (create_pool_cmd cfg) \<noteq> None \<longrightarrow>
        ''  (pool may already exist, continuing...)'' @ nl
          \<in> set (stdout (snd (setupWorkloadIdentity env cfg s))))
   \<and> (Run env (executed s @ [create_pool_cmd cfg]) (create_provider_cmd cfg) \<noteq> None \<longrightarrow>
        ''  (provider may already exist, continuing...)'' @ nl
          \<in> set (stdout (snd (setupWorkloadIdentity env cfg s))))
   \<and> (Run env (executed s) (create_repository_cmd cfg) \<noteq> None \<longrightarrow>
        ''  (repository may already exist, continuing...)'' @ nl
          \<in> set (stdout (snd (createArtifactRegistry env cfg s))))
   \<and> (fst (run_cmds env h cs) \<longrightarrow> snd (run_cmds env h cs) = cs)
   \<and> (\<not> fst (run_cmds env h cs) \<longleftrightarrow>
        (\<exists>pre c post. cs = pre @ c # post \<and> snd (run_cmds env h cs) = pre @ [c]
           \<and> Run env (h @ pre) c \<noteq> None \<and> \<not> is_create c))
   \<and> (c \<in> set (setup_cmds env cfg) \<longrightarrow>
        (is_create c \<longleftrightarrow> c \<in> {create_account_cmd cfg, create_pool_cmd cfg, create_provider_cmd cfg,
                                    create_repository_cmd cfg}))"
proof
  assume d: "\<not> dryRun env"
  have creates: "c \<in> set (setup_cmds env cfg) \<longrightarrow>
        (is_create c \<longleftrightarrow> c \<in> {create_account_cmd cfg, create_pool_cmd cfg, create_provider_cmd cfg,
                                    create_repository_cmd cfg})"
  proof
    assume m: "c \<in> set (setup_cmds env cfg)"
    have "is_create c \<Longrightarrow> c \<in> {create_account_cmd cfg, create_pool_cmd cfg, create_provider_cmd cfg,
        create_repository_cmd cfg}"
      using m by (auto simp: setup_cmds_def github_cmds_def)
    moreover have "c \<in> {create_account_cmd cfg, create_pool_cmd cfg, create_provider_cmd cfg,
        create_repository_cmd cfg} \<Longrightarrow> is_create c"
      by auto
    ultimately show "is_create c \<longleftrightarrow> c \<in> {create_account_cmd cfg, create_pool_cmd cfg,
        create_provider_cmd cfg, create_repository_cmd cfg}"
      by blast
  qed
  have note4: "Run env (executed s) (create_repository_cmd cfg) \<noteq> None \<longrightarrow>
        ''  (repository may already exist, continuing...)'' @ nl
          \<in> set (stdout (snd (createArtifactRegistry env cfg s)))"
    by (simp add: createArtifactRegistry_stdout [OF d])
  show "refines env (enableAPIs env cfg) (map (enable_cmd cfg) apis)
   \<and> refines env (createServiceAccount env cfg) (create_account_cmd cfg # map (grant_cmd cfg) roles)
   \<and> refines env (setupWorkloadIdentity env cfg) [create_pool_cmd cfg, create_provider_cmd cfg, bind_cmd cfg]
   \<and> refines env (createArtifactRegistry env cfg) [create_repository_cmd cfg]
   \<and> refines env (configureGitHub env cfg) (github_cmds env cfg)
   \<and> (Run env (executed s) (create_account_cmd cfg) \<noteq> None \<longrightarrow>
        ''  (service account may already exist, continuing...)'' @ nl
          \<in> set (stdout (snd (createServiceAccount env cfg s))))
   \<and> (Run env (executed s) (create_pool_cmd cfg) \<noteq> None \<longrightarrow>
        ''  (pool may already exist, continuing...)'' @ nl
          \<in> set (stdout (snd (setupWorkloadIdentity env cfg s))))
   \<and> (Run env (executed s @ [create_pool_cmd cfg]) (create_provider_cmd cfg) \<noteq> None \<longrightarrow>
        ''  (provider may already exist, continuing...)'' @ nl
          \<in> set (stdout (snd (setupWorkloadIdentity env cfg s))))
   \<and> (Run env (executed s) (create_repository_cmd cfg) \<noteq> None \<longrightarrow>
        ''  (repository may already exist, continuing...)'' @ nl
          \<in> set (stdout (snd (createArtifactRegistry env cfg s))))
   \<and> (fst (run_cmds env h cs) \<longrightarrow> snd (run_cmds env h cs) = cs)
   \<and> (\<not> fst (run_cmds env h cs) \<longleftrightarrow>
        (\<exists>pre c post. cs = pre @ c # post \<and> snd (run_cmds env h cs) = pre @ [c]
           \<and> Run env (h @ pre) c \<noteq> None \<and> \<not> is_create c))
   \<and> (c \<in> set (setup_cmds env cfg) \<longrightarrow>
        (is_create c \<longleftrightarrow> c \<in> {create_account_cmd cfg, create_pool_cmd cfg, create_provider_cmd cfg,
                                    create_repository_cmd cfg}))"
    using refines_enableAPIs [OF d, of cfg] refines_createServiceAccount [OF d, of cfg]
      refines_setupWorkloadIdentity [OF d, of cfg] refines_createArtifactRegistry [OF d, of cfg]
      refines_configureGitHub [OF d, of cfg] createServiceAccount_note [OF d, of s cfg]
      setupWorkloadIdentity_notes [OF d, of s cfg] note4 run_cmds_ok [of env h cs]
      run_cmds_fails [of env h cs] creates
    by blast
qed

theorem create_failures_are_ignored_witness:
  "\<not> dryRun failing_creates_env
   \<and> Run failing_creates_env [] (create_account_cmd (loadConfig failing_creates_env)) \<noteq> None
   \<and> fst (createServiceAccount failing_creates_env (loadConfig failing_creates_env) example_state) = None
   \<and> executed (snd (createServiceAccount failing_creates_env (loadConfig failing_creates_env) example_state))
       = create_account_cmd (loadConfig failing_creates_env)
         # map (grant_cmd (loadConfig failing_creates_env)) roles
   \<and> ''  (service account may already exist, continuing...)'' @ nl
       \<in> set (stdout (snd (createServiceAccount failing_creates_env (loadConfig failing_creates_env) example_state)))"
proof -
  let ?e = failing_creates_env
  let ?cfg = "loadConfig ?e"
  let ?cs = "create_account_cmd ?cfg # map (grant_cmd ?cfg) roles"
  have d: "\<not> dryRun ?e"
    by (simp add: failing_creates_env_def configured_env_def example_env_def)
  have f: "Run ?e [] (create_account_cmd ?cfg) \<noteq> None"
    by (simp add: failing_creates_env_def creates_fail_def)
  have ok: "run_cmds ?e [] ?cs = (True, ?cs)"
    by (simp add: roles_def failing_creates_env_def creates_fail_def)
  have r: "refines ?e (createServiceAccount ?e ?cfg) ?cs"
    using create_failures_are_ignored [of ?e ?cfg] d by blast
  have n: "''  (service account may already exist, continuing...)'' @ nl
       \<in> set (stdout (snd (createServiceAccount ?e ?cfg example_state)))"
    using create_failures_are_ignored [of ?e ?cfg example_state] d f
    by (simp add: example_state_def)
  show ?thesis
    using refinesD [OF r, of example_state] ok d f n
    by (simp add: example_state_def)
qed

text \<open>
  C6, as amended. The external commands of a run are a prefix of one list: the preflight
  check, the commands of the first four steps in their fixed order, the two secrets in
  the order in which the runtime iterates over the map of secrets, and the three variables
  in the order in which it iterates over the map of variables. Each iteration visits every
  entry once. A run that returns no error has run the whole list, and a dry run prints the
  secrets and the variables in those same orders.
\<close>

theorem setup_commands_fixed_up_to_map_order:
  "(\<exists>k. executed (snd (runSetup env s)) =
         executed s @ take k (auth_cmd # setup_cmds env (loadConfig env)))
   \<and> setup_cmds env cfg =
       map (enable_cmd cfg) apis @ [create_account_cmd cfg] @ map (grant_cmd cfg) roles @
       [create_pool_cmd cfg, create_provider_cmd cfg, bind_cmd cfg, create_repository_cmd cfg] @
       map (secret_cmd cfg) (rangeMap (secretsOrder env) (secrets cfg)) @
       map (variable_cmd cfg) (rangeMap (variablesOrder env) (variables cfg))
   \<and> mset (rangeMap (secretsOrder env) (secrets cfg)) = mset (secrets cfg)
   \<and> mset (rangeMap (variablesOrder env) (variables cfg)) = mset (variables cfg)
   \<and> (\<not> dryRun env \<and> fst (runSetup env s) = None \<longrightarrow>
        executed (snd (runSetup env s)) = executed s @ auth_cmd # setup_cmds env (loadConfig env))
   \<and> (dryRun env \<longrightarrow>
        stdout (snd (configureGitHub env cfg s)) =
          stdout s @ [''  Setting secrets...'' @ nl]
          @ concat (map (\<lambda>kv. [''    '' @ fst kv @ nl,
               ''    [dry-run] gh secret set '' @ fst kv @ '' --repo '' @ GitHubOrg cfg @ ''/'' @ GitHubRepo cfg @ nl])
              (rangeMap (secretsOrder env) (secrets cfg)))
          @ [''  Setting variables...'' @ nl]
          @ concat (map (\<lambda>kv. [''    '' @ fst kv @ nl,
               ''    [dry-run] gh variable set '' @ fst kv @ '' --repo '' @ GitHubOrg cfg @ ''/'' @ GitHubRepo cfg @ nl])
              (rangeMap (variablesOrder env) (variables cfg))))"
proof -
  have all: "\<not> dryRun env \<and> fst (runSetup env s) = None
       \<longrightarrow> executed (snd (runSetup env s)) = executed s @ auth_cmd # setup_cmds env (loadConfig env)"
  proof
    assume a: "\<not> dryRun env \<and> fst (runSetup env s) = None"
    then have pre: "ValidateConfig env = None" "checkGcloud env = None" "LookPath env ''gh''"
      "Run env (executed s) auth_cmd = None"
      by (auto simp: runSetup_unfold checkGH_run split: option.splits if_splits)
    have "fst (run_cmds env (executed s @ [auth_cmd]) (setup_cmds env (loadConfig env)))"
      using runSetup_run(1) [of env s] a pre by simp
    then show "executed (snd (runSetup env s)) = executed s @ auth_cmd # setup_cmds env (loadConfig env)"
      using runSetup_run(2) [of env s] a pre run_cmds_ok by simp
  qed
  have list: "setup_cmds env cfg =
       map (enable_cmd cfg) apis @ [create_account_cmd cfg] @ map (grant_cmd cfg) roles @
       [create_pool_cmd cfg, create_provider_cmd cfg, bind_cmd cfg, create_repository_cmd cfg] @
       map (secret_cmd cfg) (rangeMap (secretsOrder env) (secrets cfg)) @
       map (variable_cmd cfg) (rangeMap (variablesOrder env) (variables cfg))"
    by (simp add: setup_cmds_def github_cmds_def)
  show ?thesis
    using all list runSetup_executed_prefix [of env s] mset_rangeMap configureGitHub_dry [of env cfg s]
    by blast
qed

text \<open>
  C6 as stated fails: two runs with the same configuration, flags and command outcomes,
  in which the runtime iterates over the map of secrets in different orders, run the
  commands in different orders, and two such dry runs print different lines.
\<close>

theorem secrets_order_differs:
  "GetString other_order_env = GetString configured_env
   \<and> dryRun other_order_env = dryRun configured_env
   \<and> Run other_order_env = Run configured_env
   \<and> LookPath other_order_env = LookPath configured_env
   \<and> fst (runSetup configured_env example_state) = None
   \<and> fst (runSetup other_order_env example_state) = None
   \<and> executed (snd (runSetup configured_env example_state))
       \<noteq> executed (snd (runSetup other_order_env example_state))
   \<and> stdout (snd (runSetup (configured_env\<lparr>dryRun := True\<rparr>) example_state))
       \<noteq> stdout (snd (runSetup (other_order_env\<lparr>dryRun := True\<rparr>) example_state))"
proof -
  have same: "GetString other_order_env = GetString configured_env"
    "dryRun other_order_env = dryRun configured_env"
    "Run other_order_env = Run configured_env"
    "LookPath other_order_env = LookPath configured_env"
    "loadConfig other_order_env = loadConfig configured_env"
    by (simp_all add: other_order_env_def loadConfig_def)
  have pre: "\<not> dryRun e \<and> ValidateConfig e = None \<and> checkGcloud e = None \<and> LookPath e ''gh''
      \<and> (\<forall>h c. Run e h c = None)"
    if "e = configured_env \<or> e = other_order_env" for e
    using that
    by (auto simp: other_order_env_def ValidateConfig_def checkGcloud_def configured_env_def
        example_env_def example_values_def RequiredVars_def)
  have run: "fst (runSetup e example_state) = None
      \<and> executed (snd (runSetup e example_state)) = auth_cmd # setup_cmds e (loadConfig e)"
    if "e = configured_env \<or> e = other_order_env" for e
    using runSetup_run [of e example_state] pre [OF that] run_cmds_none [of e]
    by (simp add: example_state_def)
  have r0: "rangeMap (secretsOrder configured_env) (secrets cfg) =
      [(''GCP_SERVICE_ACCOUNT'', ServiceAccountEmail cfg),
       (''GCP_WORKLOAD_IDENTITY_PROVIDER'', WorkloadIdentityProvider cfg)]" for cfg
    by (simp add: configured_env_def example_env_def secrets_def rangeMap.simps)
  have r1: "rangeMap (secretsOrder other_order_env) (secrets cfg) =
      [(''GCP_WORKLOAD_IDENTITY_PROVIDER'', WorkloadIdentityProvider cfg),
       (''GCP_SERVICE_ACCOUNT'', ServiceAccountEmail cfg)]" for cfg
    by (simp add: other_order_env_def secrets_def rangeMap.simps)
  have ne: "setup_cmds configured_env cfg \<noteq> setup_cmds other_order_env cfg" for cfg
    by (simp add: setup_cmds_def github_cmds_def r0 r1 secret_cmd_def)
  have exe: "executed (snd (runSetup configured_env example_state))
       \<noteq> executed (snd (runSetup other_order_env example_state))"
    using run [of configured_env] run [of other_order_env] ne same(5) by simp
  have out: "stdout (snd (runSetup (configured_env\<lparr>dryRun := True\<rparr>) example_state))
       \<noteq> stdout (snd (runSetup (other_order_env\<lparr>dryRun := True\<rparr>) example_state))"
    by (simp add: runSetup_def ValidateConfig_def RequiredVars_def checkGcloud_def checkGH_def steps_def
        loadConfig_def configured_env_def other_order_env_def example_env_def example_values_def
        enableAPIs_def apis_def runCommandSilent_def exec_Run_def createServiceAccount_def roles_def
        setupWorkloadIdentity_def createArtifactRegistry_def configureGitHub_def secrets_def variables_def
        rangeMap.simps example_state_def Print_def Println_def Let_def)
  show ?thesis
    using same run [of configured_env] run [of other_order_env] exe out by simp
qed

theorem setup_commands_fixed_up_to_map_order_witness:
  "\<not> dryRun configured_env \<and> fst (runSetup configured_env example_state) = None
   \<and> executed (snd (runSetup configured_env example_state)) =
       auth_cmd # setup_cmds configured_env (loadConfig configured_env)
   \<and> dryRun (configured_env\<lparr>dryRun := True\<rparr>)
   \<and> mset (map fst (rangeMap (secretsOrder other_order_env) (secrets (loadConfig other_order_env))))
       = {#''GCP_SERVICE_ACCOUNT'', ''GCP_WORKLOAD_IDENTITY_PROVIDER''#}"
proof -
  have pre: "\<not> dryRun configured_env" "ValidateConfig configured_env = None"
    "checkGcloud configured_env = None" "LookPath configured_env ''gh''"
    "\<And>h c. Run configured_env h c = None"
    by (simp_all add: ValidateConfig_def checkGcloud_def configured_env_def
        example_env_def example_values_def RequiredVars_def)
  have ok: "fst (runSetup configured_env example_state) = None"
    using runSetup_run(1) [of configured_env example_state] pre run_cmds_none [of configured_env]
    by simp
  have m: "mset (map fst (rangeMap (secretsOrder other_order_env) (secrets (loadConfig other_order_env))))
       = {#''GCP_SERVICE_ACCOUNT'', ''GCP_WORKLOAD_IDENTITY_PROVIDER''#}"
    using setup_commands_fixed_up_to_map_order [of other_order_env _ "loadConfig other_order_env"]
      mset_map [of fst "rangeMap (secretsOrder other_order_env) (secrets (loadConfig other_order_env))"]
    by (simp add: secrets_def)
  show ?thesis
    using setup_commands_fixed_up_to_map_order [of configured_env example_state] pre(1) ok m
    by (simp add: example_state_def)
qed

subsection \<open>Every command is gcloud or gh\<close>

lemma gcloud_or_gh_simps [simp]:
  "gcloud_or_gh (''gcloud'', args)" "gcloud_or_gh (''gh'', args)"
  by (simp_all add: gcloud_or_gh_def)

lemma extends_with_refl [simp]: "extends_with P h h"
  by (simp add: extends_with_def)

lemma extends_with_append [simp]:
  "extends_with P h ex \<Longrightarrow> extends_with P h (ex @ cs) = list_all P cs"
  by (auto simp: extends_with_def)

lemma promptProject_executed [simp]: "executed (snd (promptProject env label d s)) = executed s"
  by (simp add: promptProject_def Let_def)

lemma promptLB_executed [simp]: "executed (snd (promptLB env label d s)) = executed s"
  by (simp add: promptLB_def Let_def)

lemma ask_confirm_executed [simp]: "executed (snd (ask_confirm env q s)) = executed s"
  by (simp add: ask_confirm_def split: prod.splits)

lemma createGCPProject_only:
  "extends_with gcloud_or_gh h (executed s) \<Longrightarrow>
   extends_with gcloud_or_gh h (executed (snd (createGCPProject env cfg s)))"
  by (simp add: createGCPProject_def exec_Run_def Let_def split: option.splits)


lemma enableProjectAPIs_dry_executed [simp]:
  "executed (enableProjectAPIs_dry cfg as s) = executed s"
  by (induction as arbitrary: s) simp_all

lemma enableProjectAPIs_range_only:
  "extends_with gcloud_or_gh h (executed s) \<Longrightarrow>
   extends_with gcloud_or_gh h (executed (snd (enableProjectAPIs_range env cfg as s)))"
proof (induction as arbitrary: s)
  case Nil
  then show ?case by simp
next
  case (Cons a as)
  let ?c = "(''gcloud'', [''services'', ''enable'', a, ''--project='' @ pc_ProjectID cfg])"
  let ?s2 = "(Print (''    Enabling '' @ a @ nl) s)\<lparr>executed := executed s @ [?c]\<rparr>"
  have "extends_with gcloud_or_gh h (executed ?s2)"
    using Cons.prems by simp
  then have "extends_with gcloud_or_gh h (executed (snd (enableProjectAPIs_range env cfg as ?s2)))"
    by (rule Cons.IH)
  then show ?case
    using Cons.prems by (simp add: exec_Run_def Let_def split: option.splits)
qed

lemma enableProjectAPIs_only:
  "extends_with gcloud_or_gh h (executed s) \<Longrightarrow>
   extends_with gcloud_or_gh h (executed (snd (enableProjectAPIs env cfg s)))"
  by (simp add: enableProjectAPIs_def enableProjectAPIs_range_only)

lemma createProjectServiceAccount_only:
  "extends_with gcloud_or_gh h (executed s) \<Longrightarrow>
   extends_with gcloud_or_gh h (executed (snd (createProjectServiceAccount env cfg s)))"
  by (simp add: createProjectServiceAccount_def exec_Run_def Let_def split: option.splits)

lemma setupProjectWorkloadIdentity_only:
  "extends_with gcloud_or_gh h (executed s) \<Longrightarrow>
   extends_with gcloud_or_gh h (executed (snd (setupProjectWorkloadIdentity env cfg s)))"
  by (simp add: setupProjectWorkloadIdentity_def exec_Run_def Let_def split: option.splits)

lemma createProjectArtifactRegistry_only:
  "extends_with gcloud_or_gh h (executed s) \<Longrightarrow>
   extends_with gcloud_or_gh h (executed (snd (createProjectArtifactRegistry env cfg s)))"
  by (simp add: createProjectArtifactRegistry_def exec_Run_def Let_def split: option.splits)

lemma runProjectCreate_range_only:
  assumes "\<And>name fn s. (name, fn) \<in> set todo \<Longrightarrow> extends_with gcloud_or_gh h (executed (s::state)) \<Longrightarrow>
      extends_with gcloud_or_gh h (executed (snd (fn env cfg s)))"
    and "extends_with gcloud_or_gh h (executed s)"
  shows "extends_with gcloud_or_gh h (executed (snd (runProjectCreate_range env cfg n i todo s)))"
  using assms
proof (induction todo arbitrary: i s)
  case Nil
  then show ?case by simp
next
  case (Cons st todo)
  obtain name fn where st: "st = (name, fn)" by (cases st)
  let ?s2 = "Println dashes
      (Print (''Step '' @ showNat (i + 1) @ ''/'' @ showNat n @ '': '' @ name @ ''...'' @ nl) s)"
  obtain r s3 where a: "fn env cfg ?s2 = (r, s3)" by (cases "fn env cfg ?s2")
  have e3: "extends_with gcloud_or_gh h (executed s3)"
    using Cons.prems(1) [of name fn ?s2] Cons.prems(2) a st by simp
  have "extends_with gcloud_or_gh h (executed (snd (runProjectCreate_range env cfg n (i + 1) todo (Println [] s3))))"
    by (rule Cons.IH) (use Cons.prems(1) e3 in auto)
  then show ?case
    using a e3 by (cases r) (simp_all add: st Let_def)
qed

lemma runProjectCreate_steps_only:
  assumes "extends_with gcloud_or_gh h (executed s)"
  shows "extends_with gcloud_or_gh h (executed (snd (runProjectCreate_steps env cfg s)))"
proof -
  have "extends_with gcloud_or_gh h
      (executed (snd (runProjectCreate_range env cfg (length project_steps) 0 project_steps s)))"
  proof (rule runProjectCreate_range_only [OF _ assms])
    fix name fn and s :: state
    assume "(name, fn) \<in> set project_steps" and s: "extends_with gcloud_or_gh h (executed s)"
    then have "fn = createGCPProject \<or> fn = enableProjectAPIs \<or> fn = createProjectServiceAccount
        \<or> fn = setupProjectWorkloadIdentity \<or> fn = createProjectArtifactRegistry"
      by (auto simp: project_steps_def)
    then show "extends_with gcloud_or_gh h (executed (snd (fn env cfg s)))"
      using s createGCPProject_only enableProjectAPIs_only createProjectServiceAccount_only
        setupProjectWorkloadIdentity_only createProjectArtifactRegistry_only
      by blast
  qed
  then show ?thesis
    by (auto simp: runProjectCreate_steps_def Let_def split: prod.splits option.splits)
qed

lemma interactiveProjectConfig_executed [simp]:
  "executed (snd (interactiveProjectConfig env cfg s)) = executed s"
  by (simp add: interactiveProjectConfig_def Let_def split_def)

lemma runProjectCreate_only:
  assumes "extends_with gcloud_or_gh h (executed s)"
  shows "extends_with gcloud_or_gh h (executed (snd (runProjectCreate env s)))"
  using assms
  by (simp add: runProjectCreate_def Let_def split_def runProjectCreate_steps_only
      split: option.splits bool.splits)


lemma createHealthChecks_range_only:
  "extends_with gcloud_or_gh h (executed s) \<Longrightarrow>
   extends_with gcloud_or_gh h (executed (snd (createHealthChecks_range env cfg svcs s)))"
  by (induction svcs arbitrary: s) (simp_all add: exec_Run_def Let_def split: option.splits)

lemma createHealthChecks_only:
  "extends_with gcloud_or_gh h (executed s) \<Longrightarrow>
   extends_with gcloud_or_gh h (executed (snd (createHealthChecks env cfg s)))"
  by (simp add: createHealthChecks_def split_def Let_def createHealthChecks_range_only)

lemma createBackendServices_range_only:
  "extends_with gcloud_or_gh h (executed s) \<Longrightarrow>
   extends_with gcloud_or_gh h (executed (snd (createBackendServices_range env cfg i svcs services s)))"
  by (induction svcs arbitrary: i services s) (simp_all add: exec_Run_def Let_def split: option.splits)

lemma createBackendServices_only:
  "extends_with gcloud_or_gh h (executed s) \<Longrightarrow>
   extends_with gcloud_or_gh h (executed (snd (createBackendServices env cfg s)))"
  by (simp add: createBackendServices_def split_def Let_def createBackendServices_range_only)

lemma addPathRules_range_only:
  "extends_with gcloud_or_gh h (executed s) \<Longrightarrow>
   extends_with gcloud_or_gh h (executed (addPathRules_range env cfg name svcs s))"
  by (induction svcs arbitrary: s) (simp_all add: exec_Run_def Let_def split: option.splits)

lemma createURLMap_only:
  "extends_with gcloud_or_gh h (executed s) \<Longrightarrow>
   extends_with gcloud_or_gh h (executed (snd (createURLMap env cfg s)))"
  by (simp add: createURLMap_def exec_Run_def Let_def addPathRules_range_only
      split: option.splits list.splits)

lemma createHTTPSProxy_only:
  "extends_with gcloud_or_gh h (executed s) \<Longrightarrow>
   extends_with gcloud_or_gh h (executed (snd (createHTTPSProxy env cfg s)))"
  by (simp add: createHTTPSProxy_def exec_Run_def Let_def split: option.splits)

lemma createForwardingRule_only:
  "extends_with gcloud_or_gh h (executed s) \<Longrightarrow>
   extends_with gcloud_or_gh h (executed (snd (createForwardingRule env cfg s)))"
  by (simp add: createForwardingRule_def exec_Run_def Let_def split: option.splits)


lemma runLoadBalancer_range_only:
  assumes "\<And>name fn cfg (s::state). (name, fn) \<in> set todo \<Longrightarrow> extends_with gcloud_or_gh h (executed s) \<Longrightarrow>
      extends_with gcloud_or_gh h (executed (snd (fn env cfg s)))"
    and "extends_with gcloud_or_gh h (executed s)"
  shows "extends_with gcloud_or_gh h (executed (snd (runLoadBalancer_range env cfg n i todo s)))"
  using assms
proof (induction todo arbitrary: i s cfg)
  case Nil
  then show ?case by simp
next
  case (Cons st todo)
  obtain name fn where st: "st = (name, fn)" by (cases st)
  let ?s2 = "Println dashes
      (Print (''Step '' @ showNat (i + 1) @ ''/'' @ showNat n @ '': '' @ name @ ''...'' @ nl) s)"
  obtain r services s3 where a: "fn env cfg ?s2 = ((r, services), s3)"
    by (cases "fn env cfg ?s2") auto
  have e3: "extends_with gcloud_or_gh h (executed s3)"
    using Cons.prems(1) [of name fn ?s2 cfg] Cons.prems(2) a st by simp
  have "extends_with gcloud_or_gh h (executed (snd (runLoadBalancer_range env
      (cfg\<lparr>Services := services\<rparr>) n (i + 1) todo (Println [] s3))))"
    by (rule Cons.IH) (use Cons.prems(1) e3 in auto)
  then show ?case
    using a e3 by (simp add: st Let_def split: go.splits option.splits)
qed

lemma printServices_range_executed [simp]:
  "executed (printServices_range i svcs s) = executed s"
  by (induction svcs arbitrary: i s) simp_all

lemma runLoadBalancer_steps_only:
  assumes "extends_with gcloud_or_gh h (executed s)"
  shows "extends_with gcloud_or_gh h (executed (snd (runLoadBalancer_steps env cfg s)))"
proof -
  have "extends_with gcloud_or_gh h
      (executed (snd (runLoadBalancer_range env cfg (length lb_steps) 0 lb_steps s)))"
  proof (rule runLoadBalancer_range_only [OF _ assms])
    fix name fn cfg and s :: state
    assume "(name, fn) \<in> set lb_steps" and s: "extends_with gcloud_or_gh h (executed s)"
    then have "fn = createHealthChecks \<or> fn = createBackendServices \<or> fn = createURLMap
        \<or> fn = createHTTPSProxy \<or> fn = createForwardingRule"
      by (auto simp: lb_steps_def)
    then show "extends_with gcloud_or_gh h (executed (snd (fn env cfg s)))"
      using s createHealthChecks_only createBackendServices_only createURLMap_only
        createHTTPSProxy_only createForwardingRule_only
      by blast
  qed
  then show ?thesis
    by (auto simp: runLoadBalancer_steps_def Let_def split: prod.splits option.splits go.splits)
qed

lemma interactiveLBConfig_services_keeps:
  "nat (n - i) = k \<Longrightarrow>
   executed (snd (snd (interactiveLBConfig_services env n i buf services s))) = executed s"
proof (induction k arbitrary: i buf services s)
  case 0
  then have "\<not> i < n" by simp
  then show ?case
    by (subst interactiveLBConfig_services.simps) simp
next
  case (Suc k)
  then have less: "i < n" and k: "nat (n - (i + 1)) = k" by simp_all
  show ?case
    by (subst interactiveLBConfig_services.simps)
      (simp add: less Let_def split_def Suc.IH [OF k])
qed

lemma interactiveLBConfig_services_executed [simp]:
  "executed (snd (snd (interactiveLBConfig_services env n i buf services s))) = executed s"
  by (rule interactiveLBConfig_services_keeps [OF refl])

lemma interactiveLBConfig_executed [simp]:
  "executed (snd (interactiveLBConfig env cfg s)) = executed s"
  by (simp add: interactiveLBConfig_def Let_def split_def)

lemma runLoadBalancer_only:
  assumes "extends_with gcloud_or_gh h (executed s)"
  shows "extends_with gcloud_or_gh h (executed (snd (runLoadBalancer env s)))"
  using assms
  by (simp add: runLoadBalancer_def Let_def split_def runLoadBalancer_steps_only
      split: option.splits bool.splits)


lemma WriteFile_executed [simp]: "executed (snd (WriteFile path data s)) = executed s"
  by (simp add: WriteFile_def split: option.splits node.splits)

lemma Mkdir_executed [simp]: "executed (snd (Mkdir path s)) = executed s"
  by (simp add: Mkdir_def split: option.splits)

lemma MkdirAll_executed [simp]: "executed (snd (MkdirAll path s)) = executed s"
proof (induction path s rule: MkdirAll.induct)
  case (1 path s)
  show ?case
  proof (cases "files s path = None \<and> length (parent path) < length path")
    case True
    then have ih: "executed (snd (MkdirAll (parent path) s)) = executed s"
      using 1 by simp
    obtain r s1 where p: "MkdirAll (parent path) s = (r, s1)" by (cases "MkdirAll (parent path) s")
    have "executed (snd (Mkdir path s1)) = executed s1" by simp
    then show ?thesis
      using True p ih by (subst MkdirAll.simps) (simp split: option.splits)
  next
    case False
    then show ?thesis
      by (subst MkdirAll.simps) (auto split: option.splits node.splits)
  qed
qed

lemma writeFileIfNotExists_executed [simp]:
  "executed (snd (writeFileIfNotExists path content s)) = executed s"
  by (simp add: writeFileIfNotExists_def split: sum.splits)

lemma appendToGitignore_executed [simp]:
  "executed (snd (appendToGitignore path s)) = executed s"
proof -
  have "executed (snd (WriteString_append path gitignore_entry s)) = executed s"
    by (simp add: WriteString_append_def split: option.splits node.splits)
  then show ?thesis
    by (simp add: appendToGitignore_def split_def Let_def split: sum.splits option.splits bool.splits)
qed

lemma runInit_executed [simp]: "executed (snd (runInit env s)) = executed s"
proof (cases "Getwd env")
  case (Inl err)
  then show ?thesis by (simp add: runInit_def)
next
  case (Inr cwd)
  let ?wd = "filepath_Join (filepath_Join cwd ''.github'') ''workflows''"
  let ?wp = "filepath_Join ?wd ''gcloud-deploy.yml''"
  let ?ep = "filepath_Join cwd ''.env.gcloud''"
  let ?gp = "filepath_Join cwd ''.gitignore''"
  obtain r1 s1 where m: "MkdirAll ?wd s = (r1, s1)" by (cases "MkdirAll ?wd s")
  have "s1 = snd (MkdirAll ?wd s)" by (simp only: m snd_conv)
  then have k1: "executed s1 = executed s" by simp
  obtain r2 s2 where w: "writeFileIfNotExists ?wp (DeployWorkflow env) s1 = (r2, s2)"
    by (cases "writeFileIfNotExists ?wp (DeployWorkflow env) s1")
  have "s2 = snd (writeFileIfNotExists ?wp (DeployWorkflow env) s1)" by (simp only: w snd_conv)
  then have k2: "executed s2 = executed s" by (simp add: k1)
  let ?s3 = "Println (check_mark @ '' Created '' @ ?wp) s2"
  obtain r4 s4 where e: "writeFileIfNotExists ?ep (EnvTemplate env) ?s3 = (r4, s4)"
    by (cases "writeFileIfNotExists ?ep (EnvTemplate env) ?s3")
  have "s4 = snd (writeFileIfNotExists ?ep (EnvTemplate env) ?s3)" by (simp only: e snd_conv)
  then have k4: "executed s4 = executed s" by (simp add: k2)
  let ?s5 = "Println (check_mark @ '' Created '' @ ?ep) s4"
  obtain r6 s6 where g: "appendToGitignore ?gp ?s5 = (r6, s6)" by (cases "appendToGitignore ?gp ?s5")
  have "s6 = snd (appendToGitignore ?gp ?s5)" by (simp only: g snd_conv)
  then have k6: "executed s6 = executed s" by (simp add: k4)
  show ?thesis
    using Inr m w e g k1 k2 k4 k6
    by (simp add: runInit_def Let_def split: option.splits go.splits)
qed

lemma setup_cmds_only: "list_all gcloud_or_gh (auth_cmd # setup_cmds env cfg)"
  by (simp add: setup_cmds_def github_cmds_def list.pred_map comp_def list.pred_True auth_cmd_def
      enable_cmd_def create_account_cmd_def grant_cmd_def create_pool_cmd_def
      create_provider_cmd_def bind_cmd_def create_repository_cmd_def secret_cmd_def
      variable_cmd_def)

lemma runSetup_only:
  assumes "extends_with gcloud_or_gh h (executed s)"
  shows "extends_with gcloud_or_gh h (executed (snd (runSetup env s)))"
proof -
  let ?all = "auth_cmd # setup_cmds env (loadConfig env)"
  obtain k where k: "executed (snd (runSetup env s)) = executed s @ take k ?all"
    using runSetup_executed_prefix by blast
  have "set (take k ?all) \<subseteq> set ?all" by (rule set_take_subset)
  then have "list_all gcloud_or_gh (take k ?all)"
    using setup_cmds_only [of env "loadConfig env"] unfolding list_all_iff by blast
  then show ?thesis
    using assms by (simp add: k)
qed

lemma initConfig_executed [simp]: "executed (initConfig env s) = executed s"
  by (simp add: initConfig_def split: option.splits)

lemma cobra_reports_executed [simp]: "executed (cobra_reports env path err s) = executed s"
  by (simp add: cobra_reports_def)

lemma cobra_execute_only:
  assumes "\<And>s. extends_with gcloud_or_gh h (executed s) \<Longrightarrow>
      extends_with gcloud_or_gh h (executed (snd (runE env s)))"
    and "extends_with gcloud_or_gh h (executed s)"
  shows "extends_with gcloud_or_gh h (executed (snd (cobra_execute env path runE s)))"
proof -
  have "extends_with gcloud_or_gh h (executed (snd (runE env (initConfig env s))))"
    using assms by simp
  then show ?thesis
    by (auto simp: cobra_execute_def split: prod.splits go.splits option.splits)
qed

lemma rootCmd_Execute_only:
  "extends_with gcloud_or_gh (executed s) (executed (snd (rootCmd_Execute env cmd s)))"
proof (cases cmd)
  case Init
  then show ?thesis
    by (simp add: rootCmd_Execute_def cobra_execute_only)
next
  case Setup
  have "extends_with gcloud_or_gh (executed s) (executed (snd (cobra_execute env ''gcsetup setup''
      (\<lambda>env s. let (err, s1) = runSetup env s in (Return err, s1)) s)))"
    by (rule cobra_execute_only) (simp_all add: split_def Let_def runSetup_only)
  then show ?thesis
    by (simp add: Setup rootCmd_Execute_def)
next
  case ProjectCreate
  have "extends_with gcloud_or_gh (executed s) (executed (snd (cobra_execute env ''gcsetup project create''
      (\<lambda>env s. let (err, s1) = runProjectCreate env s in (Return err, s1)) s)))"
    by (rule cobra_execute_only) (simp_all add: split_def Let_def runProjectCreate_only)
  then show ?thesis
    by (simp add: ProjectCreate rootCmd_Execute_def)
next
  case LoadBalancerSetup
  then show ?thesis
    by (simp add: rootCmd_Execute_def cobra_execute_only runLoadBalancer_only)
next
  case (Other b)
  then show ?thesis
    by (simp add: rootCmd_Execute_def Let_def)
qed

lemma Execute_only:
  "extends_with gcloud_or_gh (executed s) (executed (snd (Execute env cmd s)))"
  using rootCmd_Execute_only [of s env cmd]
  by (auto simp: Execute_def split: prod.splits go.splits option.splits)

lemma configureGitHub_only:
  assumes "extends_with gcloud_or_gh h (executed s)"
  shows "extends_with gcloud_or_gh h (executed (snd (configureGitHub env cfg s)))"
proof (cases "dryRun env")
  case True
  then show ?thesis using assms configureGitHub_dry [of env cfg s] by simp
next
  case False
  have "list_all gcloud_or_gh (github_cmds env cfg)"
    by (simp add: github_cmds_def list.pred_map comp_def list.pred_True secret_cmd_def variable_cmd_def)
  moreover have "set (snd (run_cmds env (executed s) (github_cmds env cfg))) \<subseteq> set (github_cmds env cfg)"
    using run_cmds_prefix [of env "executed s" "github_cmds env cfg"] by (rule set_mono_prefix)
  ultimately have "list_all gcloud_or_gh (snd (run_cmds env (executed s) (github_cmds env cfg)))"
    unfolding list_all_iff by blast
  then show ?thesis
    using assms refinesD [OF refines_configureGitHub [OF False], of cfg s] by simp
qed

lemma binaries_of_setup: "fst ` set (auth_cmd # setup_cmds env cfg) = {''gcloud'', ''gh''}"
proof -
  have "fst ` set (auth_cmd # setup_cmds env cfg) \<subseteq> {''gcloud'', ''gh''}"
    using setup_cmds_only [of env cfg] by (auto simp: list_all_iff gcloud_or_gh_def)
  moreover have "''gh'' \<in> fst ` set (auth_cmd # setup_cmds env cfg)"
    by (simp add: auth_cmd_def)
  moreover have "create_account_cmd cfg \<in> set (auth_cmd # setup_cmds env cfg)"
    by (simp add: setup_cmds_def)
  then have "fst (create_account_cmd cfg) \<in> fst ` set (auth_cmd # setup_cmds env cfg)"
    by (rule imageI)
  then have "''gcloud'' \<in> fst ` set (auth_cmd # setup_cmds env cfg)"
    by (simp add: create_account_cmd_def)
  ultimately show ?thesis
    by blast
qed

text \<open>
  C5. Whatever the world and the state, the external commands a run of the setup command,
  of the project create command, of the load balancer setup command or of the GitHub
  configuration step has started are those started before it, followed by commands whose
  binary is \<open>gcloud\<close> or \<open>gh\<close>; the init command starts no command; so every run of the
  program, through \<open>Execute\<close>, starts commands of these two binaries only. Both are used:
  the binaries of the commands of the setup run are exactly \<open>gcloud\<close> and \<open>gh\<close>.
\<close>

theorem every_command_is_gcloud_or_gh:
  "extends_with gcloud_or_gh (executed s) (executed (snd (runSetup env s)))
   \<and> extends_with gcloud_or_gh (executed s) (executed (snd (runProjectCreate env s)))
   \<and> extends_with gcloud_or_gh (executed s) (executed (snd (runLoadBalancer env s)))
   \<and> extends_with gcloud_or_gh (executed s) (executed (snd (configureGitHub env cfg s)))
   \<and> executed (snd (runInit env s)) = executed s
   \<and> extends_with gcloud_or_gh (executed s) (executed (snd (Execute env cmd s)))
   \<and> fst ` set (auth_cmd # setup_cmds env cfg) = {''gcloud'', ''gh''}"
proof -
  have a: "extends_with gcloud_or_gh (executed s) (executed s)" by simp
  show ?thesis
    using runSetup_only [OF a] runProjectCreate_only [OF a] runLoadBalancer_only [OF a]
      configureGitHub_only [OF a] Execute_only [of s env cmd] runInit_executed [of env s]
      binaries_of_setup [of env cfg]
    by blast
qed

subsection \<open>The root command\<close>

lemma Execute_Init:
  "Execute env Init s =
     (case runInit env (initConfig env s) of
        (Return (Some err), s1) \<Rightarrow>
          (1, s1\<lparr>stderr := stderr s1 @ failure_report env ''gcsetup init'' err\<rparr>)
      | (Return None, s1) \<Rightarrow> (0, s1)
      | (Panic text, s1) \<Rightarrow> (2, s1\<lparr>stderr := stderr s1 @ [''panic: '' @ text @ nl]\<rparr>))"
  by (simp add: Execute_def rootCmd_Execute_def cobra_execute_def cobra_reports_def failure_report_def
      split: prod.splits go.splits option.splits)

lemma Execute_LoadBalancerSetup:
  "Execute env LoadBalancerSetup s =
     (case runLoadBalancer env (initConfig env s) of
        (Return (Some err), s1) \<Rightarrow>
          (1, s1\<lparr>stderr := stderr s1 @ failure_report env ''gcsetup loadbalancer setup'' err\<rparr>)
      | (Return None, s1) \<Rightarrow> (0, s1)
      | (Panic text, s1) \<Rightarrow> (2, s1\<lparr>stderr := stderr s1 @ [''panic: '' @ text @ nl]\<rparr>))"
  by (simp add: Execute_def rootCmd_Execute_def cobra_execute_def cobra_reports_def failure_report_def
      split: prod.splits go.splits option.splits)

lemma Execute_Setup:
  "Execute env Setup s =
     (case runSetup env (initConfig env s) of
        (Some err, s1) \<Rightarrow> (1, s1\<lparr>stderr := stderr s1 @ failure_report env ''gcsetup setup'' err\<rparr>)
      | (None, s1) \<Rightarrow> (0, s1))"
  by (simp add: Execute_def rootCmd_Execute_def cobra_execute_def cobra_reports_def failure_report_def
      split: prod.splits go.splits option.splits)

lemma Execute_ProjectCreate:
  "Execute env ProjectCreate s =
     (case runProjectCreate env (initConfig env s) of
        (Some err, s1) \<Rightarrow>
          (1, s1\<lparr>stderr := stderr s1 @ failure_report env ''gcsetup project create'' err\<rparr>)
      | (None, s1) \<Rightarrow> (0, s1))"
  by (simp add: Execute_def rootCmd_Execute_def cobra_execute_def cobra_reports_def failure_report_def
      split: prod.splits go.splits option.splits)

lemma Execute_Other:
  "fst (Execute env (Other b) s) = (if returned b = None then 0 else 1)"
  "stdout (snd (Execute env (Other b) s)) =
     stdout (if runs_initializers b then initConfig env s else s) @ to_stdout b"
  "stderr (snd (Execute env (Other b) s)) =
     stderr s @ to_stderr b @ (case returned b of Some err \<Rightarrow> [Error err @ nl] | None \<Rightarrow> [])"
  by (simp_all add: Execute_def rootCmd_Execute_def Let_def initConfig_def Println_def Print_def
      split: option.splits)

lemma initConfig_stderr [simp]: "stderr (initConfig env s) = stderr s"
  by (simp add: initConfig_def Println_def Print_def split: option.splits)

text \<open>
  C4. For each of the four commands, whatever the world and the state: when the function
  of the command returns an error, the state it left gets three more lines on standard
  error and nothing else changes, and the exit status is 1. The lines are the error after
  \<open>Error:\<close> and the usage text of the command, which cobra writes, and the error once
  more, which \<open>Execute\<close> writes before \<open>os.Exit(1)\<close>. When the function returns no error the
  state it left is final and the status is 0. \<open>Execute\<close> handles nothing else: a panic is
  not caught, and then the status is 2. For a command line that cobra answers itself the
  status is 1 exactly when cobra returns an error, and \<open>Execute\<close> adds that error to what
  cobra wrote on standard error. So an incomplete configuration ends the setup command
  with its error on standard error and status 1, and an error of a step of the setup
  command reaches \<open>Execute\<close> wrapped with the name of the step and is printed that way.
\<close>

theorem Execute_prints_error_and_exits:
  "(case runInit env (initConfig env s) of
      (Return (Some err), s1) \<Rightarrow>
        Execute env Init s = (1, s1\<lparr>stderr := stderr s1 @ failure_report env ''gcsetup init'' err\<rparr>)
    | (Return None, s1) \<Rightarrow> Execute env Init s = (0, s1)
    | (Panic text, s1) \<Rightarrow> fst (Execute env Init s) = 2)
   \<and> (case runSetup env (initConfig env s) of
      (Some err, s1) \<Rightarrow>
        Execute env Setup s = (1, s1\<lparr>stderr := stderr s1 @ failure_report env ''gcsetup setup'' err\<rparr>)
    | (None, s1) \<Rightarrow> Execute env Setup s = (0, s1))
   \<and> (case runProjectCreate env (initConfig env s) of
      (Some err, s1) \<Rightarrow>
        Execute env ProjectCreate s =
          (1, s1\<lparr>stderr := stderr s1 @ failure_report env ''gcsetup project create'' err\<rparr>)
    | (None, s1) \<Rightarrow> Execute env ProjectCreate s = (0, s1))
   \<and> (case runLoadBalancer env (initConfig env s) of
      (Return (Some err), s1) \<Rightarrow>
        Execute env LoadBalancerSetup s =
          (1, s1\<lparr>stderr := stderr s1 @ failure_report env ''gcsetup loadbalancer setup'' err\<rparr>)
    | (Return None, s1) \<Rightarrow> Execute env LoadBalancerSetup s = (0, s1)
    | (Panic text, s1) \<Rightarrow> fst (Execute env LoadBalancerSetup s) = 2)
   \<and> fst (Execute env (Other b) s) = (if returned b = None then 0 else 1)
   \<and> stderr (snd (Execute env (Other b) s)) =
       stderr s @ to_stderr b @ (case returned b of Some err \<Rightarrow> [Error err @ nl] | None \<Rightarrow> [])
   \<and> failure_report env path e = [''Error: '' @ Error e @ nl, UsageString env path @ nl, Error e @ nl]
   \<and> (ValidateConfig env = Some missing \<longrightarrow>
        Execute env Setup s =
          (1, (initConfig env s)\<lparr>stderr := stderr s @ failure_report env ''gcsetup setup'' missing\<rparr>))
   \<and> (ValidateConfig env = None \<and> checkGcloud env = None \<and> checkGH env (initConfig env s) = (None, s0)
        \<and> steps = earlier @ (name, fn) # later
        \<and> runSetup_range env (loadConfig env) 5 0 earlier (setup_banner (loadConfig env) s0) = (None, s2)
        \<and> fn env (loadConfig env) (step_banner 5 (length earlier) name s2) = (Some cause, s3)
       \<longrightarrow> Execute env Setup s =
             (1, s3\<lparr>stderr := stderr s3 @
                   [''Error: '' @ name @ '' failed: '' @ Error cause @ nl,
                    UsageString env ''gcsetup setup'' @ nl,
                    name @ '' failed: '' @ Error cause @ nl]\<rparr>))"
proof -
  have 1: "(case runInit env (initConfig env s) of
      (Return (Some err), s1) \<Rightarrow>
        Execute env Init s = (1, s1\<lparr>stderr := stderr s1 @ failure_report env ''gcsetup init'' err\<rparr>)
    | (Return None, s1) \<Rightarrow> Execute env Init s = (0, s1)
    | (Panic text, s1) \<Rightarrow> fst (Execute env Init s) = 2)"
    by (simp add: Execute_Init split: prod.splits go.splits option.splits)
  have 2: "(case runSetup env (initConfig env s) of
      (Some err, s1) \<Rightarrow>
        Execute env Setup s = (1, s1\<lparr>stderr := stderr s1 @ failure_report env ''gcsetup setup'' err\<rparr>)
    | (None, s1) \<Rightarrow> Execute env Setup s = (0, s1))"
    by (simp add: Execute_Setup split: prod.splits option.splits)
  have 3: "(case runProjectCreate env (initConfig env s) of
      (Some err, s1) \<Rightarrow>
        Execute env ProjectCreate s =
          (1, s1\<lparr>stderr := stderr s1 @ failure_report env ''gcsetup project create'' err\<rparr>)
    | (None, s1) \<Rightarrow> Execute env ProjectCreate s = (0, s1))"
    by (simp add: Execute_ProjectCreate split: prod.splits option.splits)
  have 4: "(case runLoadBalancer env (initConfig env s) of
      (Return (Some err), s1) \<Rightarrow>
        Execute env LoadBalancerSetup s =
          (1, s1\<lparr>stderr := stderr s1 @ failure_report env ''gcsetup loadbalancer setup'' err\<rparr>)
    | (Return None, s1) \<Rightarrow> Execute env LoadBalancerSetup s = (0, s1)
    | (Panic text, s1) \<Rightarrow> fst (Execute env LoadBalancerSetup s) = 2)"
    by (simp add: Execute_LoadBalancerSetup split: prod.splits go.splits option.splits)
  have 5: "failure_report env path e = [''Error: '' @ Error e @ nl, UsageString env path @ nl, Error e @ nl]"
    by (simp add: failure_report_def)
  have 6: "Execute env Setup s =
          (1, (initConfig env s)\<lparr>stderr := stderr s @ failure_report env ''gcsetup setup'' missing\<rparr>)"
    if "ValidateConfig env = Some missing"
    using that by (simp add: Execute_Setup runSetup_unfold)
  have 7: "Execute env Setup s =
             (1, s3\<lparr>stderr := stderr s3 @
                   [''Error: '' @ name @ '' failed: '' @ Error cause @ nl,
                    UsageString env ''gcsetup setup'' @ nl,
                    name @ '' failed: '' @ Error cause @ nl]\<rparr>)"
    if "ValidateConfig env = None" "checkGcloud env = None" "checkGH env (initConfig env s) = (None, s0)"
      "steps = earlier @ (name, fn) # later"
      "runSetup_range env (loadConfig env) 5 0 earlier (setup_banner (loadConfig env) s0) = (None, s2)"
      "fn env (loadConfig env) (step_banner 5 (length earlier) name s2) = (Some cause, s3)"
  proof -
    have "runSetup env (initConfig env s) = (Some (Wrap (name @ '' failed: '' @ Error cause) cause), s3)"
      using that by (rule runSetup_step_fails)
    then show ?thesis
      by (simp add: Execute_Setup failure_report_def)
  qed
  show ?thesis
    using 1 2 3 4 5 6 7 Execute_Other(1) [of env b s] Execute_Other(3) [of env b s]
    by blast
qed


theorem Execute_prints_error_and_exits_witness:
  "ValidateConfig incomplete_env = Some (New (''missing required variables:'' @ nl @ ''  - CLOUD_RUN_REGION''))
   \<and> Execute incomplete_env Setup example_state =
       (1, example_state\<lparr>stderr :=
             [''Error: missing required variables:'' @ nl @ ''  - CLOUD_RUN_REGION'' @ nl,
              UsageString incomplete_env ''gcsetup setup'' @ nl,
              ''missing required variables:'' @ nl @ ''  - CLOUD_RUN_REGION'' @ nl]\<rparr>)
   \<and> Execute no_cwd_env Init example_state =
       (1, example_state\<lparr>stderr :=
             [''Error: failed to get current directory: getwd: no such file or directory'' @ nl,
              UsageString no_cwd_env ''gcsetup init'' @ nl,
              ''failed to get current directory: getwd: no such file or directory'' @ nl]\<rparr>)
   \<and> Execute no_gcloud_env ProjectCreate example_state =
       (1, example_state\<lparr>stderr :=
             [''Error: gcloud CLI not found. Install it: https://cloud.google.com/sdk/docs/install'' @ nl,
              UsageString no_gcloud_env ''gcsetup project create'' @ nl,
              ''gcloud CLI not found. Install it: https://cloud.google.com/sdk/docs/install'' @ nl]\<rparr>)
   \<and> Execute no_gcloud_env LoadBalancerSetup example_state =
       (1, example_state\<lparr>stderr :=
             [''Error: gcloud CLI not found. Install it: https://cloud.google.com/sdk/docs/install'' @ nl,
              UsageString no_gcloud_env ''gcsetup loadbalancer setup'' @ nl,
              ''gcloud CLI not found. Install it: https://cloud.google.com/sdk/docs/install'' @ nl]\<rparr>)
   \<and> fst (runSetup dry_run_env (initConfig dry_run_env example_state)) = None
   \<and> Execute dry_run_env Setup example_state =
       (0, snd (runSetup dry_run_env (initConfig dry_run_env example_state)))
   \<and> ValidateConfig failing_grant_env = None \<and> checkGcloud failing_grant_env = None
   \<and> fst (checkGH failing_grant_env (initConfig failing_grant_env example_state)) = None
   \<and> steps = [(''Enabling APIs'', enableAPIs)] @ (''Creating Service Account'', createServiceAccount) # drop 2 steps
   \<and> fst (runSetup_range failing_grant_env (loadConfig failing_grant_env) 5 0 [(''Enabling APIs'', enableAPIs)]
        (setup_banner (loadConfig failing_grant_env)
          (snd (checkGH failing_grant_env (initConfig failing_grant_env example_state))))) = None
   \<and> fst (createServiceAccount failing_grant_env (loadConfig failing_grant_env)
          (step_banner 5 1 ''Creating Service Account''
            (snd (runSetup_range failing_grant_env (loadConfig failing_grant_env) 5 0
               [(''Enabling APIs'', enableAPIs)]
               (setup_banner (loadConfig failing_grant_env)
                 (snd (checkGH failing_grant_env (initConfig failing_grant_env example_state))))))))
        = Some (New ''exit status 1'')
   \<and> fst (Execute failing_grant_env Setup example_state) = 1
   \<and> stderr (snd (Execute failing_grant_env Setup example_state)) =
        [''Error: Creating Service Account failed: exit status 1'' @ nl,
         UsageString failing_grant_env ''gcsetup setup'' @ nl,
         ''Creating Service Account failed: exit status 1'' @ nl]"
proof -
  let ?e = failing_grant_env
  let ?cfg = "loadConfig ?e"
  let ?s0 = "snd (checkGH ?e (initConfig ?e example_state))"
  let ?r1 = "runSetup_range ?e ?cfg 5 0 [(''Enabling APIs'', enableAPIs)] (setup_banner ?cfg ?s0)"
  let ?r2 = "createServiceAccount ?e ?cfg (step_banner 5 1 ''Creating Service Account'' (snd ?r1))"
  have i: "initConfig incomplete_env s = s" "initConfig no_cwd_env s = s" "initConfig no_gcloud_env s = s"
    "initConfig dry_run_env s = s" "initConfig failing_grant_env s = s" for s
    by (simp_all add: initConfig_def incomplete_env_def no_cwd_env_def no_gcloud_env_def dry_run_env_def
        failing_grant_env_def configured_env_def example_env_def)
  have a1: "ValidateConfig incomplete_env =
      Some (New (''missing required variables:'' @ nl @ ''  - CLOUD_RUN_REGION''))"
    by (simp add: ValidateConfig_def incomplete_env_def configured_env_def example_env_def
        example_values_def RequiredVars_def)
  have a2: "Execute incomplete_env Setup example_state =
       (1, example_state\<lparr>stderr :=
             [''Error: missing required variables:'' @ nl @ ''  - CLOUD_RUN_REGION'' @ nl,
              UsageString incomplete_env ''gcsetup setup'' @ nl,
              ''missing required variables:'' @ nl @ ''  - CLOUD_RUN_REGION'' @ nl]\<rparr>)"
    using Execute_prints_error_and_exits [where env = incomplete_env and s = example_state
        and missing = "New (''missing required variables:'' @ nl @ ''  - CLOUD_RUN_REGION'')"
        and path = "''gcsetup setup''"
        and e = "New (''missing required variables:'' @ nl @ ''  - CLOUD_RUN_REGION'')"] a1
    by (simp add: i example_state_def)
  have b1: "runInit no_cwd_env (initConfig no_cwd_env example_state) =
      (Return (Some (Wrap ''failed to get current directory: getwd: no such file or directory''
         (New ''getwd: no such file or directory''))), example_state)"
    unfolding i by (simp add: runInit_def no_cwd_env_def)
  have b2: "Execute no_cwd_env Init example_state =
       (1, example_state\<lparr>stderr :=
             [''Error: failed to get current directory: getwd: no such file or directory'' @ nl,
              UsageString no_cwd_env ''gcsetup init'' @ nl,
              ''failed to get current directory: getwd: no such file or directory'' @ nl]\<rparr>)"
    using Execute_prints_error_and_exits [THEN conjunct1, of no_cwd_env example_state]
    unfolding b1 by (simp add: failure_report_def example_state_def)
  have g: "checkGcloud no_gcloud_env =
      Some (New ''gcloud CLI not found. Install it: https://cloud.google.com/sdk/docs/install'')"
    by (simp add: checkGcloud_def no_gcloud_env_def)
  have c1: "runProjectCreate no_gcloud_env (initConfig no_gcloud_env example_state) =
      (Some (New ''gcloud CLI not found. Install it: https://cloud.google.com/sdk/docs/install''),
       example_state)"
    by (simp add: i runProjectCreate_def g)
  have c2: "Execute no_gcloud_env ProjectCreate example_state =
       (1, example_state\<lparr>stderr :=
             [''Error: gcloud CLI not found. Install it: https://cloud.google.com/sdk/docs/install'' @ nl,
              UsageString no_gcloud_env ''gcsetup project create'' @ nl,
              ''gcloud CLI not found. Install it: https://cloud.google.com/sdk/docs/install'' @ nl]\<rparr>)"
    using Execute_prints_error_and_exits [THEN conjunct2, THEN conjunct2, THEN conjunct1,
        of no_gcloud_env example_state]
    unfolding c1 by (simp add: failure_report_def example_state_def)
  have d1: "runLoadBalancer no_gcloud_env (initConfig no_gcloud_env example_state) =
      (Return (Some (New ''gcloud CLI not found. Install it: https://cloud.google.com/sdk/docs/install'')),
       example_state)"
    by (simp add: i runLoadBalancer_def g)
  have d2: "Execute no_gcloud_env LoadBalancerSetup example_state =
       (1, example_state\<lparr>stderr :=
             [''Error: gcloud CLI not found. Install it: https://cloud.google.com/sdk/docs/install'' @ nl,
              UsageString no_gcloud_env ''gcsetup loadbalancer setup'' @ nl,
              ''gcloud CLI not found. Install it: https://cloud.google.com/sdk/docs/install'' @ nl]\<rparr>)"
    using Execute_prints_error_and_exits [THEN conjunct2, THEN conjunct2, THEN conjunct2, THEN conjunct1,
        of no_gcloud_env example_state]
    unfolding d1 by (simp add: failure_report_def example_state_def)
  have d: "ValidateConfig dry_run_env = None" "checkGcloud dry_run_env = None"
    "LookPath dry_run_env ''gh''" "Run dry_run_env (executed example_state) auth_cmd = None"
    "dryRun dry_run_env"
    by (simp_all add: dry_run_env_def ValidateConfig_def checkGcloud_def configured_env_def
        example_env_def example_values_def RequiredVars_def)
  have e1: "fst (runSetup dry_run_env (initConfig dry_run_env example_state)) = None"
    using runSetup_dry(2) [OF d(5) d(1) d(2) d(3) d(4)] by (simp add: i)
  have e2: "Execute dry_run_env Setup example_state =
       (0, snd (runSetup dry_run_env (initConfig dry_run_env example_state)))"
    using Execute_prints_error_and_exits [THEN conjunct2, THEN conjunct1, of dry_run_env example_state] e1
    by (simp add: split_def)
  have v1: "ValidateConfig ?e = None" and v2: "checkGcloud ?e = None"
    by (simp_all add: failing_grant_env_def ValidateConfig_def checkGcloud_def configured_env_def
        example_env_def example_values_def RequiredVars_def)
  have h: "fst (checkGH ?e (initConfig ?e example_state)) = None"
    by (simp add: i checkGH_run failing_grant_env_def configured_env_def example_env_def grant_fails_def
        auth_cmd_def)
  have st: "steps = [(''Enabling APIs'', enableAPIs)] @ (''Creating Service Account'', createServiceAccount) # drop 2 steps"
    by (simp add: steps_def)
  have r1: "fst ?r1 = None"
    by (simp add: enableAPIs_def apis_def runCommandSilent_def exec_Run_def failing_grant_env_def
        configured_env_def example_env_def grant_fails_def Let_def)
  have r2: "fst ?r2 = Some (New ''exit status 1'')"
    by (simp add: createServiceAccount_def roles_def runCommandSilent_def exec_Run_def
        failing_grant_env_def configured_env_def example_env_def grant_fails_def Let_def)
  have r3: "stderr (snd ?r2) = []"
    by (simp add: i createServiceAccount_def roles_def runCommandSilent_def exec_Run_def enableAPIs_def
        apis_def failing_grant_env_def configured_env_def example_env_def grant_fails_def Let_def
        checkGH_run example_state_def step_banner_def setup_banner_def Println_def Print_def)
  have h': "checkGH ?e (initConfig ?e example_state) = (None, ?s0)"
    using h by (simp add: prod_eq_iff)
  have r1': "?r1 = (None, snd ?r1)"
    using r1 by (simp add: prod_eq_iff)
  have r2': "createServiceAccount ?e ?cfg (step_banner 5 (length [(''Enabling APIs'', enableAPIs)])
      ''Creating Service Account'' (snd ?r1)) = (Some (New ''exit status 1''), snd ?r2)"
    using r2 by (simp add: prod_eq_iff)
  have f0: "Execute ?e Setup example_state =
        (1, (snd ?r2)\<lparr>stderr := stderr (snd ?r2) @
              [''Error: '' @ ''Creating Service Account'' @ '' failed: '' @ Error (New ''exit status 1'') @ nl,
               UsageString ?e ''gcsetup setup'' @ nl,
               ''Creating Service Account'' @ '' failed: '' @ Error (New ''exit status 1'') @ nl]\<rparr>)"
    using Execute_prints_error_and_exits [where env = ?e and s = example_state and ?s0.0 = ?s0
        and earlier = "[(''Enabling APIs'', enableAPIs)]" and name = "''Creating Service Account''"
        and fn = createServiceAccount and later = "drop 2 steps" and ?s2.0 = "snd ?r1"
        and cause = "New ''exit status 1''" and ?s3.0 = "snd ?r2"]
      v1 v2 h' st r1' r2'
    by blast
  have f1: "fst (Execute ?e Setup example_state) = 1"
    by (subst f0) simp
  have f2: "stderr (snd (Execute ?e Setup example_state)) =
        [''Error: Creating Service Account failed: exit status 1'' @ nl,
         UsageString ?e ''gcsetup setup'' @ nl,
         ''Creating Service Account failed: exit status 1'' @ nl]"
    unfolding f0 r3 by simp
  show ?thesis
    by (intro conjI a1 a2 b2 c2 d2 e1 e2 v1 v2 h st r1 r2 f1 f2)
qed

end
